theory Spec2Isabelle
  imports Main "HOL-Library.AList"
begin

section \<open>The file system\<close>

text \<open>
  \<open>train.py\<close> drives a pipeline through the file system: every stage is gated by
  \<open>os.listdir\<close> or \<open>os.path.exists\<close>. The file system is a tree. A path is the list of
  its components below the directory the process runs in (so \<open>[]\<close> is that directory
  itself, and \<open>os.path.join p name\<close> is \<open>p @ [name]\<close>); \<open>..\<close>, absolute paths, symbolic links
  and permissions are not modelled. A regular file carries its content.
\<close>

type_synonym path = "string list"

datatype node = File string | Dir "(string \<times> node) list"

text \<open>The exceptions of the run. \<open>Failure\<close> is an exception raised inside a collaborator.\<close>

datatype error =
    AssertionError string
  | FileNotFoundError
  | NotADirectoryError
  | FileExistsError
  | TypeError
  | Failure string

fun lookup :: "node \<Rightarrow> path \<Rightarrow> error + node" where
  "lookup n [] = Inr n"
| "lookup (File c) (x # xs) = Inl NotADirectoryError"
| "lookup (Dir es) (x # xs) =
     (case map_of es x of None \<Rightarrow> Inl FileNotFoundError | Some ch \<Rightarrow> lookup ch xs)"

text \<open>\<open>os.path.exists\<close>: false for a missing path and for a path through a regular file.\<close>

definition exists :: "node \<Rightarrow> path \<Rightarrow> bool" where
  "exists n p = (case lookup n p of Inl e \<Rightarrow> False | Inr x \<Rightarrow> True)"

text \<open>\<open>os.listdir\<close>: the names in a directory; raises on anything else.\<close>

definition listdir :: "node \<Rightarrow> path \<Rightarrow> error + string list" where
  "listdir n p =
     (case lookup n p of
        Inl e \<Rightarrow> Inl e
      | Inr (File c) \<Rightarrow> Inl NotADirectoryError
      | Inr (Dir es) \<Rightarrow> Inr (map fst es))"

text \<open>
  \<open>os.makedirs(p, exist_ok=True)\<close>: creates the directory and its missing parents; an
  existing directory is accepted, an existing regular file at \<open>p\<close> raises
  \<open>FileExistsError\<close>, and a regular file on the way to \<open>p\<close> raises \<open>NotADirectoryError\<close>.
\<close>

fun makedirs :: "node \<Rightarrow> path \<Rightarrow> error + node" where
  "makedirs (Dir es) [] = Inr (Dir es)"
| "makedirs (File c) [] = Inl FileExistsError"
| "makedirs (File c) (x # xs) = Inl NotADirectoryError"
| "makedirs (Dir es) (x # xs) =
     (case makedirs (case map_of es x of None \<Rightarrow> Dir [] | Some ch \<Rightarrow> ch) xs of
        Inl e \<Rightarrow> Inl e
      | Inr ch' \<Rightarrow> Inr (Dir (AList.update x ch' es)))"

text \<open>Placing a node at a path whose parent is an existing directory (nothing happens otherwise).\<close>

fun put :: "node \<Rightarrow> path \<Rightarrow> node \<Rightarrow> node" where
  "put n [] new = new"
| "put (File c) (x # xs) new = File c"
| "put (Dir es) (x # xs) new =
     (if xs = [] then Dir (AList.update x new es)
      else (case map_of es x of
              None \<Rightarrow> Dir es
            | Some ch \<Rightarrow> Dir (AList.update x (put ch xs new) es)))"

text \<open>
  The effect of the shell command \<open>cp src dst\<close> (no \<open>-r\<close>): a regular file is copied into
  the directory \<open>dst\<close> under its own name, or onto the file \<open>dst\<close>, or to the new name
  \<open>dst\<close>; a source that is a directory or is missing, and a target that is a directory
  where a file should go, make \<open>cp\<close> fail and leave the tree as it was.
\<close>

definition cp :: "node \<Rightarrow> path \<Rightarrow> path \<Rightarrow> node" where
  "cp n src dst =
     (case lookup n src of
        Inr (File c) \<Rightarrow>
          (case lookup n dst of
             Inr (Dir es) \<Rightarrow>
               (case rev src of
                  [] \<Rightarrow> n
                | name # up \<Rightarrow>
                    (case map_of es name of
                       Some (Dir sub) \<Rightarrow> n
                     | _ \<Rightarrow> put n (dst @ [name]) (File c)))
           | Inr (File old) \<Rightarrow> put n dst (File c)
           | Inl e \<Rightarrow> put n dst (File c))
      | _ \<Rightarrow> n)"

section \<open>Python's \<open>str\<close> on integers\<close>

fun str_nat :: "nat \<Rightarrow> string" where
  "str_nat n =
     (if n < 10 then [char_of (48 + n)]
      else str_nat (n div 10) @ [char_of (48 + n mod 10)])"

definition str :: "int \<Rightarrow> string" where
  "str i = (if i < 0 then CHR ''-'' # str_nat (nat (- i)) else str_nat (nat i))"

text \<open>How a path is printed in a message.\<close>

fun show_path :: "path \<Rightarrow> string" where
  "show_path [] = ''.''"
| "show_path [x] = x"
| "show_path (x # y # ys) = x @ ''/'' @ show_path (y # ys)"

definition show_opt_path :: "path option \<Rightarrow> string" where
  "show_opt_path p = (case p of None \<Rightarrow> ''None'' | Some q \<Rightarrow> show_path q)"

section \<open>Arguments, collaborators and the trace of a run\<close>

text \<open>The parameters of \<open>train\<close>, with the defaults of its signature.\<close>

record config =
  path_to_generated_data :: path
  evaluation_data :: "path option"
  output_dir :: path
  do_evaluation :: bool
  evaluation_output :: "path option"
  qgen_prefix :: string
  base_ckpt :: string
  generator :: string
  cross_encoder :: string
  batch_size_gpl :: int
  batch_size_generation :: int
  pooling :: string
  max_seq_length :: int
  new_size :: "int option"
  queries_per_passage :: int
  gpl_steps :: int
  use_amp :: bool
  retrievers :: "string list"

definition defaults :: "path \<Rightarrow> path option \<Rightarrow> path \<Rightarrow> config" where
  "defaults gen ev out =
     \<lparr> path_to_generated_data = gen, evaluation_data = ev, output_dir = out,
       do_evaluation = False, evaluation_output = None, qgen_prefix = ''qgen'',
       base_ckpt = ''distilbert-base-uncased'',
       generator = ''BeIR/query-gen-msmarco-t5-base-v1'',
       cross_encoder = ''cross-encoder/ms-marco-MiniLM-L-6-v2'',
       batch_size_gpl = 32, batch_size_generation = 32, pooling = ''mean'',
       max_seq_length = 350, new_size = None, queries_per_passage = 3,
       gpl_steps = 140000, use_amp = False,
       retrievers = [''msmarco-distilbert-base-v3'', ''msmarco-MiniLM-L-6-v3''] \<rparr>"

text \<open>
  What the training branch hands to the model, the data loader and \<open>model.fit\<close>
  (lines 97 to 118), constants included.
\<close>

record fit_args =
  model_name :: string
  max_length :: int
  pooling_mode :: string
  fpath_gpl_data :: path
  shuffle :: bool
  batch_size :: int
  drop_last :: bool
  epochs :: int
  steps_per_epoch :: int
  warmup_steps :: int
  checkpoint_save_steps :: int
  checkpoint_save_total_limit :: int
  output_path :: path
  checkpoint_path :: path
  amp :: bool

text \<open>
  A call from \<open>train\<close> to a collaborator, with the arguments it is given (the loaded
  queries and corpus apart). \<open>system_cp\<close> is \<open>os.system\<close> on the \<open>cp\<close> command line.
\<close>

datatype call =
    GenericDataLoader_call path
  | resize_call "path option" path int
  | system_cp path path
  | qgen_call path path string int int string
  | load_call path string
  | NegativeMiner_call path string "string list"
  | PseudoLabeler_call path int int string
  | fit_call fit_args
  | evaluate_call "path option" "path option" path int string string

text \<open>The lines \<open>train\<close> logs, in the order of the source.\<close>

datatype message =
    Cannot_load_evaluation_data
  | Corpus_does_not_exist path "path option"
  | Loading_from_existing_generated_data
  | No_generated_data_found
  | Using_existing_hard_negative_data
  | No_hard_negative_data_found
  | Using_existing_GPL_training_data
  | No_GPL_training_data_found
  | Now_training_GPL
  | Trained_GPL_model_found
  | Doing_evaluation_for_GPL

fun text_of :: "message \<Rightarrow> string" where
  "text_of Cannot_load_evaluation_data = ''Cannot load evaluation data for evaluation usage.''"
| "text_of (Corpus_does_not_exist gen ev) =
     ''Corpus does not exist in '' @ show_path gen @
     ''. Now clone the one from the evaluation path '' @ show_opt_path ev"
| "text_of Loading_from_existing_generated_data = ''Loading from existing generated data''"
| "text_of No_generated_data_found = ''No generated data found. Now generating it''"
| "text_of Using_existing_hard_negative_data = ''Using exisiting hard-negative data''"
| "text_of No_hard_negative_data_found = ''No hard-negative data found. Now mining it''"
| "text_of Using_existing_GPL_training_data = ''Using existing GPL training data''"
| "text_of No_GPL_training_data_found =
     ''No GPL training data found. Now generating it via pseudo labeling''"
| "text_of Now_training_GPL = ''Now training GPL on generated data''"
| "text_of Trained_GPL_model_found = ''Trained GPL model found. Now skip training''"
| "text_of Doing_evaluation_for_GPL = ''Doing evaluation for GPL''"

text \<open>
  The trace of a run: the lines it logs, the calls it makes and the normal returns from
  them, in order. A call that raises has no \<open>Return\<close>.
\<close>

datatype event = Log message | Call call | Return call

text \<open>
  The collaborators are not part of \<open>train.py\<close>; they are parameters of the model. Each
  one sees the file system, may raise, and (the two loaders apart) may change the file
  system, also when it raises. \<open>'d\<close> is whatever the loader returns
  (\<open>corpus, gen_queries, gen_qrels\<close>). \<open>load\<close> is
  \<open>GenericDataLoader(path, prefix=...).load(split="train")\<close>; \<open>NegativeMiner\<close> and
  \<open>PseudoLabeler\<close> are the construction of the object followed by its \<open>run()\<close>; \<open>fit\<close> is
  lines 97 to 118. \<open>sh\<close> is what the shell of \<open>os.system\<close> does to the file system on a
  command line that the model below does not read itself.
\<close>

record 'd toolkit =
  GenericDataLoader :: "path \<Rightarrow> node \<Rightarrow> error option"
  load :: "path \<Rightarrow> string \<Rightarrow> node \<Rightarrow> error + 'd"
  resize :: "path option \<Rightarrow> path \<Rightarrow> int \<Rightarrow> node \<Rightarrow> error option \<times> node"
  qgen :: "path \<Rightarrow> path \<Rightarrow> string \<Rightarrow> int \<Rightarrow> int \<Rightarrow> string \<Rightarrow> node \<Rightarrow> error option \<times> node"
  NegativeMiner :: "path \<Rightarrow> string \<Rightarrow> string list \<Rightarrow> node \<Rightarrow> error option \<times> node"
  PseudoLabeler :: "path \<Rightarrow> 'd \<Rightarrow> int \<Rightarrow> int \<Rightarrow> string \<Rightarrow> node \<Rightarrow> error option \<times> node"
  fit :: "fit_args \<Rightarrow> 'd \<Rightarrow> node \<Rightarrow> error option \<times> node"
  evaluate :: "path option \<Rightarrow> path option \<Rightarrow> path \<Rightarrow> int \<Rightarrow> string \<Rightarrow> string \<Rightarrow> node \<Rightarrow> error option \<times> node"
  sh :: "string \<Rightarrow> node \<Rightarrow> node"

section \<open>Running: state and exceptions\<close>

record state =
  fs :: node
  trace :: "event list"

type_synonym 'a run = "state \<Rightarrow> (error + 'a) \<times> state"

definition return :: "'a \<Rightarrow> 'a run" where
  "return a = (\<lambda>s. (Inr a, s))"

definition raise :: "error \<Rightarrow> 'a run" where
  "raise e = (\<lambda>s. (Inl e, s))"

text \<open>Sequencing: an exception ends the run in the state reached so far.\<close>

definition bind :: "'a run \<Rightarrow> ('a \<Rightarrow> 'b run) \<Rightarrow> 'b run" where
  "bind m f = (\<lambda>s. case m s of (Inl e, s') \<Rightarrow> (Inl e, s') | (Inr a, s') \<Rightarrow> f a s')"

definition emit :: "event \<Rightarrow> unit run" where
  "emit ev = (\<lambda>s. (Inr (), s\<lparr>trace := trace s @ [ev]\<rparr>))"

definition py_assert :: "bool \<Rightarrow> string \<Rightarrow> unit run" where
  "py_assert b msg = (if b then return () else raise (AssertionError msg))"

definition os_listdir :: "path \<Rightarrow> string list run" where
  "os_listdir p = (\<lambda>s. (listdir (fs s) p, s))"

definition os_path_exists :: "path \<Rightarrow> bool run" where
  "os_path_exists p = (\<lambda>s. (Inr (exists (fs s) p), s))"

definition os_makedirs :: "path \<Rightarrow> unit run" where
  "os_makedirs p =
     (\<lambda>s. case makedirs (fs s) p of
             Inl e \<Rightarrow> (Inl e, s)
           | Inr n \<Rightarrow> (Inr (), s\<lparr>fs := n\<rparr>))"

text \<open>Calling a collaborator that may change the file system.\<close>

definition invoke :: "call \<Rightarrow> (node \<Rightarrow> error option \<times> node) \<Rightarrow> unit run" where
  "invoke c f =
     (\<lambda>s. case f (fs s) of
             (Some e, n) \<Rightarrow> (Inl e, s\<lparr>fs := n, trace := trace s @ [Call c]\<rparr>)
           | (None, n) \<Rightarrow> (Inr (), s\<lparr>fs := n, trace := trace s @ [Call c, Return c]\<rparr>))"

text \<open>Calling a loader: it reads, and returns the data or raises.\<close>

definition invoke_load :: "call \<Rightarrow> (node \<Rightarrow> error + 'd) \<Rightarrow> 'd run" where
  "invoke_load c f =
     (\<lambda>s. case f (fs s) of
             Inl e \<Rightarrow> (Inl e, s\<lparr>trace := trace s @ [Call c]\<rparr>)
           | Inr d \<Rightarrow> (Inr d, s\<lparr>trace := trace s @ [Call c, Return c]\<rparr>))"

text \<open>
  Line 59 is \<open>os.system(f'cp {corpus_path} {path_to_generated_data}')\<close>: the two paths are
  printed into one command line, unquoted, and the shell reads that line. It splits the
  line at the blanks into words; the first word is the command, the others its operands.
  The model reads the line itself when every character is a blank, a letter, a digit or
  one of \<open>_ - . /\<close> (no quoting, no expansion), the command is \<open>cp\<close> and no operand is an
  option, an absolute path or a path through \<open>..\<close>; every other line is left to \<open>sh\<close>.
\<close>

definition blank :: "char \<Rightarrow> bool" where
  "blank c = (c \<in> set [CHR '' '', CHR 0x09, CHR 0x0A])"

definition plain :: "char \<Rightarrow> bool" where
  "plain c =
     (c \<in> set ''abcdefghijklmnopqrstuvwxyzABCDEFGHIJKLMNOPQRSTUVWXYZ0123456789_-./'')"

text \<open>The fields of a string between the separators, the empty ones included.\<close>

fun split_on :: "(char \<Rightarrow> bool) \<Rightarrow> string \<Rightarrow> string list" where
  "split_on sep [] = [[]]"
| "split_on sep (c # cs) =
     (if sep c then [] # split_on sep cs
      else (case split_on sep cs of
              [] \<Rightarrow> [[c]]
            | w # ws \<Rightarrow> (c # w) # ws))"

definition words_of :: "string \<Rightarrow> string list" where
  "words_of line = filter (\<lambda>w. w \<noteq> []) (split_on blank line)"

text \<open>The path a word names: \<open>a//b\<close>, \<open>a/./b\<close> and \<open>a/b/\<close> are \<open>a/b\<close>.\<close>

definition path_of :: "string \<Rightarrow> path" where
  "path_of w = filter (\<lambda>x. x \<noteq> [] \<and> x \<noteq> ''.'') (split_on (\<lambda>c. c = CHR ''/'') w)"

definition operand :: "string \<Rightarrow> bool" where
  "operand w =
     (w \<noteq> [] \<and> hd w \<noteq> CHR ''-'' \<and> hd w \<noteq> CHR ''/'' \<and>
      ''..'' \<notin> set (split_on (\<lambda>c. c = CHR ''/'') w))"

text \<open>
  \<open>cp\<close> on its operands: two are a source and a target; with more, the last must be an
  existing directory and every source before it is copied into it (a source that cannot
  be copied is passed over); with fewer, or another target, \<open>cp\<close> fails and nothing is
  copied.
\<close>

definition cp_all :: "node \<Rightarrow> path list \<Rightarrow> node" where
  "cp_all n ops =
     (case ops of
        [] \<Rightarrow> n
      | [a] \<Rightarrow> n
      | [a, b] \<Rightarrow> cp n a b
      | a # b # c # others \<Rightarrow>
          (case lookup n (last ops) of
             Inr (Dir es) \<Rightarrow> fold (\<lambda>src m. cp m src (last ops)) (butlast ops) n
           | _ \<Rightarrow> n))"

definition os_system :: "'d toolkit \<Rightarrow> string \<Rightarrow> node \<Rightarrow> node" where
  "os_system tk line n =
     (if list_all (\<lambda>c. plain c \<or> blank c) line then
        (case words_of line of
           [] \<Rightarrow> n
         | w # ws \<Rightarrow>
             if w = ''cp'' \<and> list_all operand ws then cp_all n (map path_of ws)
             else sh tk line n)
      else sh tk line n)"

text \<open>The exit status of the command is dropped: whatever \<open>cp\<close> does, nothing is raised.\<close>

definition os_system_cp :: "'d toolkit \<Rightarrow> path \<Rightarrow> path \<Rightarrow> unit run" where
  "os_system_cp tk src dst =
     invoke (system_cp src dst)
       (\<lambda>n. (None, os_system tk (''cp '' @ show_path src @ '' '' @ show_path dst) n))"

section \<open>\<open>train\<close>, stage by stage\<close>

subsection \<open>Lines 39 to 47: the assertions\<close>

definition assertions :: "'d toolkit \<Rightarrow> config \<Rightarrow> unit run" where
  "assertions tk cfg =
     bind (py_assert (pooling cfg \<in> set [''mean'', ''cls'', ''max'']) []) (\<lambda>_.
     if do_evaluation cfg then
       (case evaluation_data cfg of
          None \<Rightarrow> raise (AssertionError [])
        | Some ev \<Rightarrow>
            (\<lambda>s. case GenericDataLoader tk ev (fs s) of
                    None \<Rightarrow>
                      (Inr (), s\<lparr>trace := trace s @
                         [Call (GenericDataLoader_call ev), Return (GenericDataLoader_call ev)]\<rparr>)
                  | Some e \<Rightarrow>
                      (Inl e, s\<lparr>trace := trace s @
                         [Call (GenericDataLoader_call ev),
                          Log Cannot_load_evaluation_data]\<rparr>)))
     else return ())"

subsection \<open>Lines 51 to 59: the corpus\<close>

definition no_corpus_message :: "config \<Rightarrow> string" where
  "no_corpus_message cfg =
     ''No corpus found in evaluation path '' @ show_opt_path (evaluation_data cfg) @
     ''! It should be in the BeIR format. For more details, please refer to '' @
     ''https://github.com/UKPLab/beir#beers-available-datasets.''"

text \<open>
  \<open>os.listdir(None)\<close> lists the current directory, and \<open>os.path.join(None, ...)\<close> raises
  \<open>TypeError\<close>.
\<close>

definition ensure_corpus :: "'d toolkit \<Rightarrow> config \<Rightarrow> unit run" where
  "ensure_corpus tk cfg =
     bind (os_makedirs (path_to_generated_data cfg)) (\<lambda>_.
     bind (os_listdir (path_to_generated_data cfg)) (\<lambda>names.
     if ''corpus.jsonl'' \<notin> set names then
       bind (emit (Log (Corpus_does_not_exist (path_to_generated_data cfg) (evaluation_data cfg)))) (\<lambda>_.
       bind (os_listdir (case evaluation_data cfg of None \<Rightarrow> [] | Some ev \<Rightarrow> ev)) (\<lambda>ev_names.
       bind (py_assert (''corpus.jsonl'' \<in> set ev_names) (no_corpus_message cfg)) (\<lambda>_.
       case new_size cfg of
         Some n \<Rightarrow>
           invoke (resize_call (evaluation_data cfg) (path_to_generated_data cfg) n)
                  (resize tk (evaluation_data cfg) (path_to_generated_data cfg) n)
       | None \<Rightarrow>
           (case evaluation_data cfg of
              None \<Rightarrow> raise TypeError
            | Some ev \<Rightarrow> os_system_cp tk (ev @ [''corpus.jsonl'']) (path_to_generated_data cfg)))))
     else return ()))"

subsection \<open>Lines 63 to 70: synthetic query generation\<close>

definition load_generated :: "'d toolkit \<Rightarrow> config \<Rightarrow> 'd run" where
  "load_generated tk cfg =
     invoke_load (load_call (path_to_generated_data cfg) (qgen_prefix cfg))
                 (load tk (path_to_generated_data cfg) (qgen_prefix cfg))"

text \<open>
  The condition of line 63 lists the directory twice; nothing runs in between, so one
  listing serves both tests.
\<close>

definition generate_queries :: "'d toolkit \<Rightarrow> config \<Rightarrow> 'd run" where
  "generate_queries tk cfg =
     bind (os_listdir (path_to_generated_data cfg)) (\<lambda>names.
     if qgen_prefix cfg @ ''-qrels'' \<in> set names \<and>
        qgen_prefix cfg @ ''-queries.jsonl'' \<in> set names
     then
       bind (emit (Log Loading_from_existing_generated_data)) (\<lambda>_.
       load_generated tk cfg)
     else
       bind (emit (Log No_generated_data_found)) (\<lambda>_.
       bind (os_listdir (path_to_generated_data cfg)) (\<lambda>names'.
       bind (py_assert (''corpus.jsonl'' \<in> set names') ''At least corpus should exist!'') (\<lambda>_.
       bind (invoke
               (qgen_call (path_to_generated_data cfg) (path_to_generated_data cfg)
                  (generator cfg) (queries_per_passage cfg) (batch_size_generation cfg)
                  (qgen_prefix cfg))
               (qgen tk (path_to_generated_data cfg) (path_to_generated_data cfg)
                  (generator cfg) (queries_per_passage cfg) (batch_size_generation cfg)
                  (qgen_prefix cfg))) (\<lambda>_.
       load_generated tk cfg)))))"

subsection \<open>Lines 74 to 79: hard-negative mining\<close>

definition mine_negatives :: "'d toolkit \<Rightarrow> config \<Rightarrow> unit run" where
  "mine_negatives tk cfg =
     bind (os_listdir (path_to_generated_data cfg)) (\<lambda>names.
     if ''hard-negatives.jsonl'' \<in> set names then
       emit (Log Using_existing_hard_negative_data)
     else
       bind (emit (Log No_hard_negative_data_found)) (\<lambda>_.
       invoke
         (NegativeMiner_call (path_to_generated_data cfg) (qgen_prefix cfg) (retrievers cfg))
         (NegativeMiner tk (path_to_generated_data cfg) (qgen_prefix cfg) (retrievers cfg))))"

subsection \<open>Lines 83 to 88: pseudo labeling\<close>

definition pseudo_label :: "'d toolkit \<Rightarrow> config \<Rightarrow> 'd \<Rightarrow> unit run" where
  "pseudo_label tk cfg d =
     bind (os_listdir (path_to_generated_data cfg)) (\<lambda>names.
     if ''gpl-training-data.tsv'' \<in> set names then
       emit (Log Using_existing_GPL_training_data)
     else
       bind (emit (Log No_GPL_training_data_found)) (\<lambda>_.
       invoke
         (PseudoLabeler_call (path_to_generated_data cfg) (gpl_steps cfg) (batch_size_gpl cfg)
            (cross_encoder cfg))
         (PseudoLabeler tk (path_to_generated_data cfg) d (gpl_steps cfg) (batch_size_gpl cfg)
            (cross_encoder cfg))))"

subsection \<open>Lines 93 to 120: training\<close>

definition ckpt_dir :: "config \<Rightarrow> path" where
  "ckpt_dir cfg = output_dir cfg @ [str (gpl_steps cfg)]"

definition train_args :: "config \<Rightarrow> fit_args" where
  "train_args cfg =
     \<lparr> model_name = base_ckpt cfg, max_length = max_seq_length cfg,
       pooling_mode = pooling cfg,
       fpath_gpl_data = path_to_generated_data cfg @ [''gpl-training-data.tsv''],
       shuffle = False, batch_size = batch_size_gpl cfg, drop_last = True,
       epochs = 1, steps_per_epoch = gpl_steps cfg, warmup_steps = 1000,
       checkpoint_save_steps = 10000, checkpoint_save_total_limit = 10000,
       output_path = output_dir cfg, checkpoint_path = output_dir cfg,
       amp = use_amp cfg \<rparr>"

definition fit_model :: "'d toolkit \<Rightarrow> config \<Rightarrow> 'd \<Rightarrow> unit run" where
  "fit_model tk cfg d =
     bind (emit (Log Now_training_GPL)) (\<lambda>_.
     invoke (fit_call (train_args cfg)) (fit tk (train_args cfg) d))"

text \<open>
  Line 94: \<open>not exists(ckpt_dir) or (exists(ckpt_dir) and not listdir(ckpt_dir))\<close>;
  \<open>listdir\<close> is reached only when the path exists, and raises when it is a regular file.
\<close>

definition train_model :: "'d toolkit \<Rightarrow> config \<Rightarrow> 'd \<Rightarrow> unit run" where
  "train_model tk cfg d =
     bind (os_path_exists (ckpt_dir cfg)) (\<lambda>found.
     if \<not> found then fit_model tk cfg d
     else
       bind (os_listdir (ckpt_dir cfg)) (\<lambda>names.
       if names = [] then fit_model tk cfg d
       else emit (Log Trained_GPL_model_found)))"

subsection \<open>Lines 123 to 132: evaluation\<close>

definition evaluate_model :: "'d toolkit \<Rightarrow> config \<Rightarrow> unit run" where
  "evaluate_model tk cfg =
     (if do_evaluation cfg then
        bind (emit (Log Doing_evaluation_for_GPL)) (\<lambda>_.
        invoke
          (evaluate_call (evaluation_data cfg) (evaluation_output cfg) (ckpt_dir cfg)
             (max_seq_length cfg) ''dot'' (pooling cfg))
          (evaluate tk (evaluation_data cfg) (evaluation_output cfg) (ckpt_dir cfg)
             (max_seq_length cfg) ''dot'' (pooling cfg)))
      else return ())"

subsection \<open>The whole function\<close>

definition train :: "'d toolkit \<Rightarrow> config \<Rightarrow> unit run" where
  "train tk cfg =
     bind (assertions tk cfg) (\<lambda>_.
     bind (ensure_corpus tk cfg) (\<lambda>_.
     bind (generate_queries tk cfg) (\<lambda>d.
     bind (mine_negatives tk cfg) (\<lambda>_.
     bind (pseudo_label tk cfg d) (\<lambda>_.
     bind (train_model tk cfg d) (\<lambda>_.
     evaluate_model tk cfg))))))"

section \<open>Observing a run\<close>

text \<open>The events a computation adds to the trace, and the calls among them.\<close>

definition events_of :: "'a run \<Rightarrow> state \<Rightarrow> event list" where
  "events_of m s = drop (length (trace s)) (trace (snd (m s)))"

text \<open>The stages of the pipeline, and the stage every event belongs to.\<close>

datatype stage =
    Assertions | Ensure_corpus | Generate_queries | Mine_negatives | Pseudo_label
  | Train | Evaluate

fun position :: "stage \<Rightarrow> nat" where
  "position Assertions = 0"
| "position Ensure_corpus = 1"
| "position Generate_queries = 2"
| "position Mine_negatives = 3"
| "position Pseudo_label = 4"
| "position Train = 5"
| "position Evaluate = 6"

fun stage_of_call :: "call \<Rightarrow> stage" where
  "stage_of_call (GenericDataLoader_call ev) = Assertions"
| "stage_of_call (resize_call ev gen n) = Ensure_corpus"
| "stage_of_call (system_cp src dst) = Ensure_corpus"
| "stage_of_call (qgen_call p out g q b pre) = Generate_queries"
| "stage_of_call (load_call p pre) = Generate_queries"
| "stage_of_call (NegativeMiner_call p pre rs) = Mine_negatives"
| "stage_of_call (PseudoLabeler_call p st b ce) = Pseudo_label"
| "stage_of_call (fit_call a) = Train"
| "stage_of_call (evaluate_call ev out ck len sf pool) = Evaluate"

fun stage_of_message :: "message \<Rightarrow> stage" where
  "stage_of_message Cannot_load_evaluation_data = Assertions"
| "stage_of_message (Corpus_does_not_exist gen ev) = Ensure_corpus"
| "stage_of_message Loading_from_existing_generated_data = Generate_queries"
| "stage_of_message No_generated_data_found = Generate_queries"
| "stage_of_message Using_existing_hard_negative_data = Mine_negatives"
| "stage_of_message No_hard_negative_data_found = Mine_negatives"
| "stage_of_message Using_existing_GPL_training_data = Pseudo_label"
| "stage_of_message No_GPL_training_data_found = Pseudo_label"
| "stage_of_message Now_training_GPL = Train"
| "stage_of_message Trained_GPL_model_found = Train"
| "stage_of_message Doing_evaluation_for_GPL = Evaluate"

fun stage_of :: "event \<Rightarrow> stage" where
  "stage_of (Log m) = stage_of_message m"
| "stage_of (Call c) = stage_of_call c"
| "stage_of (Return c) = stage_of_call c"

text \<open>
  A call that recomputes an artifact: the generator, the miner, the labeler, the fitting.
  A stage is skipped when it logs its skip line, leaves the file system as it was and makes
  no such call.
\<close>

fun recomputes :: "call \<Rightarrow> bool" where
  "recomputes (qgen_call p out g q b pre) = True"
| "recomputes (NegativeMiner_call p pre rs) = True"
| "recomputes (PseudoLabeler_call p st b ce) = True"
| "recomputes (fit_call a) = True"
| "recomputes c = False"



text \<open>
  A computation emits \<open>P\<close> when it only appends to the trace, and what it appends
  satisfies \<open>P\<close>. \<open>may_emit\<close> lists, stage by stage, the events \<open>train\<close> can append.
\<close>

definition emits :: "(event \<Rightarrow> bool) \<Rightarrow> 'a run \<Rightarrow> bool" where
  "emits P m = (\<forall>s. \<exists>evs. trace (snd (m s)) = trace s @ evs \<and> (\<forall>e\<in>set evs. P e))"

fun may_emit :: "config \<Rightarrow> stage \<Rightarrow> event list" where
  "may_emit cfg Assertions =
     (case evaluation_data cfg of
        None \<Rightarrow> []
      | Some ev \<Rightarrow> [Call (GenericDataLoader_call ev), Return (GenericDataLoader_call ev),
                   Log Cannot_load_evaluation_data])"
| "may_emit cfg Ensure_corpus =
     Log (Corpus_does_not_exist (path_to_generated_data cfg) (evaluation_data cfg)) #
     (case new_size cfg of
        Some n \<Rightarrow> [Call (resize_call (evaluation_data cfg) (path_to_generated_data cfg) n),
                  Return (resize_call (evaluation_data cfg) (path_to_generated_data cfg) n)]
      | None \<Rightarrow>
          (case evaluation_data cfg of
             None \<Rightarrow> []
           | Some ev \<Rightarrow> [Call (system_cp (ev @ [''corpus.jsonl'']) (path_to_generated_data cfg)),
                        Return (system_cp (ev @ [''corpus.jsonl'']) (path_to_generated_data cfg))]))"
| "may_emit cfg Generate_queries =
     [Log Loading_from_existing_generated_data, Log No_generated_data_found,
      Call (qgen_call (path_to_generated_data cfg) (path_to_generated_data cfg)
              (generator cfg) (queries_per_passage cfg) (batch_size_generation cfg) (qgen_prefix cfg)),
      Return (qgen_call (path_to_generated_data cfg) (path_to_generated_data cfg)
              (generator cfg) (queries_per_passage cfg) (batch_size_generation cfg) (qgen_prefix cfg)),
      Call (load_call (path_to_generated_data cfg) (qgen_prefix cfg)),
      Return (load_call (path_to_generated_data cfg) (qgen_prefix cfg))]"
| "may_emit cfg Mine_negatives =
     [Log Using_existing_hard_negative_data, Log No_hard_negative_data_found,
      Call (NegativeMiner_call (path_to_generated_data cfg) (qgen_prefix cfg) (retrievers cfg)),
      Return (NegativeMiner_call (path_to_generated_data cfg) (qgen_prefix cfg) (retrievers cfg))]"
| "may_emit cfg Pseudo_label =
     [Log Using_existing_GPL_training_data, Log No_GPL_training_data_found,
      Call (PseudoLabeler_call (path_to_generated_data cfg) (gpl_steps cfg) (batch_size_gpl cfg) (cross_encoder cfg)),
      Return (PseudoLabeler_call (path_to_generated_data cfg) (gpl_steps cfg) (batch_size_gpl cfg) (cross_encoder cfg))]"
| "may_emit cfg Train =
     [Log Now_training_GPL, Log Trained_GPL_model_found,
      Call (fit_call (train_args cfg)), Return (fit_call (train_args cfg))]"
| "may_emit cfg Evaluate =
     [Log Doing_evaluation_for_GPL,
      Call (evaluate_call (evaluation_data cfg) (evaluation_output cfg) (ckpt_dir cfg)
              (max_seq_length cfg) ''dot'' (pooling cfg)),
      Return (evaluate_call (evaluation_data cfg) (evaluation_output cfg) (ckpt_dir cfg)
              (max_seq_length cfg) ''dot'' (pooling cfg))]"

section \<open>A concrete toolkit\<close>

text \<open>
  Modelled from the spec: the collaborators (\<open>GenericDataLoader\<close> of BEIR, and \<open>resize\<close>,
  \<open>qgen\<close>, \<open>NegativeMiner\<close>, \<open>PseudoLabeler\<close>, \<open>evaluate\<close> of \<open>gpl.toolkit\<close>, and the fitting
  of the model) are not in \<open>train.py\<close>. This instance does the least the spec says of
  each, on toy contents: \<open>load\<close> wants the generated queries to be there; \<open>resize\<close> keeps
  the first \<open>n\<close> characters of the corpus; every stage persists its artifact; mining fails
  as a whole, before it writes, when a retriever is unknown; fitting leaves a checkpoint
  in the directory named after the step count; the evaluation reads the evaluation data
  and fails when they are not there. The constructor of the loader is BEIR's: it joins
  the names of the files it is to read and does not touch the disk, so it raises nothing.
  The shell fails on the command lines that are left to it. The instance serves to run
  the model on concrete inputs; the theorems below hold for every toolkit, unless they
  name this one.
\<close>

definition known_retrievers :: "string list" where
  "known_retrievers = [''bm25'', ''msmarco-distilbert-base-v3'', ''msmarco-MiniLM-L-6-v3'']"

definition demo_toolkit :: "string toolkit" where
  "demo_toolkit =
     \<lparr> GenericDataLoader = (\<lambda>p n. None),
       load =
         (\<lambda>p pre n. case lookup n (p @ [pre @ ''-queries.jsonl'']) of
                       Inr (File c) \<Rightarrow> Inr c
                     | _ \<Rightarrow> Inl (Failure ''ValueError'')),
       resize =
         (\<lambda>ev gen k n.
            case ev of
              None \<Rightarrow> (Some TypeError, n)
            | Some e \<Rightarrow>
                (case lookup n (e @ [''corpus.jsonl'']) of
                   Inr (File c) \<Rightarrow> (None, put n (gen @ [''corpus.jsonl'']) (File (take (nat k) c)))
                 | _ \<Rightarrow> (Some FileNotFoundError, n))),
       qgen =
         (\<lambda>p out g q b pre n.
            (None, put (put n (out @ [pre @ ''-qrels'']) (Dir [(''train.tsv'', File ''q1 p1 1'')]))
                       (out @ [pre @ ''-queries.jsonl'']) (File ''q1''))),
       NegativeMiner =
         (\<lambda>p pre rs n.
            if set rs \<subseteq> set known_retrievers
            then (None, put n (p @ [''hard-negatives.jsonl'']) (File ''q1 p2 p3''))
            else (Some (Failure ''unknown retriever''), n)),
       PseudoLabeler =
         (\<lambda>p d st b ce n. (None, put n (p @ [''gpl-training-data.tsv'']) (File ''q1 p1 p2 0.7''))),
       fit =
         (\<lambda>a d n.
            case makedirs n (checkpoint_path a @ [str (steps_per_epoch a)]) of
              Inl e \<Rightarrow> (Some e, n)
            | Inr n' \<Rightarrow>
                (None, put n' (checkpoint_path a @ [str (steps_per_epoch a), ''pytorch_model.bin''])
                              (File ''weights''))),
       evaluate =
         (\<lambda>ev out ck len sf pool n.
            case ev of
              None \<Rightarrow> (Some TypeError, n)
            | Some e \<Rightarrow> (case listdir n e of Inl err \<Rightarrow> (Some err, n) | Inr names \<Rightarrow> (None, n))),
       sh = (\<lambda>line n. n) \<rparr>"

text \<open>A run with the defaults, and a working directory left by an interrupted run:
  generated queries and an empty \<open>hard-negatives.jsonl\<close>, no labels, no checkpoint.\<close>

definition demo_config :: config where
  "demo_config = defaults [''gen''] (Some [''eval'']) [''out'']"

definition interrupted :: state where
  "interrupted =
     \<lparr> fs = Dir [(''eval'', Dir [(''corpus.jsonl'', File ''p1 p2 p3'')]),
                 (''gen'', Dir [(''corpus.jsonl'', File ''p1 p2 p3''),
                               (''qgen-qrels'', Dir [(''train.tsv'', File ''q1 p1 1'')]),
                               (''qgen-queries.jsonl'', File ''q1''),
                               (''hard-negatives.jsonl'', File [])])],
       trace = [] \<rparr>"

text \<open>A regular file lies on the path: at the path itself or at one of its ancestors.\<close>

fun file_on_path :: "node \<Rightarrow> path \<Rightarrow> bool" where
  "file_on_path (File c) p = True"
| "file_on_path (Dir es) [] = False"
| "file_on_path (Dir es) (x # xs) =
     (case map_of es x of None \<Rightarrow> False | Some ch \<Rightarrow> file_on_path ch xs)"

text \<open>The stages after the corpus step, as \<open>train\<close> chains them.\<close>

definition stages_after_corpus :: "'d toolkit \<Rightarrow> config \<Rightarrow> unit run" where
  "stages_after_corpus tk cfg =
     bind (generate_queries tk cfg) (\<lambda>d.
     bind (mine_negatives tk cfg) (\<lambda>_.
     bind (pseudo_label tk cfg d) (\<lambda>_.
     bind (train_model tk cfg d) (\<lambda>_.
     evaluate_model tk cfg))))"

text \<open>A first run: only the evaluation data are there.\<close>

definition fresh :: state where
  "fresh = \<lparr> fs = Dir [(''eval'', Dir [(''corpus.jsonl'', File ''p1 p2 p3'')])], trace = [] \<rparr>"

text \<open>The same tree once \<open>os.makedirs\<close> has created the generated-data directory.\<close>

definition fresh_with_gen :: node where
  "fresh_with_gen = Dir [(''eval'', Dir [(''corpus.jsonl'', File ''p1 p2 p3'')]), (''gen'', Dir [])]"

definition blocked :: state where
  "blocked = \<lparr> fs = Dir [(''data'', File ''notes'')], trace = [] \<rparr>"

text \<open>
  An event that shows a stage to have finished: its skip line, or the return of the call
  that ends it (query generation ends with the loading of the generated data on both
  branches).
\<close>

fun finishes :: "stage \<Rightarrow> event \<Rightarrow> bool" where
  "finishes Generate_queries (Return (load_call p pre)) = True"
| "finishes Mine_negatives (Log Using_existing_hard_negative_data) = True"
| "finishes Mine_negatives (Return (NegativeMiner_call p pre rs)) = True"
| "finishes Pseudo_label (Log Using_existing_GPL_training_data) = True"
| "finishes Pseudo_label (Return (PseudoLabeler_call p st b ce)) = True"
| "finishes Train (Log Trained_GPL_model_found) = True"
| "finishes Train (Return (fit_call a)) = True"
| "finishes k e = False"

text \<open>
  \<open>stagewise k m\<close>: \<open>m\<close> appends events of stage \<open>k\<close> only and, from query generation on,
  an event that finishes \<open>k\<close> whenever it returns. \<open>chained k evs\<close>: the events are in the
  order of the stages, from stage \<open>k\<close> on, and every event of a stage after \<open>k\<close>
  is accompanied by an event that finishes the stage before its own.
\<close>

definition stagewise :: "stage \<Rightarrow> 'a run \<Rightarrow> bool" where
  "stagewise k m =
     (\<forall>s. \<exists>evs. trace (snd (m s)) = trace s @ evs \<and> (\<forall>e\<in>set evs. stage_of e = k) \<and>
        ((\<exists>a. fst (m s) = Inr a) \<and> 2 \<le> position k \<longrightarrow> (\<exists>f\<in>set evs. finishes k f)))"

definition chained :: "nat \<Rightarrow> event list \<Rightarrow> bool" where
  "chained k evs =
     (sorted (map (position \<circ> stage_of) evs) \<and>
      (\<forall>e\<in>set evs. k \<le> position (stage_of e)) \<and>
      (\<forall>e\<in>set evs. \<forall>j. position (stage_of e) = Suc (position j) \<and> k \<le> position j \<and>
          2 \<le> position j \<longrightarrow> (\<exists>f\<in>set evs. finishes j f)))"

text \<open>The first run, asked for a retriever that cannot be loaded.\<close>

definition unknown_retriever :: config where
  "unknown_retriever = demo_config\<lparr>retrievers := [''no-such-model'']\<rparr>"

text \<open>The first run once the corpus is copied, and once the queries are generated and loaded.\<close>

definition copied :: state where
  "copied =
     \<lparr> fs = Dir [(''eval'', Dir [(''corpus.jsonl'', File ''p1 p2 p3'')]),
                 (''gen'', Dir [(''corpus.jsonl'', File ''p1 p2 p3'')])],
       trace = [Log (Corpus_does_not_exist [''gen''] (Some [''eval''])),
                Call (system_cp [''eval'', ''corpus.jsonl''] [''gen'']),
                Return (system_cp [''eval'', ''corpus.jsonl''] [''gen''])] \<rparr>"

definition generated :: state where
  "generated =
     \<lparr> fs = Dir [(''eval'', Dir [(''corpus.jsonl'', File ''p1 p2 p3'')]),
                 (''gen'', Dir [(''corpus.jsonl'', File ''p1 p2 p3''),
                               (''qgen-qrels'', Dir [(''train.tsv'', File ''q1 p1 1'')]),
                               (''qgen-queries.jsonl'', File ''q1'')])],
       trace = [Log (Corpus_does_not_exist [''gen''] (Some [''eval''])),
                Call (system_cp [''eval'', ''corpus.jsonl''] [''gen'']),
                Return (system_cp [''eval'', ''corpus.jsonl''] [''gen'']),
                Log No_generated_data_found,
                Call (qgen_call [''gen''] [''gen''] ''BeIR/query-gen-msmarco-t5-base-v1'' 3 32 ''qgen''),
                Return (qgen_call [''gen''] [''gen''] ''BeIR/query-gen-msmarco-t5-base-v1'' 3 32 ''qgen''),
                Call (load_call [''gen''] ''qgen''),
                Return (load_call [''gen''] ''qgen'')] \<rparr>"

text \<open>\<open>keeps p m\<close>: whatever \<open>m\<close> does, the node at \<open>p\<close> (or its absence) is as before.\<close>

definition keeps :: "path \<Rightarrow> 'a run \<Rightarrow> bool" where
  "keeps p m = (\<forall>s. lookup (fs (snd (m s))) p = lookup (fs s) p)"

text \<open>The stages from pseudo labeling on, as \<open>train\<close> chains them.\<close>

definition stages_after_mining :: "'d toolkit \<Rightarrow> config \<Rightarrow> 'd \<Rightarrow> unit run" where
  "stages_after_mining tk cfg d =
     bind (pseudo_label tk cfg d) (\<lambda>_.
     bind (train_model tk cfg d) (\<lambda>_.
     evaluate_model tk cfg))"

text \<open>Reading a decimal numeral back.\<close>

definition read_nat :: "string \<Rightarrow> nat" where
  "read_nat cs = foldl (\<lambda>a c. 10 * a + (of_char c - 48)) 0 cs"

text \<open>The working directory left by a complete run with the defaults: every artifact is
  there, and a checkpoint for 140000 steps.\<close>

definition completed :: state where
  "completed =
     \<lparr> fs = Dir [(''eval'', Dir [(''corpus.jsonl'', File ''p1 p2 p3'')]),
                 (''gen'', Dir [(''corpus.jsonl'', File ''p1 p2 p3''),
                               (''qgen-qrels'', Dir [(''train.tsv'', File ''q1 p1 1'')]),
                               (''qgen-queries.jsonl'', File ''q1''),
                               (''hard-negatives.jsonl'', File ''q1 p2 p3''),
                               (''gpl-training-data.tsv'', File ''q1 p1 p2 0.7'')]),
                 (''out'', Dir [(''140000'', Dir [(''pytorch_model.bin'', File ''weights'')])])],
       trace = [] \<rparr>"

text \<open>The stages from query generation to pseudo labeling: the upstream of training.\<close>

definition upstream :: "stage set" where
  "upstream = {Ensure_corpus, Generate_queries, Mine_negatives, Pseudo_label}"

text \<open>What a run logs and calls when it finds every upstream artifact.\<close>

definition reused :: "config \<Rightarrow> event list" where
  "reused cfg =
     [Log Loading_from_existing_generated_data,
      Call (load_call (path_to_generated_data cfg) (qgen_prefix cfg)),
      Return (load_call (path_to_generated_data cfg) (qgen_prefix cfg)),
      Log Using_existing_hard_negative_data,
      Log Using_existing_GPL_training_data]"

text \<open>
  Modelled from the spec: \<open>GenerativePseudoLabelingDataset\<close> (the training example
  assembler, \<open>gpl/toolkit/dataset.py\<close>) is not in \<open>src/\<close>. Sections 3 and 4.3: a label
  row names a query, a positive and a negative passage and carries the two teacher scores;
  the assembler "resolves the identifiers in each MarginLabel row against the in-memory
  query and passage text tables and yields a TrainingExample per row, preserving the row
  order", the example being the three texts and the target margin, the positive score
  minus the negative one. The tables are taken to hold every identifier of the rows.
\<close>

record 'a label_row =
  query_id :: string
  positive_id :: string
  negative_id :: string
  score_positive :: 'a
  score_negative :: 'a

record 'a training_example =
  query_text :: string
  positive_text :: string
  negative_text :: string
  target_margin :: 'a

definition example :: "(string \<Rightarrow> string) \<Rightarrow> (string \<Rightarrow> string) \<Rightarrow> ('a::minus) label_row \<Rightarrow> 'a training_example" where
  "example queries corpus r =
     \<lparr> query_text = queries (query_id r), positive_text = corpus (positive_id r),
       negative_text = corpus (negative_id r),
       target_margin = score_positive r - score_negative r \<rparr>"

definition GenerativePseudoLabelingDataset ::
  "('a::minus) label_row list \<Rightarrow> (string \<Rightarrow> string) \<Rightarrow> (string \<Rightarrow> string) \<Rightarrow> 'a training_example list" where
  "GenerativePseudoLabelingDataset rows queries corpus = map (example queries corpus) rows"

text \<open>
  \<open>torch.utils.data.DataLoader\<close> over a dataset given as the list of its items. The sampler
  visits the items in their order, or, with \<open>shuffle\<close>, in the order \<open>rnd\<close> draws for the
  pass; the batches are consecutive runs of \<open>batch_size\<close> items, the last, shorter one
  being dropped with \<open>drop_last\<close>. A batch size that is not positive is a \<open>ValueError\<close>.
\<close>

fun batches :: "nat \<Rightarrow> bool \<Rightarrow> 'a list \<Rightarrow> 'a list list" where
  "batches b dl xs =
     (if b = 0 \<or> xs = [] then []
      else if length xs < b then (if dl then [] else [xs])
      else take b xs # batches b dl (drop b xs))"

definition DataLoader ::
  "'a list \<Rightarrow> bool \<Rightarrow> int \<Rightarrow> bool \<Rightarrow> ('a list \<Rightarrow> 'a list) \<Rightarrow> error + 'a list list" where
  "DataLoader dataset shuffle_items b dl rnd =
     (if b \<le> 0 then Inl (Failure ''ValueError'')
      else Inr (batches (nat b) dl (if shuffle_items then rnd dataset else dataset)))"

text \<open>The batches that the arguments of a fitting make of a dataset: lines 103 and 104.\<close>

definition train_dataloader ::
  "fit_args \<Rightarrow> 'a list \<Rightarrow> ('a list \<Rightarrow> 'a list) \<Rightarrow> error + 'a list list" where
  "train_dataloader a train_dataset rnd =
     DataLoader train_dataset (shuffle a) (batch_size a) (drop_last a) rnd"

text \<open>Three label rows with whole scores, and text tables that spell the identifier out.\<close>

definition demo_rows :: "int label_row list" where
  "demo_rows =
     [\<lparr> query_id = ''q1'', positive_id = ''p1'', negative_id = ''p2'', score_positive = 9, score_negative = 2 \<rparr>,
      \<lparr> query_id = ''q2'', positive_id = ''p3'', negative_id = ''p1'', score_positive = 7, score_negative = 5 \<rparr>,
      \<lparr> query_id = ''q1'', positive_id = ''p1'', negative_id = ''p3'', score_positive = 9, score_negative = 1 \<rparr>]"

definition demo_text :: "string \<Rightarrow> string" where
  "demo_text i = ''text of '' @ i"

text \<open>The run of \<open>interrupted\<close> when an evaluation is asked for on data that are not there.\<close>

definition unloadable :: config where
  "unloadable = demo_config\<lparr>do_evaluation := True, evaluation_data := Some [''nowhere'']\<rparr>"

text \<open>A first run whose generated-data directory has a blank in its name.\<close>

definition spaced :: config where
  "spaced = demo_config\<lparr>path_to_generated_data := [''my gen'']\<rparr>"

text \<open>A first run on evaluation data whose \<open>corpus.jsonl\<close> is a directory.\<close>

definition corpus_is_directory :: state where
  "corpus_is_directory = \<lparr> fs = Dir [(''eval'', Dir [(''corpus.jsonl'', Dir [])])], trace = [] \<rparr>"

section \<open>What each stage appends to the trace\<close>

lemma emits_return: "emits P (return a)"
  by (simp add: emits_def return_def)

lemma emits_raise: "emits P (raise e)"
  by (simp add: emits_def raise_def)

lemma emits_py_assert: "emits P (py_assert b msg)"
  by (simp add: py_assert_def emits_return emits_raise)

lemma emits_os_listdir: "emits P (os_listdir p)"
  by (simp add: emits_def os_listdir_def)

lemma emits_os_path_exists: "emits P (os_path_exists p)"
  by (simp add: emits_def os_path_exists_def)

lemma emits_os_makedirs: "emits P (os_makedirs p)"
  by (simp add: emits_def os_makedirs_def split: sum.splits)

lemma emits_emit: "P ev \<Longrightarrow> emits P (emit ev)"
  by (simp add: emits_def emit_def)

lemma emits_invoke: "P (Call c) \<Longrightarrow> P (Return c) \<Longrightarrow> emits P (invoke c f)"
  by (simp add: emits_def invoke_def split: prod.splits option.splits)

lemma emits_invoke_load: "P (Call c) \<Longrightarrow> P (Return c) \<Longrightarrow> emits P (invoke_load c f)"
  by (simp add: emits_def invoke_load_def split: sum.splits)

lemma emits_bind:
  assumes "emits P m" and "\<And>a. emits P (f a)"
  shows "emits P (bind m f)"
proof (unfold emits_def, intro allI)
  fix s
  from assms(1) obtain evs where m: "trace (snd (m s)) = trace s @ evs" "\<forall>e\<in>set evs. P e"
    unfolding emits_def by blast
  show "\<exists>evs. trace (snd (bind m f s)) = trace s @ evs \<and> (\<forall>e\<in>set evs. P e)"
  proof (cases "m s")
    case (Pair r s')
    show ?thesis
    proof (cases r)
      case (Inl e)
      with Pair m show ?thesis by (auto simp: bind_def)
    next
      case (Inr a)
      from assms(2) [of a] obtain evs' where
        f: "trace (snd (f a s')) = trace s' @ evs'" "\<forall>e\<in>set evs'. P e"
        unfolding emits_def by blast
      with Pair Inr m show ?thesis by (auto simp: bind_def)
    qed
  qed
qed

lemma emits_mono: "emits P m \<Longrightarrow> (\<And>e. P e \<Longrightarrow> Q e) \<Longrightarrow> emits Q m"
  unfolding emits_def by blast

lemma emits_if: "emits P a \<Longrightarrow> emits P b \<Longrightarrow> emits P (if c then a else b)"
  by simp

lemma emits_case_option:
  "(v = None \<Longrightarrow> emits P a) \<Longrightarrow> (\<And>x. v = Some x \<Longrightarrow> emits P (b x)) \<Longrightarrow>
   emits P (case v of None \<Rightarrow> a | Some x \<Rightarrow> b x)"
  by (cases v) simp_all

lemmas emits_intros =
  emits_bind emits_if emits_case_option emits_return emits_raise emits_py_assert emits_os_listdir
  emits_os_path_exists emits_os_makedirs emits_emit emits_invoke emits_invoke_load

lemma emits_assertions: "emits (\<lambda>e. e \<in> set (may_emit cfg Assertions)) (assertions tk cfg)"
  unfolding assertions_def
  apply (intro emits_intros)
  apply (auto simp: emits_def split: option.splits)
  done

lemma emits_ensure_corpus: "emits (\<lambda>e. e \<in> set (may_emit cfg Ensure_corpus)) (ensure_corpus tk cfg)"
  unfolding ensure_corpus_def os_system_cp_def
  by (intro emits_intros) (simp_all split: option.splits)

lemma emits_load_generated: "emits (\<lambda>e. e \<in> set (may_emit cfg Generate_queries)) (load_generated tk cfg)"
  unfolding load_generated_def by (intro emits_intros) simp_all

lemma emits_generate_queries: "emits (\<lambda>e. e \<in> set (may_emit cfg Generate_queries)) (generate_queries tk cfg)"
  unfolding generate_queries_def
  by (intro emits_intros emits_load_generated) simp_all

lemma emits_mine_negatives: "emits (\<lambda>e. e \<in> set (may_emit cfg Mine_negatives)) (mine_negatives tk cfg)"
  unfolding mine_negatives_def by (intro emits_intros) simp_all

lemma emits_pseudo_label: "emits (\<lambda>e. e \<in> set (may_emit cfg Pseudo_label)) (pseudo_label tk cfg d)"
  unfolding pseudo_label_def by (intro emits_intros) simp_all

lemma emits_train_model: "emits (\<lambda>e. e \<in> set (may_emit cfg Train)) (train_model tk cfg d)"
  unfolding train_model_def fit_model_def by (intro emits_intros) simp_all

lemma emits_evaluate_model: "emits (\<lambda>e. e \<in> set (may_emit cfg Evaluate)) (evaluate_model tk cfg)"
  unfolding evaluate_model_def by (intro emits_intros) simp_all

lemma may_emit_stage: "e \<in> set (may_emit cfg k) \<Longrightarrow> stage_of e = k"
  by (cases k) (auto split: option.splits)


section \<open>The outcome of each stage\<close>

lemma generate_listed:
  assumes "listdir (fs s) (path_to_generated_data cfg) = Inr names"
    and "qgen_prefix cfg @ ''-qrels'' \<in> set names" "qgen_prefix cfg @ ''-queries.jsonl'' \<in> set names"
  shows "generate_queries tk cfg s =
     (case load tk (path_to_generated_data cfg) (qgen_prefix cfg) (fs s) of
        Inl e \<Rightarrow> (Inl e, s\<lparr>trace := trace s @ [Log Loading_from_existing_generated_data,
                     Call (load_call (path_to_generated_data cfg) (qgen_prefix cfg))]\<rparr>)
      | Inr d \<Rightarrow> (Inr d, s\<lparr>trace := trace s @ [Log Loading_from_existing_generated_data,
                     Call (load_call (path_to_generated_data cfg) (qgen_prefix cfg)),
                     Return (load_call (path_to_generated_data cfg) (qgen_prefix cfg))]\<rparr>))"
  using assms
  by (simp add: generate_queries_def bind_def os_listdir_def emit_def load_generated_def
      invoke_load_def split: sum.splits)


lemma mine_listed:
  "listdir (fs s) (path_to_generated_data cfg) = Inr names \<Longrightarrow> ''hard-negatives.jsonl'' \<in> set names \<Longrightarrow>
   mine_negatives tk cfg s = (Inr (), s\<lparr>trace := trace s @ [Log Using_existing_hard_negative_data]\<rparr>)"
  by (simp add: mine_negatives_def bind_def os_listdir_def emit_def)

lemma mine_unlisted:
  "listdir (fs s) (path_to_generated_data cfg) = Inr names \<Longrightarrow> ''hard-negatives.jsonl'' \<notin> set names \<Longrightarrow>
   mine_negatives tk cfg s =
     (case NegativeMiner tk (path_to_generated_data cfg) (qgen_prefix cfg) (retrievers cfg) (fs s) of
        (Some e, n) \<Rightarrow> (Inl e, s\<lparr>fs := n, trace := trace s @ [Log No_hard_negative_data_found,
             Call (NegativeMiner_call (path_to_generated_data cfg) (qgen_prefix cfg) (retrievers cfg))]\<rparr>)
      | (None, n) \<Rightarrow> (Inr (), s\<lparr>fs := n, trace := trace s @ [Log No_hard_negative_data_found,
             Call (NegativeMiner_call (path_to_generated_data cfg) (qgen_prefix cfg) (retrievers cfg)),
             Return (NegativeMiner_call (path_to_generated_data cfg) (qgen_prefix cfg) (retrievers cfg))]\<rparr>))"
  by (simp add: mine_negatives_def bind_def os_listdir_def emit_def invoke_def split: prod.splits option.splits)

lemma label_listed:
  "listdir (fs s) (path_to_generated_data cfg) = Inr names \<Longrightarrow> ''gpl-training-data.tsv'' \<in> set names \<Longrightarrow>
   pseudo_label tk cfg d s = (Inr (), s\<lparr>trace := trace s @ [Log Using_existing_GPL_training_data]\<rparr>)"
  by (simp add: pseudo_label_def bind_def os_listdir_def emit_def)

lemma label_unlisted:
  "listdir (fs s) (path_to_generated_data cfg) = Inr names \<Longrightarrow> ''gpl-training-data.tsv'' \<notin> set names \<Longrightarrow>
   pseudo_label tk cfg d s =
     (case PseudoLabeler tk (path_to_generated_data cfg) d (gpl_steps cfg) (batch_size_gpl cfg) (cross_encoder cfg) (fs s) of
        (Some e, n) \<Rightarrow> (Inl e, s\<lparr>fs := n, trace := trace s @ [Log No_GPL_training_data_found,
             Call (PseudoLabeler_call (path_to_generated_data cfg) (gpl_steps cfg) (batch_size_gpl cfg) (cross_encoder cfg))]\<rparr>)
      | (None, n) \<Rightarrow> (Inr (), s\<lparr>fs := n, trace := trace s @ [Log No_GPL_training_data_found,
             Call (PseudoLabeler_call (path_to_generated_data cfg) (gpl_steps cfg) (batch_size_gpl cfg) (cross_encoder cfg)),
             Return (PseudoLabeler_call (path_to_generated_data cfg) (gpl_steps cfg) (batch_size_gpl cfg) (cross_encoder cfg))]\<rparr>))"
  by (simp add: pseudo_label_def bind_def os_listdir_def emit_def invoke_def split: prod.splits option.splits)

lemma fit_model_run:
  "fit_model tk cfg d s =
     (case fit tk (train_args cfg) d (fs s) of
        (Some e, n) \<Rightarrow> (Inl e, s\<lparr>fs := n, trace := trace s @ [Log Now_training_GPL, Call (fit_call (train_args cfg))]\<rparr>)
      | (None, n) \<Rightarrow> (Inr (), s\<lparr>fs := n, trace := trace s @ [Log Now_training_GPL, Call (fit_call (train_args cfg)),
             Return (fit_call (train_args cfg))]\<rparr>))"
  by (simp add: fit_model_def bind_def emit_def invoke_def split: prod.splits option.splits)

lemma train_model_found:
  "listdir (fs s) (ckpt_dir cfg) = Inr (x # xs) \<Longrightarrow>
   train_model tk cfg d s = (Inr (), s\<lparr>trace := trace s @ [Log Trained_GPL_model_found]\<rparr>)"
  by (auto simp: train_model_def bind_def os_path_exists_def os_listdir_def emit_def exists_def
      listdir_def split: sum.splits node.splits)

lemma train_model_fits:
  "\<not> exists (fs s) (ckpt_dir cfg) \<or> listdir (fs s) (ckpt_dir cfg) = Inr [] \<Longrightarrow>
   train_model tk cfg d s = fit_model tk cfg d s"
  by (auto simp: train_model_def bind_def os_path_exists_def os_listdir_def)

lemma train_model_regular_file:
  "lookup (fs s) (ckpt_dir cfg) = Inr (File c) \<Longrightarrow>
   train_model tk cfg d s = (Inl NotADirectoryError, s)"
  by (simp add: train_model_def bind_def os_path_exists_def os_listdir_def exists_def listdir_def)

lemma ckpt_cases:
  "(\<exists>x xs. listdir n p = Inr (x # xs)) \<or> (\<not> exists n p \<or> listdir n p = Inr []) \<or> (\<exists>c. lookup n p = Inr (File c))"
  by (cases "lookup n p") (auto simp: exists_def listdir_def neq_Nil_conv split: node.splits)

text \<open>The command line of the corpus step on the paths of the examples.\<close>

lemma demo_cp_line:
  "os_system tk ''cp eval/corpus.jsonl gen'' n = cp n [''eval'', ''corpus.jsonl''] [''gen'']"
  by (simp add: os_system_def words_of_def path_of_def operand_def cp_all_def plain_def blank_def)

lemma demo_config_fields [simp]:
  "path_to_generated_data demo_config = [''gen'']"
  "evaluation_data demo_config = Some [''eval'']"
  "output_dir demo_config = [''out'']"
  "do_evaluation demo_config = False"
  "evaluation_output demo_config = None"
  "qgen_prefix demo_config = ''qgen''"
  "base_ckpt demo_config = ''distilbert-base-uncased''"
  "generator demo_config = ''BeIR/query-gen-msmarco-t5-base-v1''"
  "cross_encoder demo_config = ''cross-encoder/ms-marco-MiniLM-L-6-v2''"
  "batch_size_gpl demo_config = 32"
  "batch_size_generation demo_config = 32"
  "pooling demo_config = ''mean''"
  "max_seq_length demo_config = 350"
  "new_size demo_config = None"
  "queries_per_passage demo_config = 3"
  "gpl_steps demo_config = 140000"
  "use_amp demo_config = False"
  "retrievers demo_config = [''msmarco-distilbert-base-v3'', ''msmarco-MiniLM-L-6-v3'']"
  by (simp_all add: demo_config_def defaults_def)

lemma interrupted_gen:
  "listdir (fs interrupted) [''gen''] =
     Inr [''corpus.jsonl'', ''qgen-qrels'', ''qgen-queries.jsonl'', ''hard-negatives.jsonl'']"
  by (simp add: interrupted_def listdir_def)

lemma interrupted_listing:
  "listdir (fs interrupted) (path_to_generated_data demo_config) =
     Inr [''corpus.jsonl'', ''qgen-qrels'', ''qgen-queries.jsonl'', ''hard-negatives.jsonl'']"
  by (simp add: interrupted_gen)

section \<open>Skipping a stage\<close>





lemma makedirs_existing:
  "lookup n p = Inr (Dir es) \<Longrightarrow> makedirs n p = Inr n"
proof (induction n p rule: makedirs.induct)
  case (4 ds x xs)
  then show ?case
    by (cases "map_of ds x") (auto simp: AList.update_triv)
qed auto

lemma makedirs_listed:
  "listdir n p = Inr names \<Longrightarrow> makedirs n p = Inr n"
  by (auto simp: listdir_def makedirs_existing split: sum.splits node.splits)

lemma makedirs_fresh_chain: "\<exists>n. makedirs (Dir []) p = Inr n \<and> (p \<noteq> [] \<longrightarrow> lookup n p = Inr (Dir []))"
  by (induction p) (auto simp: AList.update_conv' split: sum.splits)

lemma lookup_empty_dir: "lookup (Dir []) xs = Inr m \<Longrightarrow> xs = [] \<and> m = Dir []"
  by (cases xs) auto

lemma makedirs_result:
  "makedirs n p = Inr n' \<Longrightarrow>
     (\<exists>es. lookup n p = Inr (Dir es) \<and> n' = n) \<or> (\<not> exists n p \<and> lookup n' p = Inr (Dir []))"
proof (induction n p arbitrary: n' rule: makedirs.induct)
  case (4 ds x xs)
  show ?case
  proof (cases "map_of ds x")
    case None
    with 4 show ?thesis
      by (auto simp: exists_def update_conv' split: sum.splits dest: lookup_empty_dir)
  next
    case (Some ch)
    with 4 show ?thesis
      by (auto simp: exists_def update_conv' AList.update_triv split: sum.splits)
  qed
qed (auto simp: exists_def)

lemma makedirs_succeeds_iff:
  "(\<exists>n'. makedirs n p = Inr n') \<longleftrightarrow> \<not> file_on_path n p"
proof (induction n p rule: makedirs.induct)
  case (4 ds x xs)
  show ?case
  proof (cases "map_of ds x")
    case None
    with makedirs_fresh_chain [of xs] show ?thesis by (auto split: sum.splits)
  next
    case (Some ch)
    with 4 show ?thesis by (auto split: sum.splits)
  qed
qed auto

lemma lookup_append:
  "lookup n p = Inr m \<Longrightarrow> lookup n (p @ q) = lookup m q"
  by (induction n p rule: lookup.induct) (auto split: option.splits)

lemma lookup_append_Inr:
  "lookup n (p @ q) = Inr m \<Longrightarrow> \<exists>k. lookup n p = Inr k \<and> lookup k q = Inr m"
  by (induction n p rule: lookup.induct) (auto split: option.splits)

lemma lookup_child_listed:
  assumes "lookup n (p @ [x]) = Inr m"
  shows "\<exists>names. listdir n p = Inr names \<and> x \<in> set names"
proof -
  from lookup_append_Inr [OF assms] obtain k where k: "lookup n p = Inr k" "lookup k [x] = Inr m"
    by blast
  then show ?thesis
    by (cases k) (force simp: listdir_def split: option.splits dest!: map_of_SomeD)+
qed

lemma unlisted_no_child:
  "lookup n p = Inr (Dir es) \<Longrightarrow> x \<notin> set (map fst es) \<Longrightarrow> map_of es x = None"
  by (simp add: map_of_eq_None_iff)

lemma lookup_put_child:
  "lookup n p = Inr (Dir es) \<Longrightarrow> lookup (put n (p @ [x]) v) (p @ [x]) = Inr v"
proof (induction n p arbitrary: es rule: lookup.induct)
  case (1 n)
  then show ?case by (simp add: update_conv')
next
  case (3 ds y ys)
  then show ?case
    by (cases "map_of ds y") (auto simp: update_conv')
qed auto

lemma cp_into_directory:
  assumes "lookup n (src @ [x]) = Inr (File c)" "lookup n dst = Inr (Dir es)" "x \<notin> set (map fst es)"
  shows "cp n (src @ [x]) dst = put n (dst @ [x]) (File c)"
proof -
  from assms(3) have "map_of es x = None" by (simp add: map_of_eq_None_iff)
  with assms(1,2) show ?thesis by (simp add: cp_def)
qed

lemma bind_Inl: "m s = (Inl e, s') \<Longrightarrow> bind m f s = (Inl e, s')"
  by (simp add: bind_def)

lemma bind_Inr: "m s = (Inr a, s') \<Longrightarrow> bind m f s = f a s'"
  by (simp add: bind_def)

lemma emits_events: "emits P m \<Longrightarrow> e \<in> set (events_of m s) \<Longrightarrow> P e"
  unfolding emits_def events_of_def
proof -
  assume a: "\<forall>s. \<exists>evs. trace (snd (m s)) = trace s @ evs \<and> (\<forall>e\<in>set evs. P e)"
    and b: "e \<in> set (drop (length (trace s)) (trace (snd (m s))))"
  from a obtain evs where "trace (snd (m s)) = trace s @ evs" "\<forall>e\<in>set evs. P e" by blast
  with b show "P e" by simp
qed

lemma emits_trace: "emits P m \<Longrightarrow> trace (snd (m s)) = trace s @ events_of m s"
  unfolding emits_def events_of_def
proof -
  assume a: "\<forall>s. \<exists>evs. trace (snd (m s)) = trace s @ evs \<and> (\<forall>e\<in>set evs. P e)"
  from a obtain evs where "trace (snd (m s)) = trace s @ evs" by blast
  then show "trace (snd (m s)) = trace s @ drop (length (trace s)) (trace (snd (m s)))" by simp
qed

lemma assertions_bad_pooling:
  "pooling cfg \<notin> set [''mean'', ''cls'', ''max''] \<Longrightarrow>
   assertions tk cfg s = (Inl (AssertionError []), s)"
  by (simp add: assertions_def bind_def py_assert_def raise_def)

lemma assertions_not_requested:
  "pooling cfg \<in> set [''mean'', ''cls'', ''max''] \<Longrightarrow> \<not> do_evaluation cfg \<Longrightarrow>
   assertions tk cfg s = (Inr (), s)"
  by (simp add: assertions_def bind_def py_assert_def return_def)

lemma assertions_loader_raises:
  "pooling cfg \<in> set [''mean'', ''cls'', ''max''] \<Longrightarrow> do_evaluation cfg \<Longrightarrow>
   evaluation_data cfg = Some ev \<Longrightarrow> GenericDataLoader tk ev (fs s) = Some e \<Longrightarrow>
   assertions tk cfg s =
     (Inl e, s\<lparr>trace := trace s @ [Call (GenericDataLoader_call ev), Log Cannot_load_evaluation_data]\<rparr>)"
  by (simp add: assertions_def bind_def py_assert_def return_def)

lemma assertions_loader_returns:
  "pooling cfg \<in> set [''mean'', ''cls'', ''max''] \<Longrightarrow> do_evaluation cfg \<Longrightarrow>
   evaluation_data cfg = Some ev \<Longrightarrow> GenericDataLoader tk ev (fs s) = None \<Longrightarrow>
   assertions tk cfg s =
     (Inr (), s\<lparr>trace := trace s @ [Call (GenericDataLoader_call ev), Return (GenericDataLoader_call ev)]\<rparr>)"
  by (simp add: assertions_def bind_def py_assert_def return_def)

lemma assertions_fs: "fs (snd (assertions tk cfg s)) = fs s"
  by (simp add: assertions_def bind_def py_assert_def return_def raise_def
      split: option.splits)

lemma emits_assertions_not_requested:
  "\<not> do_evaluation cfg \<Longrightarrow> emits P (assertions tk cfg)"
  by (simp add: assertions_def emits_bind emits_py_assert emits_return)

lemma ensure_corpus_makedirs_raises:
  "makedirs (fs s) (path_to_generated_data cfg) = Inl e \<Longrightarrow> ensure_corpus tk cfg s = (Inl e, s)"
  by (simp add: ensure_corpus_def bind_def os_makedirs_def)

lemma ensure_corpus_present:
  assumes "listdir (fs s) (path_to_generated_data cfg) = Inr names" "''corpus.jsonl'' \<in> set names"
  shows "ensure_corpus tk cfg s = (Inr (), s)"
  using assms makedirs_listed [OF assms(1)]
  by (simp add: ensure_corpus_def bind_def os_makedirs_def os_listdir_def return_def)

lemma ensure_corpus_absent:
  assumes "makedirs (fs s) (path_to_generated_data cfg) = Inr n"
    and "listdir n (path_to_generated_data cfg) = Inr names" "''corpus.jsonl'' \<notin> set names"
  shows "ensure_corpus tk cfg s =
     bind (os_listdir (case evaluation_data cfg of None \<Rightarrow> [] | Some ev \<Rightarrow> ev)) (\<lambda>ev_names.
       bind (py_assert (''corpus.jsonl'' \<in> set ev_names) (no_corpus_message cfg)) (\<lambda>_.
       case new_size cfg of
         Some k \<Rightarrow>
           invoke (resize_call (evaluation_data cfg) (path_to_generated_data cfg) k)
                  (resize tk (evaluation_data cfg) (path_to_generated_data cfg) k)
       | None \<Rightarrow>
           (case evaluation_data cfg of
              None \<Rightarrow> raise TypeError
            | Some ev \<Rightarrow> os_system_cp tk (ev @ [''corpus.jsonl'']) (path_to_generated_data cfg))))
       (s\<lparr>fs := n, trace := trace s @
            [Log (Corpus_does_not_exist (path_to_generated_data cfg) (evaluation_data cfg))]\<rparr>)"
  using assms
  by (simp add: ensure_corpus_def bind_def os_makedirs_def os_listdir_def emit_def
      split: sum.splits prod.splits)

lemma ensure_corpus_not_in_evaluation:
  assumes "makedirs (fs s) (path_to_generated_data cfg) = Inr n"
    and "listdir n (path_to_generated_data cfg) = Inr names" "''corpus.jsonl'' \<notin> set names"
    and "listdir n (case evaluation_data cfg of None \<Rightarrow> [] | Some ev \<Rightarrow> ev) = Inr ev_names"
    and "''corpus.jsonl'' \<notin> set ev_names"
  shows "ensure_corpus tk cfg s =
     (Inl (AssertionError (no_corpus_message cfg)),
      s\<lparr>fs := n, trace := trace s @
            [Log (Corpus_does_not_exist (path_to_generated_data cfg) (evaluation_data cfg))]\<rparr>)"
  using assms(4,5)
  by (simp add: ensure_corpus_absent [OF assms(1-3)] bind_def os_listdir_def py_assert_def raise_def)

lemma ensure_corpus_no_evaluation_directory:
  assumes "makedirs (fs s) (path_to_generated_data cfg) = Inr n"
    and "listdir n (path_to_generated_data cfg) = Inr names" "''corpus.jsonl'' \<notin> set names"
    and "listdir n (case evaluation_data cfg of None \<Rightarrow> [] | Some ev \<Rightarrow> ev) = Inl e"
  shows "ensure_corpus tk cfg s =
     (Inl e,
      s\<lparr>fs := n, trace := trace s @
            [Log (Corpus_does_not_exist (path_to_generated_data cfg) (evaluation_data cfg))]\<rparr>)"
  using assms(4)
  by (simp add: ensure_corpus_absent [OF assms(1-3)] bind_def os_listdir_def)

lemma ensure_corpus_resizes:
  assumes "makedirs (fs s) (path_to_generated_data cfg) = Inr n"
    and "listdir n (path_to_generated_data cfg) = Inr names" "''corpus.jsonl'' \<notin> set names"
    and "listdir n (case evaluation_data cfg of None \<Rightarrow> [] | Some ev \<Rightarrow> ev) = Inr ev_names"
    and "''corpus.jsonl'' \<in> set ev_names" and "new_size cfg = Some k"
  shows "ensure_corpus tk cfg s =
     invoke (resize_call (evaluation_data cfg) (path_to_generated_data cfg) k)
            (resize tk (evaluation_data cfg) (path_to_generated_data cfg) k)
       (s\<lparr>fs := n, trace := trace s @
            [Log (Corpus_does_not_exist (path_to_generated_data cfg) (evaluation_data cfg))]\<rparr>)"
  using assms(4-6)
  by (simp add: ensure_corpus_absent [OF assms(1-3)] bind_def os_listdir_def py_assert_def return_def)

lemma train_split:
  "train tk cfg =
     bind (assertions tk cfg) (\<lambda>_. bind (ensure_corpus tk cfg) (\<lambda>_. stages_after_corpus tk cfg))"
  by (simp add: train_def stages_after_corpus_def)

lemma emits_stages_after_corpus:
  assumes "emits P (generate_queries tk cfg)" "emits P (mine_negatives tk cfg)"
    "\<And>d. emits P (pseudo_label tk cfg d)" "\<And>d. emits P (train_model tk cfg d)"
    "emits P (evaluate_model tk cfg)"
  shows "emits P (stages_after_corpus tk cfg)"
  unfolding stages_after_corpus_def by (intro emits_bind assms)

lemma emits_later_stage:
  assumes "k \<noteq> j"
  shows "emits (\<lambda>e. e \<in> set (may_emit cfg k)) m \<Longrightarrow> emits (\<lambda>e. stage_of e \<noteq> j) m"
  using assms by (erule_tac emits_mono) (drule may_emit_stage, simp)

lemma stages_after_corpus_not_earlier:
  "emits (\<lambda>e. stage_of e \<noteq> Assertions \<and> stage_of e \<noteq> Ensure_corpus) (stages_after_corpus tk cfg)"
  by (rule emits_stages_after_corpus;
      rule emits_mono [OF emits_generate_queries] emits_mono [OF emits_mine_negatives]
           emits_mono [OF emits_pseudo_label] emits_mono [OF emits_train_model]
           emits_mono [OF emits_evaluate_model];
      drule may_emit_stage; simp)

lemma ensure_corpus_not_assertions:
  "emits (\<lambda>e. stage_of e \<noteq> Assertions) (ensure_corpus tk cfg)"
  by (rule emits_mono [OF emits_ensure_corpus]) (drule may_emit_stage, simp)

lemma train_without_evaluation_check:
  assumes "\<not> do_evaluation cfg"
  shows "emits (\<lambda>e. stage_of e \<noteq> Assertions) (train tk cfg)"
  unfolding train_split
  by (intro emits_bind emits_assertions_not_requested [OF assms] ensure_corpus_not_assertions
      emits_mono [OF stages_after_corpus_not_earlier]) simp

section \<open>The assertions and the corpus step\<close>

lemma fresh_makedirs: "makedirs (fs fresh) (path_to_generated_data demo_config) = Inr fresh_with_gen"
  by (simp add: fresh_def fresh_with_gen_def)

lemma fresh_with_gen_listing: "listdir fresh_with_gen (path_to_generated_data demo_config) = Inr []"
  by (simp add: fresh_with_gen_def listdir_def)

lemma interrupted_makedirs:
  "makedirs (fs interrupted) (path_to_generated_data demo_config) = Inr (fs interrupted)"
  by (rule makedirs_listed [OF interrupted_listing])

text \<open>
  C9. With \<open>corpus.jsonl\<close> listed in the generated-data directory, the corpus step does
  nothing, whatever the resize target and the evaluation path are: no call, no line, the
  state as it was. The whole run is then the same for every resize target, and no event
  of any run from that state belongs to the corpus step: no \<open>resize\<close>, no \<open>cp\<close>.
\<close>

theorem resize_ignored_when_corpus_present:
  assumes "listdir (fs s) (path_to_generated_data cfg) = Inr names" "''corpus.jsonl'' \<in> set names"
  shows
    "ensure_corpus tk (cfg\<lparr>new_size := k, evaluation_data := ev\<rparr>) s = (Inr (), s) \<and>
     train tk (cfg\<lparr>new_size := k\<rparr>) s = train tk cfg s \<and>
     (\<forall>e\<in>set (events_of (train tk (cfg\<lparr>new_size := k\<rparr>)) s). stage_of e \<noteq> Ensure_corpus)"
proof -
  have same_assertions: "assertions tk (cfg\<lparr>new_size := k\<rparr>) = assertions tk cfg"
    by (simp add: assertions_def cong: if_cong)
  have "load_generated tk (cfg\<lparr>new_size := k\<rparr>) = load_generated tk cfg"
    by (simp add: load_generated_def)
  then have g: "generate_queries tk (cfg\<lparr>new_size := k\<rparr>) = generate_queries tk cfg"
    by (simp add: generate_queries_def cong: if_cong)
  have m: "mine_negatives tk (cfg\<lparr>new_size := k\<rparr>) = mine_negatives tk cfg"
    by (simp add: mine_negatives_def cong: if_cong)
  have l: "pseudo_label tk (cfg\<lparr>new_size := k\<rparr>) d = pseudo_label tk cfg d" for d
    by (simp add: pseudo_label_def cong: if_cong)
  have "fit_model tk (cfg\<lparr>new_size := k\<rparr>) d = fit_model tk cfg d" for d
    by (simp add: fit_model_def train_args_def)
  then have t: "train_model tk (cfg\<lparr>new_size := k\<rparr>) d = train_model tk cfg d" for d
    by (simp add: train_model_def ckpt_dir_def cong: if_cong)
  have e: "evaluate_model tk (cfg\<lparr>new_size := k\<rparr>) = evaluate_model tk cfg"
    by (simp add: evaluate_model_def ckpt_dir_def cong: if_cong)
  have same_rest: "stages_after_corpus tk (cfg\<lparr>new_size := k\<rparr>) = stages_after_corpus tk cfg"
    by (simp add: stages_after_corpus_def g m l t e)
  have skip: "ensure_corpus tk c s' = (Inr (), s')"
    if "path_to_generated_data c = path_to_generated_data cfg" "fs s' = fs s" for c s'
    using that assms by (simp add: ensure_corpus_present)
  have shape: "train tk c s = bind (assertions tk c) (\<lambda>_. stages_after_corpus tk c) s"
    if "path_to_generated_data c = path_to_generated_data cfg" for c
  proof (cases "assertions tk c s")
    case (Pair r s0)
    then have "fs s0 = fs s" using assertions_fs [of tk c s] by simp
    with Pair skip [OF that, of s0] show ?thesis
      by (cases r) (simp_all add: train_split bind_def)
  qed
  have "ensure_corpus tk (cfg\<lparr>new_size := k, evaluation_data := ev\<rparr>) s = (Inr (), s)"
    by (rule skip) simp_all
  moreover have "train tk (cfg\<lparr>new_size := k\<rparr>) s = train tk cfg s"
    by (simp add: shape same_assertions same_rest)
  moreover have "\<forall>e\<in>set (events_of (train tk (cfg\<lparr>new_size := k\<rparr>)) s). stage_of e \<noteq> Ensure_corpus"
  proof
    fix e assume "e \<in> set (events_of (train tk (cfg\<lparr>new_size := k\<rparr>)) s)"
    then have e: "e \<in> set (events_of (bind (assertions tk cfg) (\<lambda>_. stages_after_corpus tk cfg)) s)"
      by (simp add: events_of_def shape same_assertions same_rest)
    have "emits (\<lambda>e. stage_of e \<noteq> Ensure_corpus)
            (bind (assertions tk cfg) (\<lambda>_. stages_after_corpus tk cfg))"
      by (intro emits_bind emits_later_stage [OF _ emits_assertions]
          emits_mono [OF stages_after_corpus_not_earlier]) simp_all
    from emits_events [OF this e] show "stage_of e \<noteq> Ensure_corpus" .
  qed
  ultimately show ?thesis by blast
qed

theorem resize_ignored_when_corpus_present_witness:
  "listdir (fs interrupted) [''gen''] =
     Inr [''corpus.jsonl'', ''qgen-qrels'', ''qgen-queries.jsonl'', ''hard-negatives.jsonl''] \<and>
   ensure_corpus demo_toolkit (demo_config\<lparr>new_size := Some 2, evaluation_data := None\<rparr>) interrupted
     = (Inr (), interrupted) \<and>
   train demo_toolkit (demo_config\<lparr>new_size := Some 2\<rparr>) interrupted = train demo_toolkit demo_config interrupted \<and>
   Ensure_corpus \<notin> stage_of ` set (events_of (train demo_toolkit (demo_config\<lparr>new_size := Some 2\<rparr>)) interrupted)"
proof -
  from resize_ignored_when_corpus_present [OF interrupted_listing, where tk = demo_toolkit and k = "Some 2" and ev = None]
  have "listdir (fs interrupted) [''gen''] =
     Inr [''corpus.jsonl'', ''qgen-qrels'', ''qgen-queries.jsonl'', ''hard-negatives.jsonl''] \<and>
   ensure_corpus demo_toolkit (demo_config\<lparr>new_size := Some 2, evaluation_data := None\<rparr>) interrupted
     = (Inr (), interrupted) \<and>
   train demo_toolkit (demo_config\<lparr>new_size := Some 2\<rparr>) interrupted = train demo_toolkit demo_config interrupted \<and>
   (\<forall>e\<in>set (events_of (train demo_toolkit (demo_config\<lparr>new_size := Some 2\<rparr>)) interrupted).
      stage_of e \<noteq> Ensure_corpus)"
    by (simp add: interrupted_gen)
  then show ?thesis by (auto simp add: image_iff)
qed

lemma ensure_corpus_message_logged:
  assumes "makedirs (fs s) (path_to_generated_data cfg) = Inr n"
    and "listdir n (path_to_generated_data cfg) = Inr names" "''corpus.jsonl'' \<notin> set names"
  shows "Log (Corpus_does_not_exist (path_to_generated_data cfg) (evaluation_data cfg))
           \<in> set (events_of (ensure_corpus tk cfg) s)"
proof -
  let ?rest = "\<lambda>ev_names.
       bind (py_assert (''corpus.jsonl'' \<in> set ev_names) (no_corpus_message cfg)) (\<lambda>_.
       case new_size cfg of
         Some k \<Rightarrow>
           invoke (resize_call (evaluation_data cfg) (path_to_generated_data cfg) k)
                  (resize tk (evaluation_data cfg) (path_to_generated_data cfg) k)
       | None \<Rightarrow>
           (case evaluation_data cfg of
              None \<Rightarrow> raise TypeError
            | Some ev \<Rightarrow> os_system_cp tk (ev @ [''corpus.jsonl'']) (path_to_generated_data cfg)))"
  let ?m = "bind (os_listdir (case evaluation_data cfg of None \<Rightarrow> [] | Some ev \<Rightarrow> ev)) ?rest"
  let ?s1 = "s\<lparr>fs := n, trace := trace s @
            [Log (Corpus_does_not_exist (path_to_generated_data cfg) (evaluation_data cfg))]\<rparr>"
  have "emits (\<lambda>e. True) ?m"
    unfolding os_system_cp_def by (intro emits_intros) simp_all
  then obtain evs where "trace (snd (?m ?s1)) = trace ?s1 @ evs"
    unfolding emits_def by blast
  then have "trace (snd (?m ?s1)) =
      trace s @ Log (Corpus_does_not_exist (path_to_generated_data cfg) (evaluation_data cfg)) # evs"
    by simp
  moreover have "ensure_corpus tk cfg s = ?m ?s1"
    by (rule ensure_corpus_absent [OF assms])
  ultimately have "events_of (ensure_corpus tk cfg) s =
      Log (Corpus_does_not_exist (path_to_generated_data cfg) (evaluation_data cfg)) # evs"
    by (simp only: events_of_def) simp
  then show ?thesis by simp
qed

text \<open>
  C10 (amended). When no regular file lies on \<open>path_to_generated_data\<close> (at it or above
  it), \<open>os.makedirs\<close> succeeds and the path is a directory afterwards: an existing
  directory leaves the file system as it was; a missing one is created empty, so that the
  run reaches the corpus check, finds no corpus there, and gets past this step only if
  the evaluation path lists \<open>corpus.jsonl\<close>. When a regular file lies on the path, the run
  aborts in \<open>os.makedirs\<close>, with nothing changed.
\<close>

theorem generated_data_directory_created:
  "(\<not> file_on_path (fs s) (path_to_generated_data cfg) \<longrightarrow>
      (\<exists>n es. makedirs (fs s) (path_to_generated_data cfg) = Inr n \<and>
         lookup n (path_to_generated_data cfg) = Inr (Dir es) \<and>
         (exists (fs s) (path_to_generated_data cfg) \<longrightarrow> n = fs s) \<and>
         (\<not> exists (fs s) (path_to_generated_data cfg) \<longrightarrow>
            es = [] \<and>
            Log (Corpus_does_not_exist (path_to_generated_data cfg) (evaluation_data cfg))
              \<in> set (events_of (ensure_corpus tk cfg) s) \<and>
            (fst (ensure_corpus tk cfg s) = Inr () \<longrightarrow>
               (\<exists>ev_names.
                  listdir n (case evaluation_data cfg of None \<Rightarrow> [] | Some ev \<Rightarrow> ev) = Inr ev_names \<and>
                  ''corpus.jsonl'' \<in> set ev_names))))) \<and>
   (file_on_path (fs s) (path_to_generated_data cfg) \<longrightarrow>
      (\<exists>e. ensure_corpus tk cfg s = (Inl e, s)))"
proof (intro conjI impI)
  assume "\<not> file_on_path (fs s) (path_to_generated_data cfg)"
  with makedirs_succeeds_iff [of "fs s" "path_to_generated_data cfg"]
  obtain n where n: "makedirs (fs s) (path_to_generated_data cfg) = Inr n" by blast
  from makedirs_result [OF n]
  consider (old) es where "lookup (fs s) (path_to_generated_data cfg) = Inr (Dir es)" "n = fs s"
    | (new) "\<not> exists (fs s) (path_to_generated_data cfg)"
            "lookup n (path_to_generated_data cfg) = Inr (Dir [])"
    by blast
  then show "\<exists>n es. makedirs (fs s) (path_to_generated_data cfg) = Inr n \<and>
         lookup n (path_to_generated_data cfg) = Inr (Dir es) \<and>
         (exists (fs s) (path_to_generated_data cfg) \<longrightarrow> n = fs s) \<and>
         (\<not> exists (fs s) (path_to_generated_data cfg) \<longrightarrow>
            es = [] \<and>
            Log (Corpus_does_not_exist (path_to_generated_data cfg) (evaluation_data cfg))
              \<in> set (events_of (ensure_corpus tk cfg) s) \<and>
            (fst (ensure_corpus tk cfg s) = Inr () \<longrightarrow>
               (\<exists>ev_names.
                  listdir n (case evaluation_data cfg of None \<Rightarrow> [] | Some ev \<Rightarrow> ev) = Inr ev_names \<and>
                  ''corpus.jsonl'' \<in> set ev_names)))"
  proof cases
    case old
    with n show ?thesis by (auto simp: exists_def)
  next
    case new
    then have l: "listdir n (path_to_generated_data cfg) = Inr []"
      by (simp add: listdir_def)
    have c: "''corpus.jsonl'' \<notin> set []" by simp
    have "\<exists>ev_names.
            listdir n (case evaluation_data cfg of None \<Rightarrow> [] | Some ev \<Rightarrow> ev) = Inr ev_names \<and>
            ''corpus.jsonl'' \<in> set ev_names"
      if ok: "fst (ensure_corpus tk cfg s) = Inr ()"
    proof (cases "listdir n (case evaluation_data cfg of None \<Rightarrow> [] | Some ev \<Rightarrow> ev)")
      case (Inl e)
      from ensure_corpus_no_evaluation_directory [OF n l c Inl, of tk] ok show ?thesis by simp
    next
      case (Inr ev_names)
      show ?thesis
      proof (cases "''corpus.jsonl'' \<in> set ev_names")
        case True
        with Inr show ?thesis by blast
      next
        case False
        from ensure_corpus_not_in_evaluation [OF n l c Inr False, of tk] ok show ?thesis by simp
      qed
    qed
    with n new ensure_corpus_message_logged [OF n l c, of tk] show ?thesis by auto
  qed
next
  assume "file_on_path (fs s) (path_to_generated_data cfg)"
  with makedirs_succeeds_iff [of "fs s" "path_to_generated_data cfg"]
  obtain e where "makedirs (fs s) (path_to_generated_data cfg) = Inl e"
    by (cases "makedirs (fs s) (path_to_generated_data cfg)") auto
  from ensure_corpus_makedirs_raises [OF this]
  show "\<exists>e. ensure_corpus tk cfg s = (Inl e, s)" by blast
qed

theorem generated_data_directory_created_witness:
  "\<not> file_on_path (fs fresh) [''gen''] \<and> \<not> exists (fs fresh) [''gen''] \<and>
   makedirs (fs fresh) [''gen''] = Inr fresh_with_gen \<and>
   Log (Corpus_does_not_exist [''gen''] (Some [''eval'']))
     \<in> set (events_of (ensure_corpus demo_toolkit demo_config) fresh) \<and>
   exists (fs interrupted) [''gen''] \<and>
   makedirs (fs interrupted) [''gen''] = Inr (fs interrupted) \<and>
   file_on_path (fs blocked) [''data'', ''gen''] \<and>
   (\<exists>e. ensure_corpus demo_toolkit (demo_config\<lparr>path_to_generated_data := [''data'', ''gen'']\<rparr>) blocked
      = (Inl e, blocked))"
proof -
  have a: "\<not> file_on_path (fs fresh) [''gen'']" "\<not> exists (fs fresh) [''gen'']"
    by (simp_all add: fresh_def exists_def)
  have b: "\<not> file_on_path (fs interrupted) [''gen'']" "exists (fs interrupted) [''gen'']"
    by (simp_all add: interrupted_def exists_def)
  have c: "file_on_path (fs blocked) [''data'', ''gen'']"
    by (simp add: blocked_def)
  from generated_data_directory_created [of fresh demo_config demo_toolkit]
       generated_data_directory_created [of interrupted demo_config demo_toolkit]
       generated_data_directory_created
         [of blocked "demo_config\<lparr>path_to_generated_data := [''data'', ''gen'']\<rparr>" demo_toolkit]
       a b c fresh_makedirs
  show ?thesis by auto
qed

text \<open>
  C10 as stated fails: a path that does not exist, below a regular file, aborts the run in
  \<open>os.makedirs\<close>.
\<close>

theorem missing_directory_aborts_counterexample:
  "\<not> exists (fs blocked) [''data'', ''gen''] \<and>
   train demo_toolkit (demo_config\<lparr>path_to_generated_data := [''data'', ''gen'']\<rparr>) blocked =
     (Inl NotADirectoryError, blocked)"
proof -
  let ?cfg = "demo_config\<lparr>path_to_generated_data := [''data'', ''gen'']\<rparr>"
  have "assertions demo_toolkit ?cfg blocked = (Inr (), blocked)"
    by (rule assertions_not_requested) simp_all
  moreover have "ensure_corpus demo_toolkit ?cfg blocked = (Inl NotADirectoryError, blocked)"
    by (rule ensure_corpus_makedirs_raises) (simp add: blocked_def)
  ultimately show ?thesis
    by (simp add: train_def bind_Inr bind_Inl exists_def blocked_def)
qed

section \<open>The order of the stages\<close>

lemma finishes_stage: "finishes k e \<Longrightarrow> stage_of e = k"
  by (induction k e rule: finishes.induct) simp_all

lemma chained_last:
  assumes "\<forall>e\<in>set evs. stage_of e = Evaluate"
  shows "chained 6 evs"
proof -
  have "map (position \<circ> stage_of) evs = replicate (length evs) 6"
    using assms by (induction evs) auto
  then have "sorted (map (position \<circ> stage_of) evs)" by (simp add: sorted_replicate)
  moreover have "position j \<le> 6" for j by (cases j) simp_all
  ultimately show ?thesis using assms unfolding chained_def by fastforce
qed

lemma chained_bind:
  assumes m: "stagewise k m"
    and f: "\<And>a s. \<exists>evs. trace (snd (f a s)) = trace s @ evs \<and> chained (Suc (position k)) evs"
  shows "\<exists>evs. trace (snd (bind m f s)) = trace s @ evs \<and> chained (position k) evs"
proof -
  from m obtain evs where evs: "trace (snd (m s)) = trace s @ evs" "\<forall>e\<in>set evs. stage_of e = k"
      "(\<exists>a. fst (m s) = Inr a) \<and> 2 \<le> position k \<longrightarrow> (\<exists>f\<in>set evs. finishes k f)"
    unfolding stagewise_def by blast
  have flat: "map (position \<circ> stage_of) evs = replicate (length evs) (position k)"
    using evs(2) by (induction evs) auto
  have alone: "chained (position k) evs"
    unfolding chained_def using evs(2) by (auto simp: flat sorted_replicate)
  show ?thesis
  proof (cases "m s")
    case (Pair r s')
    show ?thesis
    proof (cases r)
      case (Inl e)
      with Pair evs(1) alone show ?thesis by (auto simp: bind_def)
    next
      case (Inr a)
      from f [of a s'] obtain evs' where
        evs': "trace (snd (f a s')) = trace s' @ evs'" "chained (Suc (position k)) evs'"
        by blast
      from Pair Inr evs(1) evs'(1)
      have tr: "trace (snd (bind m f s)) = trace s @ evs @ evs'" by (simp add: bind_def)
      have fin: "2 \<le> position k \<Longrightarrow> \<exists>f\<in>set evs. finishes k f"
        using evs(3) Pair Inr by simp
      have inj: "j = k" if "position j = position k" for j
        using that by (cases j; cases k) simp_all
      have "chained (position k) (evs @ evs')"
        unfolding chained_def
      proof (intro conjI ballI allI impI)
        show "sorted (map (position \<circ> stage_of) (evs @ evs'))"
          using evs'(2) evs(2) by (auto simp: chained_def sorted_append flat sorted_replicate)
      next
        fix e assume "e \<in> set (evs @ evs')"
        then show "position k \<le> position (stage_of e)"
          using evs(2) evs'(2) by (auto simp: chained_def)
      next
        fix e j
        assume e: "e \<in> set (evs @ evs')"
          and j: "position (stage_of e) = Suc (position j) \<and> position k \<le> position j \<and> 2 \<le> position j"
        show "\<exists>f\<in>set (evs @ evs'). finishes j f"
        proof (cases "e \<in> set evs")
          case True
          with evs(2) j show ?thesis by auto
        next
          case False
          with e have e': "e \<in> set evs'" by simp
          show ?thesis
          proof (cases "position j = position k")
            case True
            with inj fin j show ?thesis by auto
          next
            case False
            with j have "Suc (position k) \<le> position j" by simp
            with e' j evs'(2) show ?thesis unfolding chained_def by fastforce
          qed
        qed
      qed
      with tr show ?thesis by blast
    qed
  qed
qed

lemma stagewise_early:
  assumes "emits (\<lambda>e. e \<in> set (may_emit cfg k)) m" "position k < 2"
  shows "stagewise k m"
proof -
  from assms(1) have "emits (\<lambda>e. stage_of e = k) m"
    by (rule emits_mono) (erule may_emit_stage)
  with assms(2) show ?thesis
    unfolding stagewise_def emits_def by fastforce
qed

lemma stagewise_assertions: "stagewise Assertions (assertions tk cfg)"
  by (rule stagewise_early [OF emits_assertions]) simp

lemma stagewise_ensure_corpus: "stagewise Ensure_corpus (ensure_corpus tk cfg)"
  by (rule stagewise_early [OF emits_ensure_corpus]) simp

lemma stagewise_generate_queries: "stagewise Generate_queries (generate_queries tk cfg)"
  unfolding stagewise_def generate_queries_def load_generated_def bind_def os_listdir_def emit_def
    invoke_def invoke_load_def py_assert_def return_def raise_def
  by (auto split: sum.splits prod.splits option.splits)

lemma stagewise_mine_negatives: "stagewise Mine_negatives (mine_negatives tk cfg)"
  unfolding stagewise_def mine_negatives_def bind_def os_listdir_def emit_def invoke_def
  by (auto split: sum.splits prod.splits option.splits)

lemma stagewise_pseudo_label: "stagewise Pseudo_label (pseudo_label tk cfg d)"
  unfolding stagewise_def pseudo_label_def bind_def os_listdir_def emit_def invoke_def
  by (auto split: sum.splits prod.splits option.splits)

lemma stagewise_train_model: "stagewise Train (train_model tk cfg d)"
  unfolding stagewise_def train_model_def fit_model_def bind_def os_listdir_def os_path_exists_def
    emit_def invoke_def
  by (auto split: sum.splits prod.splits option.splits)

lemma chained_next:
  assumes "stagewise k m" "position k' = Suc (position k)"
    and "\<And>a s. \<exists>evs. trace (snd (f a s)) = trace s @ evs \<and> chained (position k') evs"
  shows "\<exists>evs. trace (snd (bind m f s)) = trace s @ evs \<and> chained (position k) evs"
  using chained_bind [OF assms(1), of f s] assms(2,3) by simp

lemma train_chained:
  "\<exists>evs. trace (snd (train tk cfg s)) = trace s @ evs \<and> chained (position Assertions) evs"
proof -
  have e: "\<exists>evs. trace (snd (evaluate_model tk cfg s)) = trace s @ evs \<and> chained (position Evaluate) evs"
    for s
  proof -
    have "emits (\<lambda>e. stage_of e = Evaluate) (evaluate_model tk cfg)"
      by (rule emits_mono [OF emits_evaluate_model]) (erule may_emit_stage)
    then obtain evs where "trace (snd (evaluate_model tk cfg s)) = trace s @ evs"
        "\<forall>e\<in>set evs. stage_of e = Evaluate"
      unfolding emits_def by blast
    with chained_last [of evs] show ?thesis by auto
  qed
  have t: "\<exists>evs. trace (snd (bind (train_model tk cfg d) (\<lambda>_. evaluate_model tk cfg) s)) = trace s @ evs
             \<and> chained (position Train) evs" for d s
    by (rule chained_next [OF stagewise_train_model, of Evaluate]) (simp, rule e)
  have l: "\<exists>evs. trace (snd (bind (pseudo_label tk cfg d) (\<lambda>_.
                bind (train_model tk cfg d) (\<lambda>_. evaluate_model tk cfg)) s)) = trace s @ evs
             \<and> chained (position Pseudo_label) evs" for d s
    by (rule chained_next [OF stagewise_pseudo_label, of Train]) (simp, rule t)
  have m: "\<exists>evs. trace (snd (bind (mine_negatives tk cfg) (\<lambda>_. bind (pseudo_label tk cfg d) (\<lambda>_.
                bind (train_model tk cfg d) (\<lambda>_. evaluate_model tk cfg))) s)) = trace s @ evs
             \<and> chained (position Mine_negatives) evs" for d s
    by (rule chained_next [OF stagewise_mine_negatives, of Pseudo_label]) (simp, rule l)
  have g: "\<exists>evs. trace (snd (stages_after_corpus tk cfg s)) = trace s @ evs
             \<and> chained (position Generate_queries) evs" for s
    unfolding stages_after_corpus_def
    by (rule chained_next [OF stagewise_generate_queries, of Mine_negatives]) (simp, rule m)
  have c: "\<exists>evs. trace (snd (bind (ensure_corpus tk cfg) (\<lambda>_. stages_after_corpus tk cfg) s)) = trace s @ evs
             \<and> chained (position Ensure_corpus) evs" for s
    by (rule chained_next [OF stagewise_ensure_corpus, of Generate_queries]) (simp, rule g)
  show ?thesis
    unfolding train_split
    by (rule chained_next [OF stagewise_assertions, of Ensure_corpus]) (simp, rule c)
qed

lemma events_of_bind:
  assumes "emits P m" "\<And>a. emits Q (f a)"
  shows "events_of (bind m f) s =
           events_of m s @ (case m s of (Inl e, s') \<Rightarrow> [] | (Inr a, s') \<Rightarrow> events_of (f a) s')"
proof (cases "m s")
  case (Pair r s')
  from emits_trace [OF assms(1), of s] Pair
  have m: "trace s' = trace s @ events_of m s" by simp
  show ?thesis
  proof (cases r)
    case (Inl e)
    with Pair m show ?thesis by (simp add: events_of_def bind_def)
  next
    case (Inr a)
    from emits_trace [OF assms(2), of a s']
    have "trace (snd (f a s')) = trace s @ events_of m s @ events_of (f a) s'"
      using m by simp
    moreover have "bind m f s = f a s'"
      using Pair Inr by (simp add: bind_def)
    moreover have "events_of (bind m f) s = drop (length (trace s)) (trace (snd (bind m f s)))"
      by (simp add: events_of_def)
    ultimately show ?thesis
      using Pair Inr by simp
  qed
qed

lemma emits_anything_stages_after_corpus: "emits (\<lambda>e. True) (stages_after_corpus tk cfg)"
  by (rule emits_mono [OF stages_after_corpus_not_earlier]) simp

lemma emits_anything_ensure_corpus: "emits (\<lambda>e. True) (ensure_corpus tk cfg)"
  by (rule emits_mono [OF emits_ensure_corpus]) simp

lemma emits_anything_assertions: "emits (\<lambda>e. True) (assertions tk cfg)"
  by (rule emits_mono [OF emits_assertions]) simp

lemma events_of_train:
  "events_of (train tk cfg) s =
     events_of (assertions tk cfg) s @
     (case assertions tk cfg s of
        (Inl e, s0) \<Rightarrow> []
      | (Inr a, s0) \<Rightarrow>
          events_of (ensure_corpus tk cfg) s0 @
          (case ensure_corpus tk cfg s0 of
             (Inl e, s1) \<Rightarrow> []
           | (Inr b, s1) \<Rightarrow> events_of (stages_after_corpus tk cfg) s1))"
proof -
  have "emits (\<lambda>e. True) (bind (ensure_corpus tk cfg) (\<lambda>_. stages_after_corpus tk cfg))"
    by (intro emits_bind emits_anything_ensure_corpus emits_anything_stages_after_corpus)
  from events_of_bind [of "\<lambda>e. True" "assertions tk cfg" "\<lambda>e. True"
           "\<lambda>_. bind (ensure_corpus tk cfg) (\<lambda>_. stages_after_corpus tk cfg)" s,
           OF emits_anything_assertions this]
  have a: "events_of (train tk cfg) s =
      events_of (assertions tk cfg) s @
      (case assertions tk cfg s of
         (Inl e, s0) \<Rightarrow> []
       | (Inr a, s0) \<Rightarrow>
           events_of (bind (ensure_corpus tk cfg) (\<lambda>_. stages_after_corpus tk cfg)) s0)"
    by (simp add: train_split)
  have b: "events_of (bind (ensure_corpus tk cfg) (\<lambda>_. stages_after_corpus tk cfg)) s0 =
      events_of (ensure_corpus tk cfg) s0 @
      (case ensure_corpus tk cfg s0 of
         (Inl e, s1) \<Rightarrow> []
       | (Inr b, s1) \<Rightarrow> events_of (stages_after_corpus tk cfg) s1)" for s0
    by (rule events_of_bind [of "\<lambda>e. True" "ensure_corpus tk cfg" "\<lambda>e. True"
           "\<lambda>_. stages_after_corpus tk cfg" s0,
           OF emits_anything_ensure_corpus emits_anything_stages_after_corpus])
  show ?thesis
    by (simp add: a b split: prod.splits sum.splits)
qed

lemma ensure_corpus_done:
  assumes "ensure_corpus tk cfg s = (Inr (), s')"
  shows "(\<exists>names. listdir (fs s) (path_to_generated_data cfg) = Inr names \<and> ''corpus.jsonl'' \<in> set names) \<or>
         (\<exists>c. stage_of_call c = Ensure_corpus \<and> Return c \<in> set (events_of (ensure_corpus tk cfg) s))"
proof (cases "makedirs (fs s) (path_to_generated_data cfg)")
  case (Inl e)
  from ensure_corpus_makedirs_raises [OF Inl, of tk] assms show ?thesis by simp
next
  case (Inr n)
  from makedirs_result [OF Inr] obtain es where es: "lookup n (path_to_generated_data cfg) = Inr (Dir es)"
    by auto
  then have l: "listdir n (path_to_generated_data cfg) = Inr (map fst es)"
    by (simp add: listdir_def)
  show ?thesis
  proof (cases "''corpus.jsonl'' \<in> set (map fst es)")
    case True
    then have "es \<noteq> []" by auto
    with makedirs_result [OF Inr] es have "n = fs s" by auto
    with l True show ?thesis by blast
  next
    case False
    from ensure_corpus_absent [OF Inr l False, of tk] assms
    have "\<exists>c. stage_of_call c = Ensure_corpus \<and>
            trace s' = trace s @
              [Log (Corpus_does_not_exist (path_to_generated_data cfg) (evaluation_data cfg)),
               Call c, Return c]"
      by (auto simp: bind_def os_listdir_def py_assert_def return_def raise_def invoke_def
          os_system_cp_def split: sum.splits option.splits prod.splits if_splits)
    then obtain c where "stage_of_call c = Ensure_corpus"
        "events_of (ensure_corpus tk cfg) s =
           [Log (Corpus_does_not_exist (path_to_generated_data cfg) (evaluation_data cfg)),
            Call c, Return c]"
      using assms by (auto simp: events_of_def)
    then show ?thesis by auto
  qed
qed

lemma chained_events_of_train: "chained 0 (events_of (train tk cfg) s)"
proof -
  from train_chained [of tk cfg s] obtain evs where
    "trace (snd (train tk cfg s)) = trace s @ evs" "chained (position Assertions) evs" by blast
  then show ?thesis by (simp add: events_of_def)
qed

lemma chained_finished:
  assumes "chained 0 evs" "e \<in> set evs" "position (stage_of e) = Suc (position j)" "2 \<le> position j"
  shows "\<exists>f\<in>set evs. finishes j f"
  using assms unfolding chained_def by blast

lemma generate_after_corpus:
  assumes "e \<in> set (events_of (train tk cfg) s)" "stage_of e = Generate_queries"
  shows "(\<exists>names. listdir (fs s) (path_to_generated_data cfg) = Inr names \<and> ''corpus.jsonl'' \<in> set names) \<or>
         (\<exists>c. stage_of_call c = Ensure_corpus \<and> Return c \<in> set (events_of (train tk cfg) s))"
proof (cases "assertions tk cfg s")
  case (Pair r0 s0)
  have a: "\<forall>x\<in>set (events_of (assertions tk cfg) s). stage_of x = Assertions"
    using emits_events [OF emits_assertions [of cfg tk], where s = s]
    by (blast dest: may_emit_stage)
  have c: "\<forall>x\<in>set (events_of (ensure_corpus tk cfg) s0). stage_of x = Ensure_corpus"
    using emits_events [OF emits_ensure_corpus [of cfg tk], where s = s0]
    by (blast dest: may_emit_stage)
  have fs0: "fs s0 = fs s" using assertions_fs [of tk cfg s] Pair by simp
  show ?thesis
  proof (cases r0)
    case (Inl x)
    with Pair assms a show ?thesis by (auto simp: events_of_train)
  next
    case (Inr u)
    show ?thesis
    proof (cases "ensure_corpus tk cfg s0")
      case (Pair r1 s1)
      show ?thesis
      proof (cases r1)
        case (Inl x)
        with Pair \<open>assertions tk cfg s = (r0, s0)\<close> Inr assms a c show ?thesis
          by (auto simp: events_of_train)
      next
        case (Inr v)
        with Pair have "ensure_corpus tk cfg s0 = (Inr (), s1)" by simp
        from ensure_corpus_done [OF this] fs0
        show ?thesis
          using Pair \<open>assertions tk cfg s = (r0, s0)\<close> \<open>r0 = Inr u\<close>
          by (auto simp: events_of_train)
      qed
    qed
  qed
qed

text \<open>
  In every run the events come in the order of the stages: the assertions, the corpus,
  query generation, mining, pseudo labeling, training, evaluation. An event of query
  generation occurs only when the corpus was listed at the start or the corpus step has
  returned from its \<open>resize\<close> or \<open>cp\<close>; an event of mining, of pseudo labeling, of training
  or of evaluation occurs only in a trace that holds an event finishing the stage before:
  its skip line, or the return of the call that ends it. Such an event belongs to that
  earlier stage, so by the order it comes first.
\<close>

lemma events_in_stage_order:
  "sorted (map (position \<circ> stage_of) (events_of (train tk cfg) s)) \<and>
   (\<forall>e\<in>set (events_of (train tk cfg) s).
      (stage_of e = Generate_queries \<longrightarrow>
         (\<exists>names. listdir (fs s) (path_to_generated_data cfg) = Inr names \<and>
                   ''corpus.jsonl'' \<in> set names) \<or>
         (\<exists>c. stage_of_call c = Ensure_corpus \<and> Return c \<in> set (events_of (train tk cfg) s))) \<and>
      (stage_of e = Mine_negatives \<longrightarrow>
         (\<exists>f\<in>set (events_of (train tk cfg) s). finishes Generate_queries f)) \<and>
      (stage_of e = Pseudo_label \<longrightarrow>
         (\<exists>f\<in>set (events_of (train tk cfg) s). finishes Mine_negatives f)) \<and>
      (stage_of e = Train \<longrightarrow>
         (\<exists>f\<in>set (events_of (train tk cfg) s). finishes Pseudo_label f)) \<and>
      (stage_of e = Evaluate \<longrightarrow>
         (\<exists>f\<in>set (events_of (train tk cfg) s). finishes Train f))) \<and>
   (\<forall>k f. finishes k f \<longrightarrow> stage_of f = k)"
proof (intro conjI ballI allI impI)
  show "sorted (map (position \<circ> stage_of) (events_of (train tk cfg) s))"
    using chained_events_of_train [of tk cfg s] by (simp add: chained_def)
next
  fix e assume "e \<in> set (events_of (train tk cfg) s)" "stage_of e = Generate_queries"
  then show "(\<exists>names. listdir (fs s) (path_to_generated_data cfg) = Inr names \<and>
                   ''corpus.jsonl'' \<in> set names) \<or>
         (\<exists>c. stage_of_call c = Ensure_corpus \<and> Return c \<in> set (events_of (train tk cfg) s))"
    by (rule generate_after_corpus)
next
  fix e assume "e \<in> set (events_of (train tk cfg) s)" "stage_of e = Mine_negatives"
  then show "\<exists>f\<in>set (events_of (train tk cfg) s). finishes Generate_queries f"
    using chained_finished [OF chained_events_of_train [of tk cfg s], where e = e and j = Generate_queries]
    by simp
next
  fix e assume "e \<in> set (events_of (train tk cfg) s)" "stage_of e = Pseudo_label"
  then show "\<exists>f\<in>set (events_of (train tk cfg) s). finishes Mine_negatives f"
    using chained_finished [OF chained_events_of_train [of tk cfg s], where e = e and j = Mine_negatives]
    by simp
next
  fix e assume "e \<in> set (events_of (train tk cfg) s)" "stage_of e = Train"
  then show "\<exists>f\<in>set (events_of (train tk cfg) s). finishes Pseudo_label f"
    using chained_finished [OF chained_events_of_train [of tk cfg s], where e = e and j = Pseudo_label]
    by simp
next
  fix e assume "e \<in> set (events_of (train tk cfg) s)" "stage_of e = Evaluate"
  then show "\<exists>f\<in>set (events_of (train tk cfg) s). finishes Train f"
    using chained_finished [OF chained_events_of_train [of tk cfg s], where e = e and j = Train]
    by simp
next
  fix k f assume "finishes k f"
  then show "stage_of f = k" by (rule finishes_stage)
qed

lemma str_140000: "str 140000 = ''140000''"
  by (simp add: str_def char_of_def bit_Suc_0_iff)

lemma demo_train_args:
  "steps_per_epoch (train_args demo_config) = 140000"
  "checkpoint_path (train_args demo_config) = [''out'']"
  by (simp_all add: train_args_def)

lemma demo_ckpt_dir: "ckpt_dir demo_config = [''out'', ''140000'']"
  by (simp add: ckpt_dir_def str_140000)

lemmas stage_defs =
  generate_queries_def load_generated_def mine_negatives_def pseudo_label_def train_model_def
  fit_model_def evaluate_model_def bind_def os_listdir_def os_path_exists_def listdir_def exists_def
  emit_def invoke_def invoke_load_def py_assert_def return_def raise_def

lemma interrupted_run:
  "train demo_toolkit demo_config interrupted =
     (Inr (),
      \<lparr>fs = Dir [(''eval'', Dir [(''corpus.jsonl'', File ''p1 p2 p3'')]),
                 (''gen'', Dir [(''corpus.jsonl'', File ''p1 p2 p3''),
                               (''qgen-qrels'', Dir [(''train.tsv'', File ''q1 p1 1'')]),
                               (''qgen-queries.jsonl'', File ''q1''),
                               (''hard-negatives.jsonl'', File []),
                               (''gpl-training-data.tsv'', File ''q1 p1 p2 0.7'')]),
                 (''out'', Dir [(''140000'', Dir [(''pytorch_model.bin'', File ''weights'')])])],
       trace =
         [Log Loading_from_existing_generated_data,
          Call (load_call [''gen''] ''qgen''),
          Return (load_call [''gen''] ''qgen''),
          Log Using_existing_hard_negative_data,
          Log No_GPL_training_data_found,
          Call (PseudoLabeler_call [''gen''] 140000 32 ''cross-encoder/ms-marco-MiniLM-L-6-v2''),
          Return (PseudoLabeler_call [''gen''] 140000 32 ''cross-encoder/ms-marco-MiniLM-L-6-v2''),
          Log Now_training_GPL,
          Call (fit_call (train_args demo_config)),
          Return (fit_call (train_args demo_config))]\<rparr>)"
proof -
  let ?s3 = "interrupted\<lparr>trace :=
         [Log Loading_from_existing_generated_data,
          Call (load_call [''gen''] ''qgen''),
          Return (load_call [''gen''] ''qgen'')]\<rparr>"
  let ?s4 = "?s3\<lparr>trace := trace ?s3 @ [Log Using_existing_hard_negative_data]\<rparr>"
  let ?s5 = "?s4\<lparr>fs := put (fs interrupted) [''gen'', ''gpl-training-data.tsv''] (File ''q1 p1 p2 0.7''),
         trace := trace ?s4 @ [Log No_GPL_training_data_found,
          Call (PseudoLabeler_call [''gen''] 140000 32 ''cross-encoder/ms-marco-MiniLM-L-6-v2''),
          Return (PseudoLabeler_call [''gen''] 140000 32 ''cross-encoder/ms-marco-MiniLM-L-6-v2'')]\<rparr>"
  let ?s6 = "\<lparr>fs = Dir [(''eval'', Dir [(''corpus.jsonl'', File ''p1 p2 p3'')]),
                 (''gen'', Dir [(''corpus.jsonl'', File ''p1 p2 p3''),
                               (''qgen-qrels'', Dir [(''train.tsv'', File ''q1 p1 1'')]),
                               (''qgen-queries.jsonl'', File ''q1''),
                               (''hard-negatives.jsonl'', File []),
                               (''gpl-training-data.tsv'', File ''q1 p1 p2 0.7'')]),
                 (''out'', Dir [(''140000'', Dir [(''pytorch_model.bin'', File ''weights'')])])],
       trace =
         [Log Loading_from_existing_generated_data,
          Call (load_call [''gen''] ''qgen''),
          Return (load_call [''gen''] ''qgen''),
          Log Using_existing_hard_negative_data,
          Log No_GPL_training_data_found,
          Call (PseudoLabeler_call [''gen''] 140000 32 ''cross-encoder/ms-marco-MiniLM-L-6-v2''),
          Return (PseudoLabeler_call [''gen''] 140000 32 ''cross-encoder/ms-marco-MiniLM-L-6-v2''),
          Log Now_training_GPL,
          Call (fit_call (train_args demo_config)),
          Return (fit_call (train_args demo_config))]\<rparr>"
  have 1: "assertions demo_toolkit demo_config interrupted = (Inr (), interrupted)"
    by (rule assertions_not_requested) simp_all
  have 2: "ensure_corpus demo_toolkit demo_config interrupted = (Inr (), interrupted)"
    by (rule ensure_corpus_present [OF interrupted_listing]) simp
  have 3: "generate_queries demo_toolkit demo_config interrupted = (Inr ''q1'', ?s3)"
    by (simp add: stage_defs demo_toolkit_def interrupted_def)
  have 4: "mine_negatives demo_toolkit demo_config ?s3 = (Inr (), ?s4)"
    by (simp add: stage_defs demo_toolkit_def interrupted_def)
  have 5: "pseudo_label demo_toolkit demo_config ''q1'' ?s4 = (Inr (), ?s5)"
    by (simp add: stage_defs demo_toolkit_def interrupted_def)
  have 6: "train_model demo_toolkit demo_config ''q1'' ?s5 = (Inr (), ?s6)"
    by (simp add: stage_defs demo_toolkit_def interrupted_def demo_ckpt_dir demo_train_args str_140000)
  have 7: "evaluate_model demo_toolkit demo_config ?s6 = (Inr (), ?s6)"
    by (simp add: evaluate_model_def return_def)
  show ?thesis
    by (simp only: train_def bind_def 1 2 3 4 5 6 7 prod.case sum.case)
qed

lemma interrupted_events:
  "events_of (train demo_toolkit demo_config) interrupted =
     [Log Loading_from_existing_generated_data,
      Call (load_call [''gen''] ''qgen''),
      Return (load_call [''gen''] ''qgen''),
      Log Using_existing_hard_negative_data,
      Log No_GPL_training_data_found,
      Call (PseudoLabeler_call [''gen''] 140000 32 ''cross-encoder/ms-marco-MiniLM-L-6-v2''),
      Return (PseudoLabeler_call [''gen''] 140000 32 ''cross-encoder/ms-marco-MiniLM-L-6-v2''),
      Log Now_training_GPL,
      Call (fit_call (train_args demo_config)),
      Return (fit_call (train_args demo_config))]"
  by (simp add: events_of_def interrupted_run) (simp add: interrupted_def)

lemma events_in_stage_order_interrupted:
  "Call (PseudoLabeler_call [''gen''] 140000 32 ''cross-encoder/ms-marco-MiniLM-L-6-v2'')
     \<in> set (events_of (train demo_toolkit demo_config) interrupted) \<and>
   stage_of (Call (PseudoLabeler_call [''gen''] 140000 32 ''cross-encoder/ms-marco-MiniLM-L-6-v2''))
     = Pseudo_label \<and>
   (\<exists>f\<in>set (events_of (train demo_toolkit demo_config) interrupted). finishes Mine_negatives f) \<and>
   Call (fit_call (train_args demo_config))
     \<in> set (events_of (train demo_toolkit demo_config) interrupted) \<and>
   (\<exists>f\<in>set (events_of (train demo_toolkit demo_config) interrupted). finishes Pseudo_label f) \<and>
   sorted (map (position \<circ> stage_of) (events_of (train demo_toolkit demo_config) interrupted))"
proof -
  have a: "Call (PseudoLabeler_call [''gen''] 140000 32 ''cross-encoder/ms-marco-MiniLM-L-6-v2'')
     \<in> set (events_of (train demo_toolkit demo_config) interrupted)"
    and b: "Call (fit_call (train_args demo_config))
     \<in> set (events_of (train demo_toolkit demo_config) interrupted)"
    by (simp_all add: interrupted_events)
  note order = events_in_stage_order [of demo_toolkit demo_config interrupted]
  have "sorted (map (position \<circ> stage_of) (events_of (train demo_toolkit demo_config) interrupted))"
    using conjunct1 [OF order] .
  moreover have "\<exists>f\<in>set (events_of (train demo_toolkit demo_config) interrupted).
      finishes Mine_negatives f"
    using conjunct1 [OF conjunct2 [OF order], THEN bspec, OF a] by simp
  moreover have "\<exists>f\<in>set (events_of (train demo_toolkit demo_config) interrupted).
      finishes Pseudo_label f"
    using conjunct1 [OF conjunct2 [OF order], THEN bspec, OF b] by simp
  ultimately show ?thesis using a b by simp
qed

section \<open>Configuration errors\<close>

lemma unknown_retriever_fields [simp]:
  "path_to_generated_data unknown_retriever = [''gen'']"
  "evaluation_data unknown_retriever = Some [''eval'']"
  "do_evaluation unknown_retriever = False"
  "qgen_prefix unknown_retriever = ''qgen''"
  "generator unknown_retriever = ''BeIR/query-gen-msmarco-t5-base-v1''"
  "batch_size_generation unknown_retriever = 32"
  "pooling unknown_retriever = ''mean''"
  "new_size unknown_retriever = None"
  "queries_per_passage unknown_retriever = 3"
  "retrievers unknown_retriever = [''no-such-model'']"
  by (simp_all add: unknown_retriever_def)

lemma fresh_assertions: "assertions demo_toolkit unknown_retriever fresh = (Inr (), fresh)"
  by (rule assertions_not_requested) simp_all

lemma fresh_ensure_corpus: "ensure_corpus demo_toolkit unknown_retriever fresh = (Inr (), copied)"
  by (simp add: ensure_corpus_def bind_def os_makedirs_def os_listdir_def listdir_def emit_def
      py_assert_def return_def os_system_cp_def invoke_def demo_cp_line cp_def fresh_def copied_def)

lemma copied_generate_queries:
  "generate_queries demo_toolkit unknown_retriever copied = (Inr ''q1'', generated)"
  by (simp add: stage_defs demo_toolkit_def copied_def generated_def)

lemma generated_listing:
  "listdir (fs generated) (path_to_generated_data unknown_retriever) =
     Inr [''corpus.jsonl'', ''qgen-qrels'', ''qgen-queries.jsonl'']"
  by (simp add: listdir_def generated_def)

lemma generated_miner:
  "NegativeMiner demo_toolkit (path_to_generated_data unknown_retriever) (qgen_prefix unknown_retriever)
     (retrievers unknown_retriever) (fs generated) = (Some (Failure ''unknown retriever''), fs generated)"
  by (simp add: demo_toolkit_def known_retrievers_def)

lemma mine_negatives_raises:
  assumes "listdir (fs s) (path_to_generated_data cfg) = Inr names" "''hard-negatives.jsonl'' \<notin> set names"
    and "NegativeMiner tk (path_to_generated_data cfg) (qgen_prefix cfg) (retrievers cfg) (fs s) = (Some e, n)"
  shows "mine_negatives tk cfg s =
     (Inl e, s\<lparr>fs := n, trace := trace s @ [Log No_hard_negative_data_found,
        Call (NegativeMiner_call (path_to_generated_data cfg) (qgen_prefix cfg) (retrievers cfg))]\<rparr>)"
  using assms(3) by (simp add: mine_unlisted [OF assms(1,2)])

text \<open>
  C2 (amended). An unsupported pooling mode is raised before anything else: the state is as
  it was. A corpus missing from the generated-data directory and from the evaluation path
  is raised once \<open>os.makedirs\<close> has run and one line is logged: no call is made, nothing
  else is written. The miner, with its retrievers, is called in the mining stage only:
  a trace with an event of mining holds the return of the loading that ends query
  generation, and an exception of the miner is the exception of the run, raised in the
  state that the corpus step and query generation have left.
\<close>

theorem configuration_errors:
  "(pooling cfg \<notin> set [''mean'', ''cls'', ''max''] \<longrightarrow>
      train tk cfg s = (Inl (AssertionError []), s)) \<and>
   (assertions tk cfg s = (Inr (), s0) \<and>
    makedirs (fs s0) (path_to_generated_data cfg) = Inr n \<and>
    listdir n (path_to_generated_data cfg) = Inr names \<and> ''corpus.jsonl'' \<notin> set names \<and>
    listdir n (case evaluation_data cfg of None \<Rightarrow> [] | Some ev \<Rightarrow> ev) = Inr ev_names \<and>
    ''corpus.jsonl'' \<notin> set ev_names \<longrightarrow>
      train tk cfg s =
        (Inl (AssertionError (no_corpus_message cfg)),
         s0\<lparr>fs := n, trace := trace s0 @
            [Log (Corpus_does_not_exist (path_to_generated_data cfg) (evaluation_data cfg))]\<rparr>)) \<and>
   (\<forall>e\<in>set (events_of (train tk cfg) s). stage_of e = Mine_negatives \<longrightarrow>
      (\<exists>f\<in>set (events_of (train tk cfg) s). finishes Generate_queries f)) \<and>
   (assertions tk cfg s = (Inr (), s0) \<and> ensure_corpus tk cfg s0 = (Inr (), s1) \<and>
    generate_queries tk cfg s1 = (Inr d, s2) \<and>
    listdir (fs s2) (path_to_generated_data cfg) = Inr names' \<and>
    ''hard-negatives.jsonl'' \<notin> set names' \<and>
    NegativeMiner tk (path_to_generated_data cfg) (qgen_prefix cfg) (retrievers cfg) (fs s2)
      = (Some e, n') \<longrightarrow>
      train tk cfg s =
        (Inl e, s2\<lparr>fs := n', trace := trace s2 @ [Log No_hard_negative_data_found,
           Call (NegativeMiner_call (path_to_generated_data cfg) (qgen_prefix cfg) (retrievers cfg))]\<rparr>))"
proof (intro conjI impI ballI)
  assume "pooling cfg \<notin> set [''mean'', ''cls'', ''max'']"
  then show "train tk cfg s = (Inl (AssertionError []), s)"
    by (simp add: train_def bind_Inl [OF assertions_bad_pooling])
next
  assume a: "assertions tk cfg s = (Inr (), s0) \<and>
    makedirs (fs s0) (path_to_generated_data cfg) = Inr n \<and>
    listdir n (path_to_generated_data cfg) = Inr names \<and> ''corpus.jsonl'' \<notin> set names \<and>
    listdir n (case evaluation_data cfg of None \<Rightarrow> [] | Some ev \<Rightarrow> ev) = Inr ev_names \<and>
    ''corpus.jsonl'' \<notin> set ev_names"
  then have "ensure_corpus tk cfg s0 =
        (Inl (AssertionError (no_corpus_message cfg)),
         s0\<lparr>fs := n, trace := trace s0 @
            [Log (Corpus_does_not_exist (path_to_generated_data cfg) (evaluation_data cfg))]\<rparr>)"
    using ensure_corpus_not_in_evaluation [of s0 cfg n names ev_names tk] by blast
  with a show "train tk cfg s =
        (Inl (AssertionError (no_corpus_message cfg)),
         s0\<lparr>fs := n, trace := trace s0 @
            [Log (Corpus_does_not_exist (path_to_generated_data cfg) (evaluation_data cfg))]\<rparr>)"
    by (simp add: train_def bind_def)
next
  fix e' assume "e' \<in> set (events_of (train tk cfg) s)" "stage_of e' = Mine_negatives"
  then show "\<exists>f\<in>set (events_of (train tk cfg) s). finishes Generate_queries f"
    using chained_finished [OF chained_events_of_train [of tk cfg s], where e = e' and j = Generate_queries]
    by simp
next
  assume a: "assertions tk cfg s = (Inr (), s0) \<and> ensure_corpus tk cfg s0 = (Inr (), s1) \<and>
    generate_queries tk cfg s1 = (Inr d, s2) \<and>
    listdir (fs s2) (path_to_generated_data cfg) = Inr names' \<and>
    ''hard-negatives.jsonl'' \<notin> set names' \<and>
    NegativeMiner tk (path_to_generated_data cfg) (qgen_prefix cfg) (retrievers cfg) (fs s2)
      = (Some e, n')"
  then have "mine_negatives tk cfg s2 =
     (Inl e, s2\<lparr>fs := n', trace := trace s2 @ [Log No_hard_negative_data_found,
        Call (NegativeMiner_call (path_to_generated_data cfg) (qgen_prefix cfg) (retrievers cfg))]\<rparr>)"
    using mine_negatives_raises [of s2 cfg names' tk e n'] by blast
  with a show "train tk cfg s =
        (Inl e, s2\<lparr>fs := n', trace := trace s2 @ [Log No_hard_negative_data_found,
           Call (NegativeMiner_call (path_to_generated_data cfg) (qgen_prefix cfg) (retrievers cfg))]\<rparr>)"
    by (simp add: train_def bind_def)
qed

lemma unknown_retriever_run:
  "train demo_toolkit unknown_retriever fresh =
     (Inl (Failure ''unknown retriever''),
      generated\<lparr>trace := trace generated @ [Log No_hard_negative_data_found,
         Call (NegativeMiner_call [''gen''] ''qgen'' [''no-such-model''])]\<rparr>)"
proof -
  have "mine_negatives demo_toolkit unknown_retriever generated =
     (Inl (Failure ''unknown retriever''),
      generated\<lparr>fs := fs generated, trace := trace generated @ [Log No_hard_negative_data_found,
         Call (NegativeMiner_call (path_to_generated_data unknown_retriever)
           (qgen_prefix unknown_retriever) (retrievers unknown_retriever))]\<rparr>)"
    by (rule mine_negatives_raises [OF generated_listing _ generated_miner]) simp
  then have m: "mine_negatives demo_toolkit unknown_retriever generated =
     (Inl (Failure ''unknown retriever''),
      generated\<lparr>trace := trace generated @ [Log No_hard_negative_data_found,
         Call (NegativeMiner_call [''gen''] ''qgen'' [''no-such-model''])]\<rparr>)"
    by simp
  show ?thesis
    by (simp only: train_def bind_def fresh_assertions fresh_ensure_corpus copied_generate_queries m
        prod.case sum.case)
qed

theorem configuration_errors_witness:
  "train demo_toolkit (demo_config\<lparr>pooling := ''sum''\<rparr>) fresh = (Inl (AssertionError []), fresh) \<and>
   train demo_toolkit (demo_config\<lparr>evaluation_data := Some [''gen'']\<rparr>) fresh =
     (Inl (AssertionError (no_corpus_message (demo_config\<lparr>evaluation_data := Some [''gen'']\<rparr>))),
      fresh\<lparr>fs := fresh_with_gen, trace := [Log (Corpus_does_not_exist [''gen''] (Some [''gen'']))]\<rparr>) \<and>
   train demo_toolkit unknown_retriever fresh =
     (Inl (Failure ''unknown retriever''),
      generated\<lparr>trace := trace generated @ [Log No_hard_negative_data_found,
         Call (NegativeMiner_call [''gen''] ''qgen'' [''no-such-model''])]\<rparr>) \<and>
   (\<exists>f\<in>set (events_of (train demo_toolkit unknown_retriever) fresh). finishes Generate_queries f)"
proof -
  let ?c = "demo_config\<lparr>evaluation_data := Some [''gen'']\<rparr>"
  have 1: "train demo_toolkit (demo_config\<lparr>pooling := ''sum''\<rparr>) fresh = (Inl (AssertionError []), fresh)"
    using configuration_errors [of "demo_config\<lparr>pooling := ''sum''\<rparr>" demo_toolkit fresh] by simp
  have a: "assertions demo_toolkit ?c fresh = (Inr (), fresh)"
    by (rule assertions_not_requested) simp_all
  have 2: "train demo_toolkit ?c fresh =
     (Inl (AssertionError (no_corpus_message ?c)),
      fresh\<lparr>fs := fresh_with_gen, trace := [Log (Corpus_does_not_exist [''gen''] (Some [''gen'']))]\<rparr>)"
    using configuration_errors [of ?c demo_toolkit fresh fresh fresh_with_gen "[]" "[]"] a
      fresh_makedirs fresh_with_gen_listing
    by (simp add: fresh_def)
  have 3: "train demo_toolkit unknown_retriever fresh =
     (Inl (Failure ''unknown retriever''),
      generated\<lparr>trace := trace generated @ [Log No_hard_negative_data_found,
         Call (NegativeMiner_call [''gen''] ''qgen'' [''no-such-model''])]\<rparr>)"
    using configuration_errors [of unknown_retriever demo_toolkit fresh fresh _ _ _ copied "''q1''"
        generated "[''corpus.jsonl'', ''qgen-qrels'', ''qgen-queries.jsonl'']"
        "Failure ''unknown retriever''" "fs generated"]
      fresh_assertions fresh_ensure_corpus copied_generate_queries generated_listing generated_miner
    by simp
  have "Call (NegativeMiner_call [''gen''] ''qgen'' [''no-such-model''])
          \<in> set (events_of (train demo_toolkit unknown_retriever) fresh)"
    by (simp add: events_of_def 3) (simp add: fresh_def)
  from conjunct1 [OF conjunct2 [OF conjunct2
         [OF configuration_errors [of unknown_retriever demo_toolkit fresh]]], THEN bspec, OF this]
  have 4: "\<exists>f\<in>set (events_of (train demo_toolkit unknown_retriever) fresh). finishes Generate_queries f"
    by simp
  from 1 2 3 4 show ?thesis by blast
qed

text \<open>
  C2 as stated fails for the retrievers: on a first run with a retriever that cannot be
  loaded, the exception is raised when the corpus has been copied and the queries have
  been generated and written.
\<close>

theorem retriever_error_after_generation_counterexample:
  "fst (train demo_toolkit unknown_retriever fresh) = Inl (Failure ''unknown retriever'') \<and>
   Return (qgen_call [''gen''] [''gen''] ''BeIR/query-gen-msmarco-t5-base-v1'' 3 32 ''qgen'')
     \<in> set (trace (snd (train demo_toolkit unknown_retriever fresh))) \<and>
   \<not> exists (fs fresh) [''gen'', ''qgen-queries.jsonl''] \<and>
   exists (fs (snd (train demo_toolkit unknown_retriever fresh))) [''gen'', ''qgen-queries.jsonl'']"
  by (simp add: unknown_retriever_run) (simp add: generated_def fresh_def exists_def)

section \<open>Resuming after mining\<close>

lemma keeps_return: "keeps p (return a)"
  by (simp add: keeps_def return_def)

lemma keeps_emit: "keeps p (emit ev)"
  by (simp add: keeps_def emit_def)

lemma keeps_os_listdir: "keeps p (os_listdir q)"
  by (simp add: keeps_def os_listdir_def)

lemma keeps_os_path_exists: "keeps p (os_path_exists q)"
  by (simp add: keeps_def os_path_exists_def)

lemma keeps_invoke: "(\<And>n. lookup (snd (f n)) p = lookup n p) \<Longrightarrow> keeps p (invoke c f)"
  by (simp add: keeps_def invoke_def split: prod.splits option.splits) (metis snd_conv)

lemma keeps_bind:
  assumes "keeps p m" "\<And>a. keeps p (f a)"
  shows "keeps p (bind m f)"
  unfolding keeps_def
proof
  fix s
  show "lookup (fs (snd (bind m f s))) p = lookup (fs s) p"
  proof (cases "m s")
    case (Pair r s')
    with assms(1) have m: "lookup (fs s') p = lookup (fs s) p"
      unfolding keeps_def by (metis snd_conv)
    show ?thesis
    proof (cases r)
      case (Inl e)
      with Pair m show ?thesis by (simp add: bind_def)
    next
      case (Inr a)
      with assms(2) [of a] have "lookup (fs (snd (f a s'))) p = lookup (fs s') p"
        unfolding keeps_def by blast
      with Pair Inr m show ?thesis by (simp add: bind_def)
    qed
  qed
qed

lemma keeps_if: "keeps p a \<Longrightarrow> keeps p b \<Longrightarrow> keeps p (if c then a else b)"
  by simp

lemmas keeps_intros =
  keeps_bind keeps_if keeps_return keeps_emit keeps_os_listdir keeps_os_path_exists keeps_invoke

lemma keeps_pseudo_label:
  assumes "\<And>n. lookup (snd (PseudoLabeler tk (path_to_generated_data cfg) d (gpl_steps cfg)
                   (batch_size_gpl cfg) (cross_encoder cfg) n)) p = lookup n p"
  shows "keeps p (pseudo_label tk cfg d)"
  unfolding pseudo_label_def by (intro keeps_intros assms)

lemma keeps_train_model:
  assumes "\<And>n. lookup (snd (fit tk (train_args cfg) d n)) p = lookup n p"
  shows "keeps p (train_model tk cfg d)"
  unfolding train_model_def fit_model_def by (intro keeps_intros assms)

lemma keeps_evaluate_model:
  assumes "\<And>n. lookup (snd (evaluate tk (evaluation_data cfg) (evaluation_output cfg) (ckpt_dir cfg)
                   (max_seq_length cfg) ''dot'' (pooling cfg) n)) p = lookup n p"
  shows "keeps p (evaluate_model tk cfg)"
  unfolding evaluate_model_def by (intro keeps_intros assms)

lemma resumed_stages:
  assumes "listdir (fs s) (path_to_generated_data cfg) = Inr names"
    and "qgen_prefix cfg @ ''-qrels'' \<in> set names" "qgen_prefix cfg @ ''-queries.jsonl'' \<in> set names"
    and "''hard-negatives.jsonl'' \<in> set names"
  shows "stages_after_corpus tk cfg s =
     (case load tk (path_to_generated_data cfg) (qgen_prefix cfg) (fs s) of
        Inl e \<Rightarrow> (Inl e, s\<lparr>trace := trace s @ [Log Loading_from_existing_generated_data,
                     Call (load_call (path_to_generated_data cfg) (qgen_prefix cfg))]\<rparr>)
      | Inr d \<Rightarrow>
          stages_after_mining tk cfg d
            (s\<lparr>trace := trace s @ [Log Loading_from_existing_generated_data,
                     Call (load_call (path_to_generated_data cfg) (qgen_prefix cfg)),
                     Return (load_call (path_to_generated_data cfg) (qgen_prefix cfg)),
                     Log Using_existing_hard_negative_data]\<rparr>))"
proof (cases "load tk (path_to_generated_data cfg) (qgen_prefix cfg) (fs s)")
  case (Inl e)
  with generate_listed [OF assms(1-3), of tk] show ?thesis
    by (simp add: stages_after_corpus_def bind_def)
next
  case (Inr d)
  let ?s2 = "s\<lparr>trace := trace s @ [Log Loading_from_existing_generated_data,
                     Call (load_call (path_to_generated_data cfg) (qgen_prefix cfg)),
                     Return (load_call (path_to_generated_data cfg) (qgen_prefix cfg))]\<rparr>"
  from Inr generate_listed [OF assms(1-3), of tk]
  have g: "generate_queries tk cfg s = (Inr d, ?s2)" by simp
  have "listdir (fs ?s2) (path_to_generated_data cfg) = Inr names" using assms(1) by simp
  from mine_listed [OF this assms(4), of tk]
  have m: "mine_negatives tk cfg ?s2 =
      (Inr (), s\<lparr>trace := trace s @ [Log Loading_from_existing_generated_data,
                     Call (load_call (path_to_generated_data cfg) (qgen_prefix cfg)),
                     Return (load_call (path_to_generated_data cfg) (qgen_prefix cfg)),
                     Log Using_existing_hard_negative_data]\<rparr>)"
    by simp
  show ?thesis
    by (simp only: stages_after_corpus_def stages_after_mining_def bind_def g m Inr
        prod.case sum.case)
qed

lemma events_of_shift:
  assumes "m s = m' s'" "trace s' = trace s @ xs" "emits P m'"
  shows "events_of m s = xs @ events_of m' s'"
proof -
  from emits_trace [OF assms(3), of s'] assms(2)
  have "trace (snd (m' s')) = trace s @ xs @ events_of m' s'" by simp
  with assms(1) show ?thesis by (simp add: events_of_def [of m])
qed

lemma emits_stages_after_mining:
  "emits (\<lambda>e. stage_of e \<in> {Pseudo_label, Train, Evaluate}) (stages_after_mining tk cfg d)"
  unfolding stages_after_mining_def
  by (intro emits_bind;
      rule emits_mono [OF emits_pseudo_label] emits_mono [OF emits_train_model]
           emits_mono [OF emits_evaluate_model];
      drule may_emit_stage; simp)

lemma emits_stage_assertions: "emits (\<lambda>e. stage_of e = Assertions) (assertions tk cfg)"
  by (rule emits_mono [OF emits_assertions]) (erule may_emit_stage)

lemma resumed_run:
  assumes "listdir (fs s) (path_to_generated_data cfg) = Inr names" "''corpus.jsonl'' \<in> set names"
    and "qgen_prefix cfg @ ''-qrels'' \<in> set names" "qgen_prefix cfg @ ''-queries.jsonl'' \<in> set names"
    and "''hard-negatives.jsonl'' \<in> set names"
  obtains (rejected) e s0 where "train tk cfg s = (Inl e, s0)" "fs s0 = fs s"
      "\<forall>x\<in>set (events_of (train tk cfg) s). stage_of x = Assertions"
      "assertions tk cfg s = (Inl e, s0)"
    | (unloadable) e s0 xs where "train tk cfg s = (Inl e, s0)" "fs s0 = fs s"
      "load tk (path_to_generated_data cfg) (qgen_prefix cfg) (fs s) = Inl e"
      "events_of (train tk cfg) s = xs @ [Log Loading_from_existing_generated_data,
          Call (load_call (path_to_generated_data cfg) (qgen_prefix cfg))]"
      "\<forall>x\<in>set xs. stage_of x = Assertions"
    | (resumed) d s2 xs where "load tk (path_to_generated_data cfg) (qgen_prefix cfg) (fs s) = Inr d"
      "train tk cfg s = stages_after_mining tk cfg d s2" "fs s2 = fs s"
      "events_of (train tk cfg) s = xs @ [Log Loading_from_existing_generated_data,
          Call (load_call (path_to_generated_data cfg) (qgen_prefix cfg)),
          Return (load_call (path_to_generated_data cfg) (qgen_prefix cfg)),
          Log Using_existing_hard_negative_data] @ events_of (stages_after_mining tk cfg d) s2"
      "\<forall>x\<in>set xs. stage_of x = Assertions"
      "\<forall>a. assertions tk cfg s = (Inr (), a) \<longrightarrow> xs = events_of (assertions tk cfg) s"
proof (cases "assertions tk cfg s")
  case (Pair r0 s0)
  have fs0: "fs s0 = fs s" using assertions_fs [of tk cfg s] Pair by simp
  have tr0: "trace s0 = trace s @ events_of (assertions tk cfg) s"
    using emits_trace [OF emits_stage_assertions, of tk cfg s] Pair by simp
  have st0: "\<forall>x\<in>set (events_of (assertions tk cfg) s). stage_of x = Assertions"
    using emits_events [OF emits_stage_assertions] by blast
  show ?thesis
  proof (cases r0)
    case (Inl e)
    with Pair have t: "train tk cfg s = (Inl e, s0)" by (simp add: train_def bind_def)
    then have "events_of (train tk cfg) s = events_of (assertions tk cfg) s"
      using Pair by (simp add: events_of_def)
    with st0 Pair Inl show ?thesis by (intro rejected [OF t fs0]) simp_all
  next
    case (Inr u)
    have l0: "listdir (fs s0) (path_to_generated_data cfg) = Inr names" using assms(1) fs0 by simp
    have c: "ensure_corpus tk cfg s0 = (Inr (), s0)"
      by (rule ensure_corpus_present [OF l0 assms(2)])
    have t: "train tk cfg s = stages_after_corpus tk cfg s0"
      using Pair Inr c by (simp add: train_split bind_def)
    note r = resumed_stages [OF l0 assms(3-5), of tk]
    show ?thesis
    proof (cases "load tk (path_to_generated_data cfg) (qgen_prefix cfg) (fs s)")
      case (Inl e)
      with r fs0 have t': "train tk cfg s =
          (Inl e, s0\<lparr>trace := trace s0 @ [Log Loading_from_existing_generated_data,
                     Call (load_call (path_to_generated_data cfg) (qgen_prefix cfg))]\<rparr>)"
        by (simp add: t)
      then have "events_of (train tk cfg) s = events_of (assertions tk cfg) s @
          [Log Loading_from_existing_generated_data,
           Call (load_call (path_to_generated_data cfg) (qgen_prefix cfg))]"
        using tr0 by (simp add: events_of_def [of "train tk cfg"])
      then show ?thesis by (intro unloadable [OF t' _ Inl _ st0]) (simp_all add: fs0)
    next
      case (Inr d)
      let ?s2 = "s0\<lparr>trace := trace s0 @ [Log Loading_from_existing_generated_data,
                     Call (load_call (path_to_generated_data cfg) (qgen_prefix cfg)),
                     Return (load_call (path_to_generated_data cfg) (qgen_prefix cfg)),
                     Log Using_existing_hard_negative_data]\<rparr>"
      from Inr r fs0 have t': "train tk cfg s = stages_after_mining tk cfg d ?s2"
        by (simp add: t)
      have "trace ?s2 = trace s @ (events_of (assertions tk cfg) s @
              [Log Loading_from_existing_generated_data,
               Call (load_call (path_to_generated_data cfg) (qgen_prefix cfg)),
               Return (load_call (path_to_generated_data cfg) (qgen_prefix cfg)),
               Log Using_existing_hard_negative_data])"
        using tr0 by simp
      from events_of_shift [where m = "train tk cfg" and s = s
             and m' = "stages_after_mining tk cfg d" and s' = ?s2,
             OF t' this emits_stages_after_mining]
      have "events_of (train tk cfg) s = events_of (assertions tk cfg) s @
              [Log Loading_from_existing_generated_data,
               Call (load_call (path_to_generated_data cfg) (qgen_prefix cfg)),
               Return (load_call (path_to_generated_data cfg) (qgen_prefix cfg)),
               Log Using_existing_hard_negative_data] @ events_of (stages_after_mining tk cfg d) ?s2"
        by simp
      then show ?thesis by (intro resumed [OF Inr t' _ _ st0]) (simp_all add: fs0)
    qed
  qed
qed

lemma lookup_put_sibling:
  "a \<noteq> b \<Longrightarrow> lookup (put n (p @ [a]) v) (p @ [b]) = lookup n (p @ [b])"
proof (induction n p rule: lookup.induct)
  case (1 n)
  then show ?case by (cases n) (simp_all add: update_conv')
next
  case (2 c x xs)
  then show ?case by simp
next
  case (3 es x xs)
  then show ?case by (cases "map_of es x") (simp_all add: update_conv')
qed

lemma lookup_put_elsewhere:
  "x \<noteq> y \<Longrightarrow> lookup (put n (x # p) v) (y # q) = lookup n (y # q)"
  by (cases n; cases "p = []") (auto simp: update_conv' split: option.splits)

lemma lookup_makedirs_elsewhere:
  "x \<noteq> y \<Longrightarrow> makedirs n (x # p) = Inr n' \<Longrightarrow> lookup n' (y # q) = lookup n (y # q)"
  by (cases n) (auto simp: update_conv' split: sum.splits)

lemma pseudo_label_runs:
  assumes "listdir (fs s) (path_to_generated_data cfg) = Inr names" "''gpl-training-data.tsv'' \<notin> set names"
  shows "Call (PseudoLabeler_call (path_to_generated_data cfg) (gpl_steps cfg) (batch_size_gpl cfg)
           (cross_encoder cfg)) \<in> set (events_of (pseudo_label tk cfg d) s)"
  using label_unlisted [OF assms, of tk d]
  by (auto simp: events_of_def split: prod.splits option.splits)

text \<open>
  With the corpus, the generated queries and \<open>hard-negatives.jsonl\<close> listed, but not
  \<open>gpl-training-data.tsv\<close>: the events of mining and of pseudo labeling in a run, and the
  frame of \<open>hard-negatives.jsonl\<close>.
\<close>

lemma relabelled_events_and_frame:
  assumes "listdir (fs s) (path_to_generated_data cfg) = Inr names" "''corpus.jsonl'' \<in> set names"
    and "qgen_prefix cfg @ ''-qrels'' \<in> set names" "qgen_prefix cfg @ ''-queries.jsonl'' \<in> set names"
    and "''hard-negatives.jsonl'' \<in> set names" "''gpl-training-data.tsv'' \<notin> set names"
  shows
    "(\<forall>e\<in>set (events_of (train tk cfg) s).
        stage_of e = Mine_negatives \<longrightarrow> e = Log Using_existing_hard_negative_data) \<and>
     (assertions tk cfg s = (Inr (), s0) \<and>
      load tk (path_to_generated_data cfg) (qgen_prefix cfg) (fs s) = Inr d \<longrightarrow>
        Call (PseudoLabeler_call (path_to_generated_data cfg) (gpl_steps cfg) (batch_size_gpl cfg)
                (cross_encoder cfg)) \<in> set (events_of (train tk cfg) s)) \<and>
     ((\<forall>d n. lookup (snd (PseudoLabeler tk (path_to_generated_data cfg) d (gpl_steps cfg)
                   (batch_size_gpl cfg) (cross_encoder cfg) n))
                (path_to_generated_data cfg @ [''hard-negatives.jsonl''])
              = lookup n (path_to_generated_data cfg @ [''hard-negatives.jsonl''])) \<and>
      (\<forall>d n. lookup (snd (fit tk (train_args cfg) d n))
                (path_to_generated_data cfg @ [''hard-negatives.jsonl''])
              = lookup n (path_to_generated_data cfg @ [''hard-negatives.jsonl''])) \<and>
      (\<forall>n. lookup (snd (evaluate tk (evaluation_data cfg) (evaluation_output cfg) (ckpt_dir cfg)
                   (max_seq_length cfg) ''dot'' (pooling cfg) n))
                (path_to_generated_data cfg @ [''hard-negatives.jsonl''])
              = lookup n (path_to_generated_data cfg @ [''hard-negatives.jsonl''])) \<longrightarrow>
        lookup (fs (snd (train tk cfg s))) (path_to_generated_data cfg @ [''hard-negatives.jsonl''])
          = lookup (fs s) (path_to_generated_data cfg @ [''hard-negatives.jsonl'']))"
proof (rule resumed_run [OF assms(1-5), of tk], goal_cases)
  case (1 e s1)
  then show ?thesis by auto
next
  case (2 e s1 xs)
  then show ?thesis by auto
next
  case (3 d' s2 xs)
  note resumed = 3
  let ?hn = "path_to_generated_data cfg @ [''hard-negatives.jsonl'']"
  have later: "\<forall>x\<in>set (events_of (stages_after_mining tk cfg d') s2).
      stage_of x \<in> {Pseudo_label, Train, Evaluate}"
    by (intro ballI) (erule emits_events [OF emits_stages_after_mining])
  have a: "\<forall>e\<in>set (events_of (train tk cfg) s).
        stage_of e = Mine_negatives \<longrightarrow> e = Log Using_existing_hard_negative_data"
    using resumed(4,5) later by auto
  have l2: "listdir (fs s2) (path_to_generated_data cfg) = Inr names"
    using assms(1) resumed(3) by simp
  have "events_of (stages_after_mining tk cfg d') s2 =
          events_of (pseudo_label tk cfg d') s2 @
          (case pseudo_label tk cfg d' s2 of
             (Inl e, s') \<Rightarrow> []
           | (Inr u, s') \<Rightarrow>
               events_of (bind (train_model tk cfg d') (\<lambda>_. evaluate_model tk cfg)) s')"
    unfolding stages_after_mining_def
    by (rule events_of_bind [where P = "\<lambda>e. True" and Q = "\<lambda>e. True"])
       (intro emits_bind emits_mono [OF emits_pseudo_label] emits_mono [OF emits_train_model]
          emits_mono [OF emits_evaluate_model] TrueI)+
  with pseudo_label_runs [OF l2 assms(6), of tk d'] resumed(4)
  have called: "Call (PseudoLabeler_call (path_to_generated_data cfg) (gpl_steps cfg)
      (batch_size_gpl cfg) (cross_encoder cfg)) \<in> set (events_of (train tk cfg) s)"
    by simp
  have b: "assertions tk cfg s = (Inr (), s0) \<and>
      load tk (path_to_generated_data cfg) (qgen_prefix cfg) (fs s) = Inr d \<longrightarrow>
        Call (PseudoLabeler_call (path_to_generated_data cfg) (gpl_steps cfg) (batch_size_gpl cfg)
                (cross_encoder cfg)) \<in> set (events_of (train tk cfg) s)"
    using called by simp
  have c: "lookup (fs (snd (train tk cfg s))) ?hn = lookup (fs s) ?hn"
    if p: "\<forall>d n. lookup (snd (PseudoLabeler tk (path_to_generated_data cfg) d (gpl_steps cfg)
                   (batch_size_gpl cfg) (cross_encoder cfg) n)) ?hn = lookup n ?hn"
      and f: "\<forall>d n. lookup (snd (fit tk (train_args cfg) d n)) ?hn = lookup n ?hn"
      and e: "\<forall>n. lookup (snd (evaluate tk (evaluation_data cfg) (evaluation_output cfg) (ckpt_dir cfg)
                   (max_seq_length cfg) ''dot'' (pooling cfg) n)) ?hn = lookup n ?hn"
  proof -
    have "keeps ?hn (stages_after_mining tk cfg d')"
      unfolding stages_after_mining_def
      by (intro keeps_bind keeps_pseudo_label keeps_train_model keeps_evaluate_model
          p [rule_format] f [rule_format] e [rule_format])
    then have "lookup (fs (snd (stages_after_mining tk cfg d' s2))) ?hn = lookup (fs s2) ?hn"
      unfolding keeps_def by blast
    with resumed(2,3) show ?thesis by simp
  qed
  from a b c show ?thesis by blast
qed

lemma demo_labeler_frame:
  "lookup (snd (PseudoLabeler demo_toolkit [''gen''] d k b ce n)) [''gen'', ''hard-negatives.jsonl'']
     = lookup n [''gen'', ''hard-negatives.jsonl'']"
  using lookup_put_sibling [of "''gpl-training-data.tsv''" "''hard-negatives.jsonl''" n "[''gen'']"]
  by (simp add: demo_toolkit_def)

lemma demo_fit_frame:
  "lookup (snd (fit demo_toolkit (train_args demo_config) d n)) [''gen'', ''hard-negatives.jsonl'']
     = lookup n [''gen'', ''hard-negatives.jsonl'']"
proof (cases "makedirs n [''out'', ''140000'']")
  case (Inl e)
  then show ?thesis by (simp add: demo_toolkit_def demo_train_args str_140000)
next
  case (Inr n')
  from lookup_makedirs_elsewhere [OF _ Inr, of "''gen''" "[''hard-negatives.jsonl'']"]
  have "lookup n' [''gen'', ''hard-negatives.jsonl''] = lookup n [''gen'', ''hard-negatives.jsonl'']"
    by simp
  with Inr show ?thesis
    by (simp add: demo_toolkit_def demo_train_args str_140000 lookup_put_elsewhere)
qed

lemma demo_evaluate_frame:
  "lookup (snd (evaluate demo_toolkit ev out ck len sf pool n)) p = lookup n p"
  by (simp add: demo_toolkit_def split: option.splits sum.splits)

section \<open>The checkpoint directory and the step count\<close>

lemma str_nat_small: "n < 10 \<Longrightarrow> str_nat n = [char_of (48 + n)]"
  by (subst str_nat.simps) simp

lemma str_nat_large: "\<not> n < 10 \<Longrightarrow> str_nat n = str_nat (n div 10) @ [char_of (48 + n mod 10)]"
  by (subst str_nat.simps) simp

lemma digit_code: "d < 10 \<Longrightarrow> of_char (char_of (48 + d) :: char) = (48 + d :: nat)"
  by simp

lemma read_nat_str_nat: "read_nat (str_nat n) = n"
proof (induction n rule: str_nat.induct)
  case (1 n)
  show ?case
  proof (cases "n < 10")
    case True
    then show ?thesis by (simp only: str_nat_small) (simp add: read_nat_def del: str_nat.simps)
  next
    case False
    with 1 have "read_nat (str_nat (n div 10)) = n div 10" by simp
    moreover have "of_char (char_of (48 + n mod 10) :: char) = 48 + n mod 10"
      by (rule digit_code) simp
    ultimately show ?thesis
      by (simp only: str_nat_large [OF False]) (simp add: read_nat_def del: str_nat.simps)
  qed
qed

lemma str_nat_no_sign: "c \<in> set (str_nat n) \<Longrightarrow> c \<noteq> CHR ''-''"
proof (induction n rule: str_nat.induct)
  case (1 n)
  show ?case
  proof (cases "n < 10")
    case True
    with 1(2) have "c = char_of (48 + n)" by (simp only: str_nat_small) (simp del: str_nat.simps)
    with True digit_code [of n] have "of_char c = 48 + n" by simp
    then show ?thesis by auto
  next
    case False
    from 1(2) have "c \<in> set (str_nat (n div 10)) \<or> c = char_of (48 + n mod 10)"
      by (simp only: str_nat_large [OF False]) (auto simp del: str_nat.simps)
    then show ?thesis
    proof
      assume "c \<in> set (str_nat (n div 10))"
      with 1(1) False show ?thesis by (simp del: str_nat.simps)
    next
      assume "c = char_of (48 + n mod 10)"
      with digit_code [of "n mod 10"] have "of_char c = 48 + n mod 10" by simp
      then show ?thesis by auto
    qed
  qed
qed

lemma str_nat_not_empty: "str_nat n \<noteq> []"
  by (cases "n < 10") (simp_all add: str_nat_small str_nat_large del: str_nat.simps)

lemma str_nat_inj: "str_nat m = str_nat n \<Longrightarrow> m = n"
  by (metis read_nat_str_nat)

lemma str_inj: "str i = str j \<Longrightarrow> i = j"
proof -
  assume e: "str i = str j"
  have sign: "CHR ''-'' # xs \<noteq> str_nat n" for xs n
    using str_nat_no_sign [of "CHR ''-''" n] by (metis list.set_intros(1))
  show ?thesis
  proof (cases "i < 0"; cases "j < 0")
    assume "i < 0" "j < 0"
    with e have "nat (- i) = nat (- j)" by (simp add: str_def str_nat_inj del: str_nat.simps)
    with \<open>i < 0\<close> \<open>j < 0\<close> show ?thesis by simp
  next
    assume "i < 0" "\<not> j < 0"
    with e sign show ?thesis by (simp add: str_def del: str_nat.simps)
  next
    assume "\<not> i < 0" "j < 0"
    with e sign [of "str_nat (nat (- j))" "nat i"] show ?thesis by (simp add: str_def del: str_nat.simps)
  next
    assume "\<not> i < 0" "\<not> j < 0"
    with e have "nat i = nat j" by (simp add: str_def str_nat_inj del: str_nat.simps)
    with \<open>\<not> i < 0\<close> \<open>\<not> j < 0\<close> show ?thesis by simp
  qed
qed

lemma ckpt_dir_inj:
  "output_dir cfg' = output_dir cfg \<Longrightarrow> ckpt_dir cfg' = ckpt_dir cfg \<Longrightarrow> gpl_steps cfg' = gpl_steps cfg"
  by (simp add: ckpt_dir_def str_inj)

lemma train_model_events:
  "events_of (train_model tk cfg d) s =
     (if \<exists>x xs. listdir (fs s) (ckpt_dir cfg) = Inr (x # xs) then [Log Trained_GPL_model_found]
      else if \<not> exists (fs s) (ckpt_dir cfg) \<or> listdir (fs s) (ckpt_dir cfg) = Inr [] then
        Log Now_training_GPL # Call (fit_call (train_args cfg)) #
          (case fst (fit tk (train_args cfg) d (fs s)) of
             Some e \<Rightarrow> []
           | None \<Rightarrow> [Return (fit_call (train_args cfg))])
      else [])"
proof -
  consider (found) x xs where "listdir (fs s) (ckpt_dir cfg) = Inr (x # xs)"
    | (absent) "\<not> exists (fs s) (ckpt_dir cfg) \<or> listdir (fs s) (ckpt_dir cfg) = Inr []"
    | (regular) c where "lookup (fs s) (ckpt_dir cfg) = Inr (File c)"
    using ckpt_cases [of "fs s" "ckpt_dir cfg"] by blast
  then show ?thesis
  proof cases
    case found
    then show ?thesis
      by (simp add: train_model_found [OF found] events_of_def)
  next
    case absent
    then have "\<not> (\<exists>x xs. listdir (fs s) (ckpt_dir cfg) = Inr (x # xs))"
      by (auto simp: exists_def listdir_def split: sum.splits node.splits)
    with absent show ?thesis
      by (simp add: train_model_fits [OF absent] fit_model_run events_of_def
          split: prod.splits option.splits)
  next
    case regular
    then have "\<not> (\<exists>x xs. listdir (fs s) (ckpt_dir cfg) = Inr (x # xs))"
      "\<not> (\<not> exists (fs s) (ckpt_dir cfg) \<or> listdir (fs s) (ckpt_dir cfg) = Inr [])"
      by (simp_all add: exists_def listdir_def)
    then show ?thesis
      by (simp add: train_model_regular_file [OF regular] events_of_def)
  qed
qed

lemma events_of_stages_after_mining:
  "events_of (stages_after_mining tk cfg d) s =
     events_of (pseudo_label tk cfg d) s @
     (case pseudo_label tk cfg d s of
        (Inl e, s') \<Rightarrow> []
      | (Inr u, s') \<Rightarrow>
          events_of (train_model tk cfg d) s' @
          (case train_model tk cfg d s' of
             (Inl e, s'') \<Rightarrow> []
           | (Inr u, s'') \<Rightarrow> events_of (evaluate_model tk cfg) s''))"
proof -
  have 1: "events_of (stages_after_mining tk cfg d) s =
          events_of (pseudo_label tk cfg d) s @
          (case pseudo_label tk cfg d s of
             (Inl e, s') \<Rightarrow> []
           | (Inr u, s') \<Rightarrow>
               events_of (bind (train_model tk cfg d) (\<lambda>_. evaluate_model tk cfg)) s')"
    unfolding stages_after_mining_def
    by (rule events_of_bind [where P = "\<lambda>e. True" and Q = "\<lambda>e. True"])
       (intro emits_bind emits_mono [OF emits_pseudo_label] emits_mono [OF emits_train_model]
          emits_mono [OF emits_evaluate_model] TrueI)+
  have 2: "events_of (bind (train_model tk cfg d) (\<lambda>_. evaluate_model tk cfg)) s' =
          events_of (train_model tk cfg d) s' @
          (case train_model tk cfg d s' of
             (Inl e, s'') \<Rightarrow> []
           | (Inr u, s'') \<Rightarrow> events_of (evaluate_model tk cfg) s'')" for s'
    by (rule events_of_bind [where P = "\<lambda>e. True" and Q = "\<lambda>e. True"])
       (intro emits_mono [OF emits_train_model] emits_mono [OF emits_evaluate_model] TrueI)+
  show ?thesis by (simp only: 1 2)
qed

lemma labelled_run:
  assumes "listdir (fs s) (path_to_generated_data cfg) = Inr names" "''corpus.jsonl'' \<in> set names"
    and "qgen_prefix cfg @ ''-qrels'' \<in> set names" "qgen_prefix cfg @ ''-queries.jsonl'' \<in> set names"
    and "''hard-negatives.jsonl'' \<in> set names" "''gpl-training-data.tsv'' \<in> set names"
  obtains (rejected) e s0 where "assertions tk cfg s = (Inl e, s0)"
      "\<forall>x\<in>set (events_of (train tk cfg) s). stage_of x = Assertions"
    | (unloadable) e xs where
      "load tk (path_to_generated_data cfg) (qgen_prefix cfg) (fs s) = Inl e"
      "events_of (train tk cfg) s = xs @ [Log Loading_from_existing_generated_data,
          Call (load_call (path_to_generated_data cfg) (qgen_prefix cfg))]"
      "\<forall>x\<in>set xs. stage_of x = Assertions"
    | (labelled) d s3 xs ys where
      "load tk (path_to_generated_data cfg) (qgen_prefix cfg) (fs s) = Inr d" "fs s3 = fs s"
      "events_of (train tk cfg) s = xs @ reused cfg @ events_of (train_model tk cfg d) s3 @ ys"
      "\<forall>x\<in>set xs. stage_of x = Assertions" "\<forall>y\<in>set ys. stage_of y = Evaluate"
proof (rule resumed_run [OF assms(1-5), of tk], goal_cases)
  case (1 e s1)
  then show ?thesis by (intro rejected [of e s1])
next
  case (2 e s1 xs)
  then show ?thesis by (intro unloadable [of e xs])
next
  case (3 d s2 xs)
  note resumed = 3
  let ?s3 = "s2\<lparr>trace := trace s2 @ [Log Using_existing_GPL_training_data]\<rparr>"
  let ?ys = "case train_model tk cfg d ?s3 of
             (Inl e, s'') \<Rightarrow> []
           | (Inr u, s'') \<Rightarrow> events_of (evaluate_model tk cfg) s''"
  have l2: "listdir (fs s2) (path_to_generated_data cfg) = Inr names"
    using assms(1) resumed(6) by simp
  have p: "pseudo_label tk cfg d s2 = (Inr (), ?s3)"
    by (rule label_listed [OF l2 assms(6)])
  have "events_of (pseudo_label tk cfg d) s2 = [Log Using_existing_GPL_training_data]"
    by (simp add: events_of_def p)
  then have "events_of (stages_after_mining tk cfg d) s2 =
      [Log Using_existing_GPL_training_data] @ events_of (train_model tk cfg d) ?s3 @ ?ys"
    by (simp add: events_of_stages_after_mining p)
  with resumed(7) have ev: "events_of (train tk cfg) s =
      xs @ reused cfg @ events_of (train_model tk cfg d) ?s3 @ ?ys"
    by (simp add: reused_def)
  have "stage_of y = Evaluate" if "y \<in> set ?ys" for y
  proof (cases "train_model tk cfg d ?s3")
    case (Pair r s'')
    show ?thesis
    proof (cases r)
      case (Inl e)
      with Pair that show ?thesis by simp
    next
      case (Inr u)
      with Pair that have "y \<in> set (events_of (evaluate_model tk cfg) s'')" by simp
      then have "y \<in> set (may_emit cfg Evaluate)"
        by (rule emits_events [OF emits_evaluate_model])
      then show ?thesis by (rule may_emit_stage)
    qed
  qed
  then have ys: "\<forall>y\<in>set ?ys. stage_of y = Evaluate" by blast
  have "fs ?s3 = fs s" using resumed(6) by simp
  from resumed(4) this ev resumed(8) ys show ?thesis by (rule labelled)
qed

lemma outside_training:
  assumes "stage_of e = Assertions \<or> stage_of e = Evaluate"
  shows "e \<noteq> Log Trained_GPL_model_found \<and> e \<noteq> Call (fit_call a) \<and> stage_of e \<notin> upstream \<and>
   (\<forall>c. e = Call c \<longrightarrow> \<not> recomputes c)"
proof (cases e)
  case (Log m)
  with assms show ?thesis by (cases m) (auto simp: upstream_def)
next
  case (Call c)
  with assms show ?thesis by (cases c) (auto simp: upstream_def)
next
  case (Return c)
  with assms show ?thesis by (cases c) (auto simp: upstream_def)
qed

lemma reused_events:
  "e \<in> set (reused cfg) \<Longrightarrow>
   e \<noteq> Log Trained_GPL_model_found \<and> e \<noteq> Call (fit_call a) \<and> stage_of e \<in> upstream \<and>
   (\<forall>c. e = Call c \<longrightarrow> \<not> recomputes c)"
  by (auto simp: reused_def upstream_def)

lemma train_model_stage:
  "e \<in> set (events_of (train_model tk cfg d) s) \<Longrightarrow>
   stage_of e \<notin> upstream \<and> (\<forall>c. e = Call c \<longrightarrow> c = fit_call (train_args cfg))"
  by (auto simp: train_model_events upstream_def split: if_splits option.splits)

lemma labelled_run_events:
  assumes "listdir (fs s) (path_to_generated_data cfg) = Inr names" "''corpus.jsonl'' \<in> set names"
    and "qgen_prefix cfg @ ''-qrels'' \<in> set names" "qgen_prefix cfg @ ''-queries.jsonl'' \<in> set names"
    and "''hard-negatives.jsonl'' \<in> set names" "''gpl-training-data.tsv'' \<in> set names"
  shows "\<forall>e\<in>set (events_of (train tk cfg) s). stage_of e \<in> upstream \<longrightarrow> e \<in> set (reused cfg)"
    and "\<forall>c. Call c \<in> set (events_of (train tk cfg) s) \<and> recomputes c \<longrightarrow> c = fit_call (train_args cfg)"
    and "Log Trained_GPL_model_found \<in> set (events_of (train tk cfg) s) \<longrightarrow>
           (\<exists>x xs. listdir (fs s) (ckpt_dir cfg) = Inr (x # xs))"
    and "Call (fit_call (train_args cfg)) \<in> set (events_of (train tk cfg) s) \<longrightarrow>
           \<not> exists (fs s) (ckpt_dir cfg) \<or> listdir (fs s) (ckpt_dir cfg) = Inr []"
    and "assertions tk cfg s = (Inr (), s0) \<and>
         load tk (path_to_generated_data cfg) (qgen_prefix cfg) (fs s) = Inr d \<longrightarrow>
           set (reused cfg) \<subseteq> set (events_of (train tk cfg) s) \<and>
           ((\<exists>x xs. listdir (fs s) (ckpt_dir cfg) = Inr (x # xs)) \<longrightarrow>
              Log Trained_GPL_model_found \<in> set (events_of (train tk cfg) s)) \<and>
           (\<not> exists (fs s) (ckpt_dir cfg) \<or> listdir (fs s) (ckpt_dir cfg) = Inr [] \<longrightarrow>
              Call (fit_call (train_args cfg)) \<in> set (events_of (train tk cfg) s))"
proof -
  let ?evs = "events_of (train tk cfg) s"
  let ?a = "train_args cfg"
  have "(\<forall>e\<in>set ?evs. stage_of e \<in> upstream \<longrightarrow> e \<in> set (reused cfg)) \<and>
    (\<forall>c. Call c \<in> set ?evs \<and> recomputes c \<longrightarrow> c = fit_call ?a) \<and>
    (Log Trained_GPL_model_found \<in> set ?evs \<longrightarrow>
           (\<exists>x xs. listdir (fs s) (ckpt_dir cfg) = Inr (x # xs))) \<and>
    (Call (fit_call ?a) \<in> set ?evs \<longrightarrow>
           \<not> exists (fs s) (ckpt_dir cfg) \<or> listdir (fs s) (ckpt_dir cfg) = Inr []) \<and>
    (assertions tk cfg s = (Inr (), s0) \<and>
         load tk (path_to_generated_data cfg) (qgen_prefix cfg) (fs s) = Inr d \<longrightarrow>
           set (reused cfg) \<subseteq> set ?evs \<and>
           ((\<exists>x xs. listdir (fs s) (ckpt_dir cfg) = Inr (x # xs)) \<longrightarrow>
              Log Trained_GPL_model_found \<in> set ?evs) \<and>
           (\<not> exists (fs s) (ckpt_dir cfg) \<or> listdir (fs s) (ckpt_dir cfg) = Inr [] \<longrightarrow>
              Call (fit_call ?a) \<in> set ?evs))"
  proof (rule labelled_run [OF assms, of tk], goal_cases)
    case (1 e s1)
    then have out: "\<forall>x\<in>set ?evs. stage_of x = Assertions \<or> stage_of x = Evaluate" by simp
    have "\<forall>e\<in>set ?evs. stage_of e \<notin> upstream"
      using out outside_training by blast
    moreover have "\<forall>c. Call c \<in> set ?evs \<longrightarrow> \<not> recomputes c"
      using out outside_training by blast
    moreover have "Log Trained_GPL_model_found \<notin> set ?evs"
      using out outside_training by blast
    moreover have "Call (fit_call ?a) \<notin> set ?evs"
      using out outside_training by blast
    ultimately show ?thesis using 1(1) by auto
  next
    case (2 e xs)
    have xs: "\<forall>x\<in>set xs. stage_of x = Assertions \<or> stage_of x = Evaluate" using 2(3) by simp
    have ev: "set ?evs = set xs \<union> {Log Loading_from_existing_generated_data,
          Call (load_call (path_to_generated_data cfg) (qgen_prefix cfg))}"
      using 2(2) by simp
    have "\<forall>e\<in>set ?evs. stage_of e \<in> upstream \<longrightarrow> e \<in> set (reused cfg)"
      unfolding ev using xs outside_training by (auto simp: reused_def)
    moreover have "\<forall>c. Call c \<in> set ?evs \<longrightarrow> \<not> recomputes c"
      unfolding ev using xs outside_training by auto
    moreover have "Log Trained_GPL_model_found \<notin> set ?evs"
      unfolding ev using xs outside_training by auto
    moreover have "Call (fit_call ?a) \<notin> set ?evs"
      unfolding ev using xs outside_training by auto
    ultimately show ?thesis using 2(1) by auto
  next
    case (3 d' s3 xs ys)
    have xs: "\<forall>x\<in>set xs. stage_of x = Assertions \<or> stage_of x = Evaluate" using 3(4) by simp
    have ys: "\<forall>x\<in>set ys. stage_of x = Assertions \<or> stage_of x = Evaluate" using 3(5) by simp
    let ?t = "events_of (train_model tk cfg d') s3"
    have ev: "set ?evs = set xs \<union> set (reused cfg) \<union> set ?t \<union> set ys"
      using 3(3) by auto
    have xo: "e \<noteq> Log Trained_GPL_model_found \<and> e \<noteq> Call (fit_call ?a) \<and> stage_of e \<notin> upstream \<and>
        (\<forall>c. e = Call c \<longrightarrow> \<not> recomputes c)" if "e \<in> set xs \<or> e \<in> set ys" for e
      using that xs ys by (intro outside_training) auto
    have ro: "e \<noteq> Log Trained_GPL_model_found \<and> e \<noteq> Call (fit_call ?a) \<and> stage_of e \<in> upstream \<and>
        (\<forall>c. e = Call c \<longrightarrow> \<not> recomputes c)" if "e \<in> set (reused cfg)" for e
      using that by (rule reused_events)
    have to: "stage_of e \<notin> upstream \<and> (\<forall>c. e = Call c \<longrightarrow> c = fit_call ?a)" if "e \<in> set ?t" for e
      using that by (rule train_model_stage)
    have a: "\<forall>e\<in>set ?evs. stage_of e \<in> upstream \<longrightarrow> e \<in> set (reused cfg)"
    proof (intro ballI impI)
      fix e assume "e \<in> set ?evs" and u: "stage_of e \<in> upstream"
      then have "(e \<in> set xs \<or> e \<in> set ys) \<or> e \<in> set (reused cfg) \<or> e \<in> set ?t"
        unfolding ev by blast
      then show "e \<in> set (reused cfg)" using xo [of e] to [of e] u by blast
    qed
    have b: "\<forall>c. Call c \<in> set ?evs \<and> recomputes c \<longrightarrow> c = fit_call ?a"
    proof (intro allI impI, elim conjE)
      fix c assume "Call c \<in> set ?evs" and r: "recomputes c"
      then have "(Call c \<in> set xs \<or> Call c \<in> set ys) \<or> Call c \<in> set (reused cfg) \<or> Call c \<in> set ?t"
        unfolding ev by blast
      then show "c = fit_call ?a" using xo [of "Call c"] ro [of "Call c"] to [of "Call c"] r by blast
    qed
    have t: "Log Trained_GPL_model_found \<in> set ?evs \<longleftrightarrow> Log Trained_GPL_model_found \<in> set ?t"
      unfolding ev using xo [of "Log Trained_GPL_model_found"] ro [of "Log Trained_GPL_model_found"]
      by blast
    have f: "Call (fit_call ?a) \<in> set ?evs \<longleftrightarrow> Call (fit_call ?a) \<in> set ?t"
      unfolding ev using xo [of "Call (fit_call ?a)"] ro [of "Call (fit_call ?a)"]
      by blast
    have t': "Log Trained_GPL_model_found \<in> set ?t \<longleftrightarrow>
        (\<exists>x xs. listdir (fs s) (ckpt_dir cfg) = Inr (x # xs))"
      by (auto simp: train_model_events 3(2) split: if_splits option.splits)
    have f': "Call (fit_call ?a) \<in> set ?t \<longleftrightarrow>
        (\<not> (\<exists>x xs. listdir (fs s) (ckpt_dir cfg) = Inr (x # xs)) \<and>
         (\<not> exists (fs s) (ckpt_dir cfg) \<or> listdir (fs s) (ckpt_dir cfg) = Inr []))"
      by (auto simp: train_model_events 3(2) split: if_splits option.splits)
    have n: "\<not> exists (fs s) (ckpt_dir cfg) \<or> listdir (fs s) (ckpt_dir cfg) = Inr [] \<Longrightarrow>
        \<not> (\<exists>x xs. listdir (fs s) (ckpt_dir cfg) = Inr (x # xs))"
      by (auto simp: exists_def listdir_def split: sum.splits node.splits)
    have r: "set (reused cfg) \<subseteq> set ?evs" unfolding ev by blast
    from a b r n show ?thesis unfolding t f t' f' by blast
  qed
  then show
    "\<forall>e\<in>set (events_of (train tk cfg) s). stage_of e \<in> upstream \<longrightarrow> e \<in> set (reused cfg)"
    "\<forall>c. Call c \<in> set (events_of (train tk cfg) s) \<and> recomputes c \<longrightarrow> c = fit_call (train_args cfg)"
    "Log Trained_GPL_model_found \<in> set (events_of (train tk cfg) s) \<longrightarrow>
           (\<exists>x xs. listdir (fs s) (ckpt_dir cfg) = Inr (x # xs))"
    "Call (fit_call (train_args cfg)) \<in> set (events_of (train tk cfg) s) \<longrightarrow>
           \<not> exists (fs s) (ckpt_dir cfg) \<or> listdir (fs s) (ckpt_dir cfg) = Inr []"
    "assertions tk cfg s = (Inr (), s0) \<and>
         load tk (path_to_generated_data cfg) (qgen_prefix cfg) (fs s) = Inr d \<longrightarrow>
           set (reused cfg) \<subseteq> set (events_of (train tk cfg) s) \<and>
           ((\<exists>x xs. listdir (fs s) (ckpt_dir cfg) = Inr (x # xs)) \<longrightarrow>
              Log Trained_GPL_model_found \<in> set (events_of (train tk cfg) s)) \<and>
           (\<not> exists (fs s) (ckpt_dir cfg) \<or> listdir (fs s) (ckpt_dir cfg) = Inr [] \<longrightarrow>
              Call (fit_call (train_args cfg)) \<in> set (events_of (train tk cfg) s))"
    by blast+
qed

lemma str_1000: "str 1000 = ''1000''"
  by (simp add: str_def char_of_def bit_Suc_0_iff)

lemma completed_gen:
  "listdir (fs completed) [''gen''] =
     Inr [''corpus.jsonl'', ''qgen-qrels'', ''qgen-queries.jsonl'', ''hard-negatives.jsonl'',
          ''gpl-training-data.tsv'']"
  by (simp add: completed_def listdir_def)

lemma completed_checkpoints:
  "listdir (fs completed) [''out'', ''140000''] = Inr [''pytorch_model.bin'']"
  "\<not> exists (fs completed) [''out'', ''1000'']"
  by (simp_all add: completed_def listdir_def exists_def)

text \<open>
  C5. The checkpoint directory is \<open>output_dir/<gpl_steps>\<close>. Take a second run that differs
  from the first in the step count only, on a working directory that lists every upstream
  artifact of the first (corpus, queries, hard negatives, labels). Its checkpoint directory
  is another one; the only events of the corpus step, of query generation, of mining and of
  pseudo labeling are the skip lines and the loading of the generated data, so that no
  artifact is recomputed: the only recomputing call a run can make is the fitting; and
  whether it fits or finds a trained model is decided by the listing of its own checkpoint
  directory.
\<close>

theorem checkpoint_keyed_by_step_count:
  assumes "cfg' = cfg\<lparr>gpl_steps := k\<rparr>" "k \<noteq> gpl_steps cfg"
    and "listdir (fs s) (path_to_generated_data cfg) = Inr names" "''corpus.jsonl'' \<in> set names"
    and "qgen_prefix cfg @ ''-qrels'' \<in> set names" "qgen_prefix cfg @ ''-queries.jsonl'' \<in> set names"
    and "''hard-negatives.jsonl'' \<in> set names" "''gpl-training-data.tsv'' \<in> set names"
  shows
    "ckpt_dir cfg = output_dir cfg @ [str (gpl_steps cfg)] \<and>
     ckpt_dir cfg' = output_dir cfg @ [str k] \<and>
     ckpt_dir cfg' \<noteq> ckpt_dir cfg \<and>
     (\<forall>e\<in>set (events_of (train tk cfg') s). stage_of e \<in> upstream \<longrightarrow> e \<in> set (reused cfg)) \<and>
     (\<forall>c. Call c \<in> set (events_of (train tk cfg') s) \<and> recomputes c \<longrightarrow> c = fit_call (train_args cfg')) \<and>
     (Log Trained_GPL_model_found \<in> set (events_of (train tk cfg') s) \<longrightarrow>
        (\<exists>x xs. listdir (fs s) (ckpt_dir cfg') = Inr (x # xs))) \<and>
     (Call (fit_call (train_args cfg')) \<in> set (events_of (train tk cfg') s) \<longrightarrow>
        \<not> exists (fs s) (ckpt_dir cfg') \<or> listdir (fs s) (ckpt_dir cfg') = Inr []) \<and>
     (assertions tk cfg' s = (Inr (), s0) \<and>
      load tk (path_to_generated_data cfg) (qgen_prefix cfg) (fs s) = Inr d \<longrightarrow>
        set (reused cfg) \<subseteq> set (events_of (train tk cfg') s) \<and>
        ((\<exists>x xs. listdir (fs s) (ckpt_dir cfg') = Inr (x # xs)) \<longrightarrow>
           Log Trained_GPL_model_found \<in> set (events_of (train tk cfg') s)) \<and>
        (\<not> exists (fs s) (ckpt_dir cfg') \<or> listdir (fs s) (ckpt_dir cfg') = Inr [] \<longrightarrow>
           Call (fit_call (train_args cfg')) \<in> set (events_of (train tk cfg') s)))"
proof -
  have p: "path_to_generated_data cfg' = path_to_generated_data cfg"
    and q: "qgen_prefix cfg' = qgen_prefix cfg"
    and o: "output_dir cfg' = output_dir cfg" and g: "gpl_steps cfg' = k"
    by (simp_all add: assms(1))
  have r: "reused cfg' = reused cfg" by (simp add: reused_def p q)
  have l: "listdir (fs s) (path_to_generated_data cfg') = Inr names"
    "qgen_prefix cfg' @ ''-qrels'' \<in> set names" "qgen_prefix cfg' @ ''-queries.jsonl'' \<in> set names"
    using assms(3,5,6) by (simp_all add: p q)
  note run = labelled_run_events [OF l(1) assms(4) l(2,3) assms(7,8)]
  have 1: "ckpt_dir cfg = output_dir cfg @ [str (gpl_steps cfg)]" by (simp add: ckpt_dir_def)
  have 2: "ckpt_dir cfg' = output_dir cfg @ [str k]" by (simp add: ckpt_dir_def o g)
  have 3: "ckpt_dir cfg' \<noteq> ckpt_dir cfg"
    using ckpt_dir_inj [OF o] g assms(2) by auto
  show ?thesis
    by (intro conjI 1 2 3 run(1) [unfolded r] run(2) run(3) run(4) run(5) [unfolded r p q])
qed

theorem checkpoint_keyed_by_step_count_witness:
  "ckpt_dir demo_config = [''out'', ''140000''] \<and>
   ckpt_dir (demo_config\<lparr>gpl_steps := 1000\<rparr>) = [''out'', ''1000''] \<and>
   listdir (fs completed) [''gen''] =
     Inr [''corpus.jsonl'', ''qgen-qrels'', ''qgen-queries.jsonl'', ''hard-negatives.jsonl'',
          ''gpl-training-data.tsv''] \<and>
   listdir (fs completed) [''out'', ''140000''] = Inr [''pytorch_model.bin''] \<and>
   \<not> exists (fs completed) [''out'', ''1000''] \<and>
   set (reused demo_config) \<subseteq> set (events_of (train demo_toolkit (demo_config\<lparr>gpl_steps := 1000\<rparr>)) completed) \<and>
   Call (fit_call (train_args (demo_config\<lparr>gpl_steps := 1000\<rparr>)))
     \<in> set (events_of (train demo_toolkit (demo_config\<lparr>gpl_steps := 1000\<rparr>)) completed) \<and>
   Log Trained_GPL_model_found
     \<notin> set (events_of (train demo_toolkit (demo_config\<lparr>gpl_steps := 1000\<rparr>)) completed) \<and>
   {e \<in> set (events_of (train demo_toolkit (demo_config\<lparr>gpl_steps := 1000\<rparr>)) completed).
      stage_of e \<in> upstream} = set (reused demo_config)"
proof -
  let ?cfg = "demo_config\<lparr>gpl_steps := 1000\<rparr>"
  let ?evs = "events_of (train demo_toolkit ?cfg) completed"
  have a: "assertions demo_toolkit ?cfg completed = (Inr (), completed)"
    by (rule assertions_not_requested) simp_all
  have l: "load demo_toolkit (path_to_generated_data demo_config) (qgen_prefix demo_config)
             (fs completed) = Inr ''q1''"
    by (simp add: demo_toolkit_def completed_def)
  have g: "listdir (fs completed) (path_to_generated_data demo_config) =
     Inr [''corpus.jsonl'', ''qgen-qrels'', ''qgen-queries.jsonl'', ''hard-negatives.jsonl'',
          ''gpl-training-data.tsv'']"
    by (simp add: completed_gen)
  have c: "ckpt_dir ?cfg = [''out'', ''1000'']" by (simp add: ckpt_dir_def str_1000)
  have k: "1000 \<noteq> gpl_steps demo_config" by simp
  have m: "''corpus.jsonl'' \<in> set [''corpus.jsonl'', ''qgen-qrels'', ''qgen-queries.jsonl'',
        ''hard-negatives.jsonl'', ''gpl-training-data.tsv'']"
    "qgen_prefix demo_config @ ''-qrels'' \<in> set [''corpus.jsonl'', ''qgen-qrels'',
        ''qgen-queries.jsonl'', ''hard-negatives.jsonl'', ''gpl-training-data.tsv'']"
    "qgen_prefix demo_config @ ''-queries.jsonl'' \<in> set [''corpus.jsonl'', ''qgen-qrels'',
        ''qgen-queries.jsonl'', ''hard-negatives.jsonl'', ''gpl-training-data.tsv'']"
    "''hard-negatives.jsonl'' \<in> set [''corpus.jsonl'', ''qgen-qrels'', ''qgen-queries.jsonl'',
        ''hard-negatives.jsonl'', ''gpl-training-data.tsv'']"
    "''gpl-training-data.tsv'' \<in> set [''corpus.jsonl'', ''qgen-qrels'', ''qgen-queries.jsonl'',
        ''hard-negatives.jsonl'', ''gpl-training-data.tsv'']"
    by simp_all
  note t = checkpoint_keyed_by_step_count [OF refl k g m, of demo_toolkit completed "''q1''"]
  note rest = t [THEN conjunct2, THEN conjunct2, THEN conjunct2]
  note up = rest [THEN conjunct1]
  note found' = rest [THEN conjunct2, THEN conjunct2, THEN conjunct1, unfolded c]
  note reached = rest [THEN conjunct2, THEN conjunct2, THEN conjunct2, THEN conjunct2,
      THEN mp, OF conjI [OF a l], unfolded c]
  have n: "\<not> (\<exists>x xs. listdir (fs completed) [''out'', ''1000''] = Inr (x # xs))"
    by (simp add: completed_def listdir_def)
  have sub: "set (reused demo_config) \<subseteq> set ?evs"
    using reached by (rule conjunct1)
  have fit: "Call (fit_call (train_args ?cfg)) \<in> set ?evs"
    using reached [THEN conjunct2, THEN conjunct2] completed_checkpoints(2) by blast
  have found: "Log Trained_GPL_model_found \<notin> set ?evs"
    using found' n by blast
  have "\<forall>e\<in>set (reused demo_config). stage_of e \<in> upstream"
    using reused_events by blast
  with sub up have "{e \<in> set ?evs. stage_of e \<in> upstream} = set (reused demo_config)"
    by blast
  with sub fit found show ?thesis
    by (simp only: c demo_ckpt_dir completed_gen completed_checkpoints simp_thms)
qed

section \<open>The order of the training examples\<close>

declare batches.simps [simp del]

lemma batches_dropping:
  "0 < b \<Longrightarrow> concat (batches b True xs) = take (length xs div b * b) xs \<and>
     (\<forall>batch\<in>set (batches b True xs). length batch = b)"
proof (induction b "True" xs rule: batches.induct)
  case (1 b xs)
  show ?case
  proof (cases "xs = [] \<or> length xs < b")
    case True
    then show ?thesis by (subst batches.simps, subst (2) batches.simps) auto
  next
    case False
    with 1 have ih: "concat (batches b True (drop b xs)) =
        take (length (drop b xs) div b * b) (drop b xs) \<and>
        (\<forall>batch\<in>set (batches b True (drop b xs)). length batch = b)"
      by simp
    from False 1(2) have d: "length xs div b = Suc ((length xs - b) div b)"
      by (simp add: le_div_geq)
    have "take b xs @ take ((length xs - b) div b * b) (drop b xs) =
        take (b + (length xs - b) div b * b) xs"
      by (simp add: take_add)
    with ih d False have "concat (batches b True xs) = take (length xs div b * b) xs"
      by (subst batches.simps) (simp add: 1(2))
    moreover from ih False 1(2) have "\<forall>batch\<in>set (batches b True xs). length batch = b"
      by (subst batches.simps) auto
    ultimately show ?thesis by blast
  qed
qed

lemma emits_train:
  "emits (\<lambda>e. \<exists>k. e \<in> set (may_emit cfg k)) (train tk cfg)"
  unfolding train_def
  by (intro emits_bind;
      rule emits_mono [OF emits_assertions] emits_mono [OF emits_ensure_corpus]
           emits_mono [OF emits_generate_queries] emits_mono [OF emits_mine_negatives]
           emits_mono [OF emits_pseudo_label] emits_mono [OF emits_train_model]
           emits_mono [OF emits_evaluate_model];
      blast)

lemma fit_call_args:
  "Call (fit_call a) \<in> set (events_of (train tk cfg) s) \<Longrightarrow> a = train_args cfg"
proof -
  assume "Call (fit_call a) \<in> set (events_of (train tk cfg) s)"
  then obtain k where "Call (fit_call a) \<in> set (may_emit cfg k)"
    using emits_events [OF emits_train] by blast
  then show ?thesis by (cases k) (auto split: option.splits)
qed

text \<open>
  C4. In every run, a fitting is called with the arguments of lines 102 to 118: the data of
  \<open>gpl-training-data.tsv\<close>, no shuffling, the batch size of the configuration, the last
  incomplete batch dropped. The batches that these arguments make of a dataset do not
  depend on the order a shuffle would draw; made of the examples of the label rows, they
  are, end to end, the examples of the rows in row order, up to the last full batch.
\<close>

theorem training_batches_in_row_order:
  "(\<forall>a. Call (fit_call a) \<in> set (events_of (train tk cfg) s) \<longrightarrow>
        a = train_args cfg \<and> \<not> shuffle a \<and> drop_last a \<and> batch_size a = batch_size_gpl cfg \<and>
        fpath_gpl_data a = path_to_generated_data cfg @ [''gpl-training-data.tsv'']) \<and>
   train_dataloader (train_args cfg) train_dataset rnd = train_dataloader (train_args cfg) train_dataset id \<and>
   (0 < batch_size_gpl cfg \<longrightarrow>
      (\<exists>bs. train_dataloader (train_args cfg) (GenerativePseudoLabelingDataset rows queries corpus) rnd = Inr bs \<and>
            concat bs = take (length rows div nat (batch_size_gpl cfg) * nat (batch_size_gpl cfg))
                          (map (example queries corpus) rows) \<and>
            (\<forall>batch\<in>set bs. length batch = nat (batch_size_gpl cfg))))"
proof (intro conjI allI impI)
  fix a assume "Call (fit_call a) \<in> set (events_of (train tk cfg) s)"
  then have a: "a = train_args cfg" by (rule fit_call_args)
  show "a = train_args cfg" by (rule a)
  show "\<not> shuffle a" "drop_last a" "batch_size a = batch_size_gpl cfg"
    "fpath_gpl_data a = path_to_generated_data cfg @ [''gpl-training-data.tsv'']"
    by (simp_all add: a train_args_def)
next
  show "train_dataloader (train_args cfg) train_dataset rnd = train_dataloader (train_args cfg) train_dataset id"
    by (simp add: train_dataloader_def DataLoader_def train_args_def)
next
  assume b: "0 < batch_size_gpl cfg"
  let ?b = "nat (batch_size_gpl cfg)"
  let ?ds = "GenerativePseudoLabelingDataset rows queries corpus"
  from b have "0 < ?b" by simp
  from batches_dropping [OF this, of ?ds]
  have "concat (batches ?b True ?ds) = take (length rows div ?b * ?b) (map (example queries corpus) rows) \<and>
     (\<forall>batch\<in>set (batches ?b True ?ds). length batch = ?b)"
    by (simp add: GenerativePseudoLabelingDataset_def)
  moreover from b have "train_dataloader (train_args cfg) ?ds rnd = Inr (batches ?b True ?ds)"
    by (simp add: train_dataloader_def DataLoader_def train_args_def)
  ultimately show "\<exists>bs. train_dataloader (train_args cfg) ?ds rnd = Inr bs \<and>
            concat bs = take (length rows div ?b * ?b) (map (example queries corpus) rows) \<and>
            (\<forall>batch\<in>set bs. length batch = ?b)"
    by blast
qed

theorem training_batches_in_row_order_witness:
  "Call (fit_call (train_args demo_config)) \<in> set (events_of (train demo_toolkit demo_config) interrupted) \<and>
   \<not> shuffle (train_args demo_config) \<and> drop_last (train_args demo_config) \<and>
   batch_size (train_args demo_config) = 32 \<and>
   fpath_gpl_data (train_args demo_config) = [''gen'', ''gpl-training-data.tsv''] \<and>
   0 < batch_size_gpl (demo_config\<lparr>batch_size_gpl := 2\<rparr>) \<and>
   (\<exists>bs. train_dataloader (train_args (demo_config\<lparr>batch_size_gpl := 2\<rparr>))
           (GenerativePseudoLabelingDataset demo_rows demo_text demo_text) rev = Inr bs \<and>
         concat bs =
           [\<lparr> query_text = ''text of q1'', positive_text = ''text of p1'', negative_text = ''text of p2'',
              target_margin = 7 \<rparr>,
            \<lparr> query_text = ''text of q2'', positive_text = ''text of p3'', negative_text = ''text of p1'',
              target_margin = 2 \<rparr>])"
proof -
  have c: "Call (fit_call (train_args demo_config)) \<in> set (events_of (train demo_toolkit demo_config) interrupted)"
    by (simp add: interrupted_events)
  note t = training_batches_in_row_order [of demo_toolkit demo_config interrupted]
  from t [THEN conjunct1, THEN spec, THEN mp, OF c]
  have args: "\<not> shuffle (train_args demo_config) \<and> drop_last (train_args demo_config) \<and>
      batch_size (train_args demo_config) = 32 \<and>
      fpath_gpl_data (train_args demo_config) = [''gen'', ''gpl-training-data.tsv'']"
    by simp
  have b: "0 < batch_size_gpl (demo_config\<lparr>batch_size_gpl := 2\<rparr>)" by simp
  note u = training_batches_in_row_order [of demo_toolkit "demo_config\<lparr>batch_size_gpl := 2\<rparr>" interrupted
      _ _ demo_rows demo_text demo_text, THEN conjunct2, THEN conjunct2, THEN mp, OF b]
  have "\<exists>bs. train_dataloader (train_args (demo_config\<lparr>batch_size_gpl := 2\<rparr>))
           (GenerativePseudoLabelingDataset demo_rows demo_text demo_text) rev = Inr bs \<and>
         concat bs =
           [\<lparr> query_text = ''text of q1'', positive_text = ''text of p1'', negative_text = ''text of p2'',
              target_margin = 7 \<rparr>,
            \<lparr> query_text = ''text of q2'', positive_text = ''text of p3'', negative_text = ''text of p1'',
              target_margin = 2 \<rparr>]"
    using u [of rev] by (auto simp: demo_rows_def demo_text_def example_def)
  with c args b show ?thesis by blast
qed

lemma unloadable_fields [simp]:
  "path_to_generated_data unloadable = [''gen'']"
  "evaluation_data unloadable = Some [''nowhere'']"
  "do_evaluation unloadable"
  "evaluation_output unloadable = None"
  "qgen_prefix unloadable = ''qgen''"
  "cross_encoder unloadable = ''cross-encoder/ms-marco-MiniLM-L-6-v2''"
  "batch_size_gpl unloadable = 32"
  "pooling unloadable = ''mean''"
  "max_seq_length unloadable = 350"
  "gpl_steps unloadable = 140000"
  "train_args unloadable = train_args demo_config"
  "ckpt_dir unloadable = [''out'', ''140000'']"
  by (simp_all add: unloadable_def train_args_def ckpt_dir_def str_140000)

lemma assertions_constructor_returns:
  assumes "GenericDataLoader tk = (\<lambda>p n. None)"
    and "pooling cfg \<in> set [''mean'', ''cls'', ''max'']" "do_evaluation cfg" "evaluation_data cfg = Some ev"
  shows "assertions tk cfg s =
     (Inr (), s\<lparr>trace := trace s @ [Call (GenericDataLoader_call ev), Return (GenericDataLoader_call ev)]\<rparr>)"
  using assms by (simp add: assertions_def bind_def py_assert_def return_def)

text \<open>
  C7. Line 44 constructs the loader and does not call its \<open>load\<close>. BEIR's constructor
  joins file names and reads nothing, so it raises nothing, whatever the evaluation path
  holds: with a supported pooling mode and an evaluation asked for, the check of lines 41
  to 47 always passes, its error line is never logged, and the run is the run of the
  stages from there. Evaluation data that cannot be loaded are met by \<open>evaluate\<close> only: any
  event of the evaluation comes after an event that finishes the training stage.
\<close>

theorem evaluation_data_not_loaded_first:
  assumes "GenericDataLoader tk = (\<lambda>p n. None)"
    and "pooling cfg \<in> set [''mean'', ''cls'', ''max'']" "do_evaluation cfg" "evaluation_data cfg = Some ev"
  shows
    "assertions tk cfg s =
       (Inr (), s\<lparr>trace := trace s @ [Call (GenericDataLoader_call ev), Return (GenericDataLoader_call ev)]\<rparr>) \<and>
     train tk cfg s =
       bind (ensure_corpus tk cfg) (\<lambda>_. stages_after_corpus tk cfg)
         (s\<lparr>trace := trace s @ [Call (GenericDataLoader_call ev), Return (GenericDataLoader_call ev)]\<rparr>) \<and>
     Log Cannot_load_evaluation_data \<notin> set (events_of (train tk cfg) s) \<and>
     (\<forall>e\<in>set (events_of (train tk cfg) s). stage_of e = Evaluate \<longrightarrow>
        (\<exists>f\<in>set (events_of (train tk cfg) s). finishes Train f))"
proof -
  let ?s0 = "s\<lparr>trace := trace s @ [Call (GenericDataLoader_call ev), Return (GenericDataLoader_call ev)]\<rparr>"
  have a: "assertions tk cfg s = (Inr (), ?s0)"
    by (rule assertions_constructor_returns [OF assms])
  then have t: "train tk cfg s = bind (ensure_corpus tk cfg) (\<lambda>_. stages_after_corpus tk cfg) ?s0"
    by (simp add: train_split bind_def)
  have "Log Cannot_load_evaluation_data \<notin> set (events_of (train tk cfg) s)"
  proof
    assume l: "Log Cannot_load_evaluation_data \<in> set (events_of (train tk cfg) s)"
    have "events_of (train tk cfg) s =
        [Call (GenericDataLoader_call ev), Return (GenericDataLoader_call ev)] @
        events_of (bind (ensure_corpus tk cfg) (\<lambda>_. stages_after_corpus tk cfg)) ?s0"
      by (rule events_of_shift [where P = "\<lambda>e. True" and m = "train tk cfg" and s = s
              and m' = "bind (ensure_corpus tk cfg) (\<lambda>_. stages_after_corpus tk cfg)" and s' = ?s0])
         (rule t, simp, intro emits_bind emits_anything_ensure_corpus emits_anything_stages_after_corpus)
    with l have "Log Cannot_load_evaluation_data \<in>
        set (events_of (bind (ensure_corpus tk cfg) (\<lambda>_. stages_after_corpus tk cfg)) ?s0)"
      by simp
    moreover have "emits (\<lambda>e. stage_of e \<noteq> Assertions)
        (bind (ensure_corpus tk cfg) (\<lambda>_. stages_after_corpus tk cfg))"
    proof (intro emits_bind)
      show "emits (\<lambda>e. stage_of e \<noteq> Assertions) (ensure_corpus tk cfg)"
        by (rule emits_mono [OF emits_ensure_corpus]) (drule may_emit_stage, simp)
      show "emits (\<lambda>e. stage_of e \<noteq> Assertions) (stages_after_corpus tk cfg)"
        by (rule emits_mono [OF stages_after_corpus_not_earlier]) simp
    qed
    ultimately have "stage_of (Log Cannot_load_evaluation_data) \<noteq> Assertions"
      by (rule emits_events [rotated])
    then show False by simp
  qed
  moreover have "\<forall>e\<in>set (events_of (train tk cfg) s). stage_of e = Evaluate \<longrightarrow>
        (\<exists>f\<in>set (events_of (train tk cfg) s). finishes Train f)"
  proof (intro ballI impI)
    fix e assume e: "e \<in> set (events_of (train tk cfg) s)" "stage_of e = Evaluate"
    from chained_events_of_train [of tk cfg s] e
    show "\<exists>f\<in>set (events_of (train tk cfg) s). finishes Train f"
      unfolding chained_def by (elim conjE) (drule bspec, assumption, drule spec [of _ Train], simp)
  qed
  ultimately show ?thesis using a t by blast
qed

theorem evaluation_data_not_loaded_first_witness:
  "\<not> exists (fs interrupted) [''nowhere''] \<and>
   train demo_toolkit unloadable interrupted =
     (Inl FileNotFoundError,
      \<lparr>fs = Dir [(''eval'', Dir [(''corpus.jsonl'', File ''p1 p2 p3'')]),
                 (''gen'', Dir [(''corpus.jsonl'', File ''p1 p2 p3''),
                               (''qgen-qrels'', Dir [(''train.tsv'', File ''q1 p1 1'')]),
                               (''qgen-queries.jsonl'', File ''q1''),
                               (''hard-negatives.jsonl'', File []),
                               (''gpl-training-data.tsv'', File ''q1 p1 p2 0.7'')]),
                 (''out'', Dir [(''140000'', Dir [(''pytorch_model.bin'', File ''weights'')])])],
       trace =
         [Call (GenericDataLoader_call [''nowhere'']),
          Return (GenericDataLoader_call [''nowhere'']),
          Log Loading_from_existing_generated_data,
          Call (load_call [''gen''] ''qgen''),
          Return (load_call [''gen''] ''qgen''),
          Log Using_existing_hard_negative_data,
          Log No_GPL_training_data_found,
          Call (PseudoLabeler_call [''gen''] 140000 32 ''cross-encoder/ms-marco-MiniLM-L-6-v2''),
          Return (PseudoLabeler_call [''gen''] 140000 32 ''cross-encoder/ms-marco-MiniLM-L-6-v2''),
          Log Now_training_GPL,
          Call (fit_call (train_args demo_config)),
          Return (fit_call (train_args demo_config)),
          Log Doing_evaluation_for_GPL,
          Call (evaluate_call (Some [''nowhere'']) None [''out'', ''140000''] 350 ''dot'' ''mean'')]\<rparr>)"
proof -
  let ?s0 = "interrupted\<lparr>trace := trace interrupted @
         [Call (GenericDataLoader_call [''nowhere'']), Return (GenericDataLoader_call [''nowhere''])]\<rparr>"
  let ?s3 = "?s0\<lparr>trace := trace ?s0 @
         [Log Loading_from_existing_generated_data,
          Call (load_call [''gen''] ''qgen''),
          Return (load_call [''gen''] ''qgen'')]\<rparr>"
  let ?s4 = "?s3\<lparr>trace := trace ?s3 @ [Log Using_existing_hard_negative_data]\<rparr>"
  let ?s5 = "?s4\<lparr>fs := put (fs interrupted) [''gen'', ''gpl-training-data.tsv''] (File ''q1 p1 p2 0.7''),
         trace := trace ?s4 @ [Log No_GPL_training_data_found,
          Call (PseudoLabeler_call [''gen''] 140000 32 ''cross-encoder/ms-marco-MiniLM-L-6-v2''),
          Return (PseudoLabeler_call [''gen''] 140000 32 ''cross-encoder/ms-marco-MiniLM-L-6-v2'')]\<rparr>"
  let ?n6 = "Dir [(''eval'', Dir [(''corpus.jsonl'', File ''p1 p2 p3'')]),
                 (''gen'', Dir [(''corpus.jsonl'', File ''p1 p2 p3''),
                               (''qgen-qrels'', Dir [(''train.tsv'', File ''q1 p1 1'')]),
                               (''qgen-queries.jsonl'', File ''q1''),
                               (''hard-negatives.jsonl'', File []),
                               (''gpl-training-data.tsv'', File ''q1 p1 p2 0.7'')]),
                 (''out'', Dir [(''140000'', Dir [(''pytorch_model.bin'', File ''weights'')])])]"
  let ?s6 = "?s5\<lparr>fs := ?n6, trace := trace ?s5 @ [Log Now_training_GPL,
          Call (fit_call (train_args demo_config)), Return (fit_call (train_args demo_config))]\<rparr>"
  let ?s7 = "?s6\<lparr>trace := trace ?s6 @ [Log Doing_evaluation_for_GPL,
          Call (evaluate_call (Some [''nowhere'']) None [''out'', ''140000''] 350 ''dot'' ''mean'')]\<rparr>"
  have c: "GenericDataLoader demo_toolkit = (\<lambda>p n. None)" by (simp add: demo_toolkit_def)
  have p: "pooling unloadable \<in> set [''mean'', ''cls'', ''max'']" by simp
  note t = evaluation_data_not_loaded_first [OF c p unloadable_fields(3) unloadable_fields(2), of interrupted]
  have l: "listdir (fs ?s0) (path_to_generated_data unloadable) =
     Inr [''corpus.jsonl'', ''qgen-qrels'', ''qgen-queries.jsonl'', ''hard-negatives.jsonl'']"
    by (simp add: interrupted_gen)
  have 2: "ensure_corpus demo_toolkit unloadable ?s0 = (Inr (), ?s0)"
    by (rule ensure_corpus_present [OF l]) simp
  have 3: "generate_queries demo_toolkit unloadable ?s0 = (Inr ''q1'', ?s3)"
    by (simp add: stage_defs demo_toolkit_def interrupted_def)
  have 4: "mine_negatives demo_toolkit unloadable ?s3 = (Inr (), ?s4)"
    by (simp add: stage_defs demo_toolkit_def interrupted_def)
  have 5: "pseudo_label demo_toolkit unloadable ''q1'' ?s4 = (Inr (), ?s5)"
    by (simp add: stage_defs demo_toolkit_def interrupted_def)
  have 6: "train_model demo_toolkit unloadable ''q1'' ?s5 = (Inr (), ?s6)"
    by (simp add: stage_defs demo_toolkit_def interrupted_def demo_train_args str_140000)
  have 7: "evaluate_model demo_toolkit unloadable ?s6 = (Inl FileNotFoundError, ?s7)"
    by (simp add: stage_defs demo_toolkit_def)
  have "train demo_toolkit unloadable interrupted = (Inl FileNotFoundError, ?s7)"
    by (simp only: t [THEN conjunct2, THEN conjunct1] stages_after_corpus_def bind_def
        2 3 4 5 6 7 prod.case sum.case)
  moreover have "\<not> exists (fs interrupted) [''nowhere'']"
    by (simp add: exists_def interrupted_def)
  ultimately show ?thesis by (simp add: interrupted_def)
qed

lemma relabelled_run:
  assumes "listdir (fs s) (path_to_generated_data cfg) = Inr names" "''corpus.jsonl'' \<in> set names"
    and "qgen_prefix cfg @ ''-qrels'' \<in> set names" "qgen_prefix cfg @ ''-queries.jsonl'' \<in> set names"
    and "''hard-negatives.jsonl'' \<in> set names" "''gpl-training-data.tsv'' \<notin> set names"
    and "assertions tk cfg s = (Inr (), s0)"
    and "load tk (path_to_generated_data cfg) (qgen_prefix cfg) (fs s) = Inr d"
  shows "train tk cfg s =
     (case PseudoLabeler tk (path_to_generated_data cfg) d (gpl_steps cfg) (batch_size_gpl cfg)
             (cross_encoder cfg) (fs s) of
        (Some e, n) \<Rightarrow>
          (Inl e, s0\<lparr>fs := n, trace := trace s0 @
             [Log Loading_from_existing_generated_data,
              Call (load_call (path_to_generated_data cfg) (qgen_prefix cfg)),
              Return (load_call (path_to_generated_data cfg) (qgen_prefix cfg)),
              Log Using_existing_hard_negative_data,
              Log No_GPL_training_data_found,
              Call (PseudoLabeler_call (path_to_generated_data cfg) (gpl_steps cfg)
                      (batch_size_gpl cfg) (cross_encoder cfg))]\<rparr>)
      | (None, n) \<Rightarrow>
          bind (train_model tk cfg d) (\<lambda>_. evaluate_model tk cfg)
            (s0\<lparr>fs := n, trace := trace s0 @
             [Log Loading_from_existing_generated_data,
              Call (load_call (path_to_generated_data cfg) (qgen_prefix cfg)),
              Return (load_call (path_to_generated_data cfg) (qgen_prefix cfg)),
              Log Using_existing_hard_negative_data,
              Log No_GPL_training_data_found,
              Call (PseudoLabeler_call (path_to_generated_data cfg) (gpl_steps cfg)
                      (batch_size_gpl cfg) (cross_encoder cfg)),
              Return (PseudoLabeler_call (path_to_generated_data cfg) (gpl_steps cfg)
                      (batch_size_gpl cfg) (cross_encoder cfg))]\<rparr>))"
proof -
  let ?s2 = "s0\<lparr>trace := trace s0 @
             [Log Loading_from_existing_generated_data,
              Call (load_call (path_to_generated_data cfg) (qgen_prefix cfg)),
              Return (load_call (path_to_generated_data cfg) (qgen_prefix cfg)),
              Log Using_existing_hard_negative_data]\<rparr>"
  from assertions_fs [of tk cfg s] assms(7) have f: "fs s0 = fs s" by simp
  with assms(1) have l0: "listdir (fs s0) (path_to_generated_data cfg) = Inr names" by simp
  have c: "ensure_corpus tk cfg s0 = (Inr (), s0)"
    by (rule ensure_corpus_present [OF l0 assms(2)])
  have "train tk cfg s = stages_after_corpus tk cfg s0"
    by (simp add: train_split bind_def assms(7) c)
  also have "\<dots> = stages_after_mining tk cfg d ?s2"
    using resumed_stages [OF l0 assms(3,4,5), of tk] assms(8) f by simp
  finally have t: "train tk cfg s = stages_after_mining tk cfg d ?s2" .
  have l2: "listdir (fs ?s2) (path_to_generated_data cfg) = Inr names"
    using l0 by simp
  show ?thesis
    unfolding t stages_after_mining_def
    by (simp add: bind_def label_unlisted [OF l2 assms(6)] f split: prod.splits option.splits)
qed

text \<open>
  C3. Let the working directory list the corpus, the generated queries and
  \<open>hard-negatives.jsonl\<close>, but not \<open>gpl-training-data.tsv\<close>. Then the only event of mining
  in a run is its skip line: the miner is not called. If the assertions pass and the
  generated data load, the pseudo labeler is run on the file system as it was found, with
  the loaded data, the step count, the batch size and the cross-encoder of the
  configuration: if it raises, that is the error of the run, in the state it leaves; if
  it returns, training and evaluation go on from the file system it leaves. And \<open>train\<close>
  itself never touches \<open>hard-negatives.jsonl\<close>: if the pseudo labeler, the fitting and the
  evaluation leave the node at that path as it is, so does the run.
\<close>

theorem relabeling_leaves_hard_negatives:
  assumes "listdir (fs s) (path_to_generated_data cfg) = Inr names" "''corpus.jsonl'' \<in> set names"
    and "qgen_prefix cfg @ ''-qrels'' \<in> set names" "qgen_prefix cfg @ ''-queries.jsonl'' \<in> set names"
    and "''hard-negatives.jsonl'' \<in> set names" "''gpl-training-data.tsv'' \<notin> set names"
  shows
    "(\<forall>e\<in>set (events_of (train tk cfg) s).
        stage_of e = Mine_negatives \<longrightarrow> e = Log Using_existing_hard_negative_data) \<and>
     (assertions tk cfg s = (Inr (), s0) \<and>
      load tk (path_to_generated_data cfg) (qgen_prefix cfg) (fs s) = Inr d \<longrightarrow>
        Call (PseudoLabeler_call (path_to_generated_data cfg) (gpl_steps cfg) (batch_size_gpl cfg)
                (cross_encoder cfg)) \<in> set (events_of (train tk cfg) s) \<and>
        train tk cfg s =
          (case PseudoLabeler tk (path_to_generated_data cfg) d (gpl_steps cfg) (batch_size_gpl cfg)
                  (cross_encoder cfg) (fs s) of
             (Some e, n) \<Rightarrow>
               (Inl e, s0\<lparr>fs := n, trace := trace s0 @
                  [Log Loading_from_existing_generated_data,
                   Call (load_call (path_to_generated_data cfg) (qgen_prefix cfg)),
                   Return (load_call (path_to_generated_data cfg) (qgen_prefix cfg)),
                   Log Using_existing_hard_negative_data,
                   Log No_GPL_training_data_found,
                   Call (PseudoLabeler_call (path_to_generated_data cfg) (gpl_steps cfg)
                           (batch_size_gpl cfg) (cross_encoder cfg))]\<rparr>)
           | (None, n) \<Rightarrow>
               bind (train_model tk cfg d) (\<lambda>_. evaluate_model tk cfg)
                 (s0\<lparr>fs := n, trace := trace s0 @
                  [Log Loading_from_existing_generated_data,
                   Call (load_call (path_to_generated_data cfg) (qgen_prefix cfg)),
                   Return (load_call (path_to_generated_data cfg) (qgen_prefix cfg)),
                   Log Using_existing_hard_negative_data,
                   Log No_GPL_training_data_found,
                   Call (PseudoLabeler_call (path_to_generated_data cfg) (gpl_steps cfg)
                           (batch_size_gpl cfg) (cross_encoder cfg)),
                   Return (PseudoLabeler_call (path_to_generated_data cfg) (gpl_steps cfg)
                           (batch_size_gpl cfg) (cross_encoder cfg))]\<rparr>))) \<and>
     ((\<forall>d n. lookup (snd (PseudoLabeler tk (path_to_generated_data cfg) d (gpl_steps cfg)
                   (batch_size_gpl cfg) (cross_encoder cfg) n))
                (path_to_generated_data cfg @ [''hard-negatives.jsonl''])
              = lookup n (path_to_generated_data cfg @ [''hard-negatives.jsonl''])) \<and>
      (\<forall>d n. lookup (snd (fit tk (train_args cfg) d n))
                (path_to_generated_data cfg @ [''hard-negatives.jsonl''])
              = lookup n (path_to_generated_data cfg @ [''hard-negatives.jsonl''])) \<and>
      (\<forall>n. lookup (snd (evaluate tk (evaluation_data cfg) (evaluation_output cfg) (ckpt_dir cfg)
                   (max_seq_length cfg) ''dot'' (pooling cfg) n))
                (path_to_generated_data cfg @ [''hard-negatives.jsonl''])
              = lookup n (path_to_generated_data cfg @ [''hard-negatives.jsonl''])) \<longrightarrow>
        lookup (fs (snd (train tk cfg s))) (path_to_generated_data cfg @ [''hard-negatives.jsonl''])
          = lookup (fs s) (path_to_generated_data cfg @ [''hard-negatives.jsonl'']))"
proof -
  note old = relabelled_events_and_frame [OF assms, of tk s0 d]
  note run = relabelled_run [OF assms, of tk s0 d]
  show ?thesis
    apply (intro conjI impI)
       apply (rule old [THEN conjunct1])
      apply (erule old [THEN conjunct2, THEN conjunct1, THEN mp])
     apply (elim conjE, erule (1) run)
    apply (erule old [THEN conjunct2, THEN conjunct2, THEN mp])
    done
qed

theorem relabeling_leaves_hard_negatives_witness:
  "listdir (fs interrupted) [''gen''] =
     Inr [''corpus.jsonl'', ''qgen-qrels'', ''qgen-queries.jsonl'', ''hard-negatives.jsonl''] \<and>
   {e \<in> set (events_of (train demo_toolkit demo_config) interrupted). stage_of e = Mine_negatives}
     = {Log Using_existing_hard_negative_data} \<and>
   PseudoLabeler demo_toolkit [''gen''] ''q1'' 140000 32 ''cross-encoder/ms-marco-MiniLM-L-6-v2''
       (fs interrupted) =
     (None, put (fs interrupted) [''gen'', ''gpl-training-data.tsv''] (File ''q1 p1 p2 0.7'')) \<and>
   train demo_toolkit demo_config interrupted =
     bind (train_model demo_toolkit demo_config ''q1'') (\<lambda>_. evaluate_model demo_toolkit demo_config)
       (interrupted\<lparr>fs := put (fs interrupted) [''gen'', ''gpl-training-data.tsv''] (File ''q1 p1 p2 0.7''),
          trace :=
            [Log Loading_from_existing_generated_data,
             Call (load_call [''gen''] ''qgen''),
             Return (load_call [''gen''] ''qgen''),
             Log Using_existing_hard_negative_data,
             Log No_GPL_training_data_found,
             Call (PseudoLabeler_call [''gen''] 140000 32 ''cross-encoder/ms-marco-MiniLM-L-6-v2''),
             Return (PseudoLabeler_call [''gen''] 140000 32 ''cross-encoder/ms-marco-MiniLM-L-6-v2'')]\<rparr>) \<and>
   lookup (fs (snd (train demo_toolkit demo_config interrupted))) [''gen'', ''gpl-training-data.tsv'']
     = Inr (File ''q1 p1 p2 0.7'') \<and>
   lookup (fs (snd (train demo_toolkit demo_config interrupted))) [''gen'', ''hard-negatives.jsonl'']
     = lookup (fs interrupted) [''gen'', ''hard-negatives.jsonl'']"
proof -
  let ?evs = "events_of (train demo_toolkit demo_config) interrupted"
  have a: "assertions demo_toolkit demo_config interrupted = (Inr (), interrupted)"
    by (rule assertions_not_requested) simp_all
  have l: "load demo_toolkit (path_to_generated_data demo_config) (qgen_prefix demo_config)
             (fs interrupted) = Inr ''q1''"
    by (simp add: demo_toolkit_def interrupted_def)
  have m: "''corpus.jsonl'' \<in> set [''corpus.jsonl'', ''qgen-qrels'', ''qgen-queries.jsonl'', ''hard-negatives.jsonl'']"
    "qgen_prefix demo_config @ ''-qrels'' \<in> set [''corpus.jsonl'', ''qgen-qrels'', ''qgen-queries.jsonl'', ''hard-negatives.jsonl'']"
    "qgen_prefix demo_config @ ''-queries.jsonl'' \<in> set [''corpus.jsonl'', ''qgen-qrels'', ''qgen-queries.jsonl'', ''hard-negatives.jsonl'']"
    "''hard-negatives.jsonl'' \<in> set [''corpus.jsonl'', ''qgen-qrels'', ''qgen-queries.jsonl'', ''hard-negatives.jsonl'']"
    "''gpl-training-data.tsv'' \<notin> set [''corpus.jsonl'', ''qgen-qrels'', ''qgen-queries.jsonl'', ''hard-negatives.jsonl'']"
    by simp_all
  note t = relabeling_leaves_hard_negatives [OF interrupted_listing m, of demo_toolkit interrupted "''q1''"]
  have pl: "PseudoLabeler demo_toolkit (path_to_generated_data demo_config) ''q1'' (gpl_steps demo_config)
       (batch_size_gpl demo_config) (cross_encoder demo_config) (fs interrupted) =
     (None, put (fs interrupted) [''gen'', ''gpl-training-data.tsv''] (File ''q1 p1 p2 0.7''))"
    by (simp add: demo_toolkit_def)
  note run = t [THEN conjunct2, THEN conjunct1, THEN mp, OF conjI [OF a l], THEN conjunct2,
      unfolded pl prod.case option.case]
  have mining: "\<forall>e\<in>set ?evs. stage_of e = Mine_negatives \<longrightarrow> e = Log Using_existing_hard_negative_data"
    by (rule t [THEN conjunct1])
  have "Log Using_existing_hard_negative_data \<in> set ?evs"
    by (simp add: interrupted_events)
  moreover have "stage_of (Log Using_existing_hard_negative_data) = Mine_negatives"
    by simp
  ultimately have 1: "{e \<in> set ?evs. stage_of e = Mine_negatives} = {Log Using_existing_hard_negative_data}"
    using mining by blast
  have e: "trace interrupted = []" by (simp add: interrupted_def)
  have 2: "PseudoLabeler demo_toolkit [''gen''] ''q1'' 140000 32 ''cross-encoder/ms-marco-MiniLM-L-6-v2''
       (fs interrupted) =
     (None, put (fs interrupted) [''gen'', ''gpl-training-data.tsv''] (File ''q1 p1 p2 0.7''))"
    using pl by simp
  have 3: "train demo_toolkit demo_config interrupted =
     bind (train_model demo_toolkit demo_config ''q1'') (\<lambda>_. evaluate_model demo_toolkit demo_config)
       (interrupted\<lparr>fs := put (fs interrupted) [''gen'', ''gpl-training-data.tsv''] (File ''q1 p1 p2 0.7''),
          trace :=
            [Log Loading_from_existing_generated_data,
             Call (load_call [''gen''] ''qgen''),
             Return (load_call [''gen''] ''qgen''),
             Log Using_existing_hard_negative_data,
             Log No_GPL_training_data_found,
             Call (PseudoLabeler_call [''gen''] 140000 32 ''cross-encoder/ms-marco-MiniLM-L-6-v2''),
             Return (PseudoLabeler_call [''gen''] 140000 32 ''cross-encoder/ms-marco-MiniLM-L-6-v2'')]\<rparr>)"
    using run by (simp add: e)
  have 4: "lookup (fs (snd (train demo_toolkit demo_config interrupted))) [''gen'', ''gpl-training-data.tsv'']
     = Inr (File ''q1 p1 p2 0.7'')"
    by (simp add: interrupted_run)
  have 5: "lookup (fs (snd (train demo_toolkit demo_config interrupted))) [''gen'', ''hard-negatives.jsonl'']
     = lookup (fs interrupted) [''gen'', ''hard-negatives.jsonl'']"
    using t [THEN conjunct2, THEN conjunct2] demo_labeler_frame demo_fit_frame demo_evaluate_frame
    by simp
  from interrupted_gen 1 2 3 4 5 show ?thesis by (intro conjI)
qed

lemma spaced_fields [simp]:
  "path_to_generated_data spaced = [''my gen'']"
  "evaluation_data spaced = Some [''eval'']"
  "do_evaluation spaced = False"
  "qgen_prefix spaced = ''qgen''"
  "pooling spaced = ''mean''"
  "new_size spaced = None"
  by (simp_all add: spaced_def)

lemma my_gen_line:
  "os_system tk ''cp eval/corpus.jsonl my gen'' n =
     cp_all n [[''eval'', ''corpus.jsonl''], [''my''], [''gen'']]"
  by (simp add: os_system_def words_of_def path_of_def operand_def plain_def blank_def)

lemma spaced_ensure_corpus:
  "ensure_corpus tk spaced fresh =
     (Inr (),
      \<lparr>fs = Dir [(''eval'', Dir [(''corpus.jsonl'', File ''p1 p2 p3'')]), (''my gen'', Dir [])],
       trace = [Log (Corpus_does_not_exist [''my gen''] (Some [''eval''])),
                Call (system_cp [''eval'', ''corpus.jsonl''] [''my gen'']),
                Return (system_cp [''eval'', ''corpus.jsonl''] [''my gen''])]\<rparr>)"
  by (simp add: ensure_corpus_def bind_def os_makedirs_def os_listdir_def listdir_def emit_def
      py_assert_def return_def os_system_cp_def invoke_def my_gen_line cp_all_def fresh_def)

lemma spaced_generate_queries:
  "generate_queries tk spaced
     \<lparr>fs = Dir [(''eval'', Dir [(''corpus.jsonl'', File ''p1 p2 p3'')]), (''my gen'', Dir [])],
      trace = [Log (Corpus_does_not_exist [''my gen''] (Some [''eval''])),
               Call (system_cp [''eval'', ''corpus.jsonl''] [''my gen'']),
               Return (system_cp [''eval'', ''corpus.jsonl''] [''my gen''])]\<rparr> =
     (Inl (AssertionError ''At least corpus should exist!''),
      \<lparr>fs = Dir [(''eval'', Dir [(''corpus.jsonl'', File ''p1 p2 p3'')]), (''my gen'', Dir [])],
       trace = [Log (Corpus_does_not_exist [''my gen''] (Some [''eval''])),
                Call (system_cp [''eval'', ''corpus.jsonl''] [''my gen'']),
                Return (system_cp [''eval'', ''corpus.jsonl''] [''my gen'']),
                Log No_generated_data_found]\<rparr>)"
  by (simp add: generate_queries_def bind_def os_listdir_def listdir_def emit_def py_assert_def
      raise_def)

text \<open>
  C6. The corpus is not always brought over. Take a first run with the defaults, the
  evaluation data under \<open>eval\<close> and \<open>path_to_generated_data = 'my gen'\<close>. \<open>os.makedirs\<close>
  creates \<open>my gen\<close>, \<open>eval\<close> lists \<open>corpus.jsonl\<close>, and line 59 runs
  \<open>cp eval/corpus.jsonl my gen\<close>, which the shell reads as two sources and the target \<open>gen\<close>:
  nothing is copied, nothing is raised, and the corpus step returns with \<open>my gen\<close> empty.
  The run ends in the assertion of line 66. This holds whatever the collaborators are.
\<close>

theorem corpus_not_copied_into_spaced_directory:
  "lookup (fs fresh) [''eval'', ''corpus.jsonl''] = Inr (File ''p1 p2 p3'') \<and>
   ensure_corpus tk spaced fresh =
     (Inr (),
      \<lparr>fs = Dir [(''eval'', Dir [(''corpus.jsonl'', File ''p1 p2 p3'')]), (''my gen'', Dir [])],
       trace = [Log (Corpus_does_not_exist [''my gen''] (Some [''eval''])),
                Call (system_cp [''eval'', ''corpus.jsonl''] [''my gen'']),
                Return (system_cp [''eval'', ''corpus.jsonl''] [''my gen''])]\<rparr>) \<and>
   listdir (fs (snd (ensure_corpus tk spaced fresh))) [''my gen''] = Inr [] \<and>
   train tk spaced fresh =
     (Inl (AssertionError ''At least corpus should exist!''),
      \<lparr>fs = Dir [(''eval'', Dir [(''corpus.jsonl'', File ''p1 p2 p3'')]), (''my gen'', Dir [])],
       trace = [Log (Corpus_does_not_exist [''my gen''] (Some [''eval''])),
                Call (system_cp [''eval'', ''corpus.jsonl''] [''my gen'']),
                Return (system_cp [''eval'', ''corpus.jsonl''] [''my gen'']),
                Log No_generated_data_found]\<rparr>)"
proof -
  have 1: "assertions tk spaced fresh = (Inr (), fresh)"
    by (rule assertions_not_requested) simp_all
  have "train tk spaced fresh =
     (Inl (AssertionError ''At least corpus should exist!''),
      \<lparr>fs = Dir [(''eval'', Dir [(''corpus.jsonl'', File ''p1 p2 p3'')]), (''my gen'', Dir [])],
       trace = [Log (Corpus_does_not_exist [''my gen''] (Some [''eval''])),
                Call (system_cp [''eval'', ''corpus.jsonl''] [''my gen'']),
                Return (system_cp [''eval'', ''corpus.jsonl''] [''my gen'']),
                Log No_generated_data_found]\<rparr>)"
    by (simp only: train_def bind_def 1 spaced_ensure_corpus spaced_generate_queries
        prod.case sum.case)
  moreover have "lookup (fs fresh) [''eval'', ''corpus.jsonl''] = Inr (File ''p1 p2 p3'')"
    by (simp add: fresh_def)
  moreover have "listdir (fs (snd (ensure_corpus tk spaced fresh))) [''my gen''] = Inr []"
    by (simp add: spaced_ensure_corpus listdir_def)
  ultimately show ?thesis using spaced_ensure_corpus [of tk] by simp
qed

lemma directory_ensure_corpus:
  "ensure_corpus tk demo_config corpus_is_directory =
     (Inr (),
      \<lparr>fs = Dir [(''eval'', Dir [(''corpus.jsonl'', Dir [])]), (''gen'', Dir [])],
       trace = [Log (Corpus_does_not_exist [''gen''] (Some [''eval''])),
                Call (system_cp [''eval'', ''corpus.jsonl''] [''gen'']),
                Return (system_cp [''eval'', ''corpus.jsonl''] [''gen''])]\<rparr>)"
  by (simp add: ensure_corpus_def bind_def os_makedirs_def os_listdir_def listdir_def emit_def
      py_assert_def return_def os_system_cp_def invoke_def demo_cp_line cp_def corpus_is_directory_def)

lemma directory_generate_queries:
  "generate_queries tk demo_config
     \<lparr>fs = Dir [(''eval'', Dir [(''corpus.jsonl'', Dir [])]), (''gen'', Dir [])],
      trace = [Log (Corpus_does_not_exist [''gen''] (Some [''eval''])),
               Call (system_cp [''eval'', ''corpus.jsonl''] [''gen'']),
               Return (system_cp [''eval'', ''corpus.jsonl''] [''gen''])]\<rparr> =
     (Inl (AssertionError ''At least corpus should exist!''),
      \<lparr>fs = Dir [(''eval'', Dir [(''corpus.jsonl'', Dir [])]), (''gen'', Dir [])],
       trace = [Log (Corpus_does_not_exist [''gen''] (Some [''eval''])),
                Call (system_cp [''eval'', ''corpus.jsonl''] [''gen'']),
                Return (system_cp [''eval'', ''corpus.jsonl''] [''gen'']),
                Log No_generated_data_found]\<rparr>)"
  by (simp add: generate_queries_def bind_def os_listdir_def listdir_def emit_def py_assert_def
      raise_def)

text \<open>
  C8. A stage can begin although the artifact of the stage before it is nowhere. Take a
  first run with the defaults on evaluation data whose \<open>corpus.jsonl\<close> is a directory. The
  corpus step finds the name listed and runs \<open>cp\<close> without \<open>-r\<close>, which copies nothing; the
  exit status is dropped, so the step returns. Query generation then begins: it logs its
  first line, and only the assertion of line 66 ends the run. No \<open>corpus.jsonl\<close> was in
  the generated-data directory before the run, and none is there after it. This holds
  whatever the collaborators are.
\<close>

theorem query_generation_begins_without_corpus:
  "\<not> exists (fs corpus_is_directory) [''gen'', ''corpus.jsonl''] \<and>
   train tk demo_config corpus_is_directory =
     (Inl (AssertionError ''At least corpus should exist!''),
      \<lparr>fs = Dir [(''eval'', Dir [(''corpus.jsonl'', Dir [])]), (''gen'', Dir [])],
       trace = [Log (Corpus_does_not_exist [''gen''] (Some [''eval''])),
                Call (system_cp [''eval'', ''corpus.jsonl''] [''gen'']),
                Return (system_cp [''eval'', ''corpus.jsonl''] [''gen'']),
                Log No_generated_data_found]\<rparr>) \<and>
   stage_of (Return (system_cp [''eval'', ''corpus.jsonl''] [''gen''])) = Ensure_corpus \<and>
   stage_of (Log No_generated_data_found) = Generate_queries \<and>
   \<not> exists (fs (snd (train tk demo_config corpus_is_directory))) [''gen'', ''corpus.jsonl'']"
proof -
  have 1: "assertions tk demo_config corpus_is_directory = (Inr (), corpus_is_directory)"
    by (rule assertions_not_requested) simp_all
  have t: "train tk demo_config corpus_is_directory =
     (Inl (AssertionError ''At least corpus should exist!''),
      \<lparr>fs = Dir [(''eval'', Dir [(''corpus.jsonl'', Dir [])]), (''gen'', Dir [])],
       trace = [Log (Corpus_does_not_exist [''gen''] (Some [''eval''])),
                Call (system_cp [''eval'', ''corpus.jsonl''] [''gen'']),
                Return (system_cp [''eval'', ''corpus.jsonl''] [''gen'']),
                Log No_generated_data_found]\<rparr>)"
    by (simp only: train_def bind_def 1 directory_ensure_corpus directory_generate_queries
        prod.case sum.case)
  have "\<not> exists (fs corpus_is_directory) [''gen'', ''corpus.jsonl'']"
    by (simp add: exists_def corpus_is_directory_def)
  moreover have "\<not> exists (fs (snd (train tk demo_config corpus_is_directory))) [''gen'', ''corpus.jsonl'']"
    by (simp add: t exists_def)
  ultimately show ?thesis using t by simp
qed

end
